theory Spec2Isabelle
  imports Main "HOL-Library.Word" "HOL-Library.Monad_Syntax"
begin

unbundle bit_operations_syntax

section \<open>ECMA string descriptors of jerry-core (ecma-helpers-string.c)\<close>

text \<open>
  The embedding follows \<^verbatim>\<open>jerry-core/ecma/base/ecma-helpers-string.c\<close>.
  A computation of the engine is a value of type \<open>'a option\<close>: \<open>None\<close> stands for every
  way in which the C code does not return normally (a failed \<^verbatim>\<open>JERRY_ASSERT\<close> of a
  debug build, \<^verbatim>\<open>JERRY_UNREACHABLE\<close>, the allocator running out of cells, a read
  through a pointer that designates no live cell or past the end of a block).
  Functions that take a \<^verbatim>\<open>const ecma_string_t *\<close> and only read the descriptor take
  the descriptor's value; functions that allocate or change reference counters take
  and return the heap.
\<close>

subsection \<open>Data\<close>

type_synonym lit_utf8_byte_t = "8 word"
type_synonym lit_string_hash_t = nat
type_synonym mem_cpointer_t = "32 word"
type_synonym lit_cpointer_t = "32 word"
type_synonym lit_magic_string_id_t = "32 word"
type_synonym lit_magic_string_ex_id_t = "32 word"

datatype ecma_string_container_t =
    ECMA_STRING_CONTAINER_LIT_TABLE
  | ECMA_STRING_CONTAINER_HEAP_CHUNKS
  | ECMA_STRING_CONTAINER_HEAP_NUMBER
  | ECMA_STRING_CONTAINER_UINT32_IN_DESC
  | ECMA_STRING_CONTAINER_MAGIC_STRING
  | ECMA_STRING_CONTAINER_MAGIC_STRING_EX

text \<open>
  The descriptor. The union \<^verbatim>\<open>u\<close> is kept as its \<^verbatim>\<open>common_field\<close>, a 32-bit word;
  \<^verbatim>\<open>lit_cp\<close>, \<^verbatim>\<open>collection_cp\<close>, \<^verbatim>\<open>number_cp\<close>, \<^verbatim>\<open>uint32_number\<close>,
  \<^verbatim>\<open>magic_string_id\<close> and \<^verbatim>\<open>magic_string_ex_id\<close> are views of that word (every
  constructor clears \<^verbatim>\<open>common_field\<close> before it stores a member). The reference
  counter is a bit field of \<^verbatim>\<open>CONFIG_ECMA_REFERENCE_COUNTER_WIDTH\<close> bits; it is a
  natural number here and the wrap-around is written out where the code counts.
\<close>

record ecma_string_t =
  refs :: nat
  container :: ecma_string_container_t
  hash :: lit_string_hash_t
  u_common_field :: "32 word"

text \<open>
  A heap block that holds a string: the \<^verbatim>\<open>ecma_string_heap_header_t\<close> (two
  \<^verbatim>\<open>uint16_t\<close> fields) followed by the bytes of the block.
\<close>

record ecma_string_heap_header_t =
  hdr_size :: "16 word"
  hdr_length :: "16 word"
  chunk_bytes :: "lit_utf8_byte_t list"

text \<open>Records of the literal storage, as \<^verbatim>\<open>lit_cpointer_decompress\<close> returns them.\<close>

datatype lit_literal_t =
    LIT_STR_T "lit_utf8_byte_t list" lit_string_hash_t nat
  | LIT_MAGIC_STR_T lit_magic_string_id_t
  | LIT_MAGIC_STR_EX_T lit_magic_string_ex_id_t

text \<open>
  The engine heap: the pool of string descriptors (by address), the string blocks and
  the number cells (by compressed pointer), and the cells the allocators hand out next.
\<close>

record 'n ecma_heap =
  string_pool :: "nat \<rightharpoonup> ecma_string_t"
  chunk_pool :: "mem_cpointer_t \<rightharpoonup> ecma_string_heap_header_t"
  number_pool :: "mem_cpointer_t \<rightharpoonup> 'n"
  free_strings :: "nat list"
  free_cps :: "mem_cpointer_t list"

text \<open>
  What the file takes from the rest of the engine and from its build configuration.
  None of it is defined in \<^verbatim>\<open>ecma-helpers-string.c\<close>: the build flag
  \<^verbatim>\<open>JERRY_NDEBUG\<close>, the width of the reference counter, the two magic string tables
  (identifier to bytes), the literal storage, the hash functions, the CESU-8 codec
  (\<^verbatim>\<open>lit_is_cesu8_string_valid\<close>, \<^verbatim>\<open>lit_utf8_string_length\<close>,
  \<^verbatim>\<open>lit_get_unicode_char_size_by_utf8_first_byte\<close>), the number type \<open>'n\<close> with its
  conversions and comparisons, and the garbage collector. The number formatter
  \<^verbatim>\<open>ecma_number_to_utf8_string\<close> is given by the bytes it produces.
\<close>

record 'n ecma_externals =
  JERRY_NDEBUG :: bool
  CONFIG_ECMA_REFERENCE_COUNTER_WIDTH :: nat
  LIT_MAGIC_STRING_LENGTH_LIMIT :: nat
  magic_strings :: "lit_utf8_byte_t list list"
  magic_strings_ex :: "lit_utf8_byte_t list list"
  literals :: "lit_cpointer_t \<rightharpoonup> lit_literal_t"
  lit_utf8_string_calc_hash :: "lit_utf8_byte_t list \<Rightarrow> lit_string_hash_t"
  lit_utf8_string_hash_combine :: "lit_string_hash_t \<Rightarrow> lit_utf8_byte_t list \<Rightarrow> lit_string_hash_t"
  lit_is_cesu8_string_valid :: "lit_utf8_byte_t list \<Rightarrow> bool"
  lit_utf8_string_length :: "lit_utf8_byte_t list \<Rightarrow> nat"
  lit_get_unicode_char_size_by_utf8_first_byte :: "lit_utf8_byte_t \<Rightarrow> nat"
  ecma_number_to_uint32 :: "'n \<Rightarrow> 32 word"
  ecma_uint32_to_number :: "32 word \<Rightarrow> 'n"
  ecma_number_eq :: "'n \<Rightarrow> 'n \<Rightarrow> bool"
  ecma_number_is_nan :: "'n \<Rightarrow> bool"
  ecma_number_to_utf8_string :: "'n \<Rightarrow> lit_utf8_byte_t list"
  ecma_utf8_string_to_number :: "lit_utf8_byte_t list \<Rightarrow> 'n"
  ECMA_NUMBER_ZERO :: 'n
  ecma_lcache_invalidate_all :: "'n ecma_heap \<Rightarrow> 'n ecma_heap"
  ecma_gc_run :: "'n ecma_heap \<Rightarrow> 'n ecma_heap"

subsection \<open>Assertions, pointers and allocators\<close>

text \<open>\<^verbatim>\<open>JERRY_ASSERT\<close>: checked in a debug build, absent under \<^verbatim>\<open>JERRY_NDEBUG\<close>.\<close>

definition JERRY_ASSERT :: "'n ecma_externals \<Rightarrow> bool \<Rightarrow> unit option" where
  "JERRY_ASSERT env c = (if JERRY_NDEBUG env \<or> c then Some () else None)"

text \<open>An assertion whose condition is itself computed by the engine.\<close>

definition JERRY_ASSERT_call :: "'n ecma_externals \<Rightarrow> bool option \<Rightarrow> unit option" where
  "JERRY_ASSERT_call env c =
     (if JERRY_NDEBUG env then Some ()
      else (case c of Some True \<Rightarrow> Some () | _ \<Rightarrow> None))"

text \<open>
  An assertion whose condition is a call that works on the heap: a debug build goes on
  in the heap that the call leaves, a build with \<^verbatim>\<open>JERRY_NDEBUG\<close> does not make the call.
\<close>

definition JERRY_ASSERT_heap :: "'n ecma_externals \<Rightarrow> 'h \<Rightarrow> (bool \<times> 'h) option \<Rightarrow> 'h option" where
  "JERRY_ASSERT_heap env h c =
     (if JERRY_NDEBUG env then Some h
      else (case c of Some (True, h') \<Rightarrow> Some h' | _ \<Rightarrow> None))"

definition MEM_CP_NULL :: mem_cpointer_t where
  "MEM_CP_NULL = 0"

text \<open>\<^verbatim>\<open>ECMA_GET_NON_NULL_POINTER\<close>: the cell a compressed pointer designates.\<close>

definition ECMA_GET_NON_NULL_POINTER :: "(mem_cpointer_t \<rightharpoonup> 'a) \<Rightarrow> mem_cpointer_t \<Rightarrow> 'a option" where
  "ECMA_GET_NON_NULL_POINTER pool cp = (if cp = MEM_CP_NULL then None else pool cp)"

text \<open>
  Modelled from the spec: the descriptor pool \<^verbatim>\<open>ecma_alloc_string\<close> /
  \<^verbatim>\<open>ecma_dealloc_string\<close>, the number cells \<^verbatim>\<open>ecma_alloc_number\<close> /
  \<^verbatim>\<open>ecma_dealloc_number\<close> and the block allocator \<^verbatim>\<open>mem_heap_alloc_block\<close> /
  \<^verbatim>\<open>mem_heap_free_block\<close> are not in this file. An allocation takes the next free
  cell and fails (the engine stops with out-of-memory) when there is none; a release
  gives the cell back.
\<close>

definition ecma_alloc_string :: "'n ecma_heap \<Rightarrow> (nat \<times> 'n ecma_heap) option" where
  "ecma_alloc_string h =
     (case free_strings h of
        [] \<Rightarrow> None
      | p # ps \<Rightarrow> Some (p, h\<lparr>free_strings := ps\<rparr>))"

definition ecma_dealloc_string :: "'n ecma_heap \<Rightarrow> nat \<Rightarrow> 'n ecma_heap" where
  "ecma_dealloc_string h p =
     h\<lparr>string_pool := (string_pool h)(p := None), free_strings := free_strings h @ [p]\<rparr>"

definition mem_heap_alloc_block :: "'n ecma_heap \<Rightarrow> (mem_cpointer_t \<times> 'n ecma_heap) option" where
  "mem_heap_alloc_block h =
     (case free_cps h of
        [] \<Rightarrow> None
      | cp # cps \<Rightarrow> Some (cp, h\<lparr>free_cps := cps\<rparr>))"

definition mem_heap_free_block :: "'n ecma_heap \<Rightarrow> mem_cpointer_t \<Rightarrow> 'n ecma_heap" where
  "mem_heap_free_block h cp =
     h\<lparr>chunk_pool := (chunk_pool h)(cp := None), free_cps := free_cps h @ [cp]\<rparr>"

definition ecma_alloc_number :: "'n ecma_heap \<Rightarrow> (mem_cpointer_t \<times> 'n ecma_heap) option" where
  "ecma_alloc_number h =
     (case free_cps h of
        [] \<Rightarrow> None
      | cp # cps \<Rightarrow> Some (cp, h\<lparr>free_cps := cps\<rparr>))"

definition ecma_dealloc_number :: "'n ecma_heap \<Rightarrow> mem_cpointer_t \<Rightarrow> 'n ecma_heap" where
  "ecma_dealloc_number h cp =
     h\<lparr>number_pool := (number_pool h)(cp := None), free_cps := free_cps h @ [cp]\<rparr>"

text \<open>Storing a descriptor at an address of the pool.\<close>

definition set_string :: "'n ecma_heap \<Rightarrow> nat \<Rightarrow> ecma_string_t \<Rightarrow> 'n ecma_heap" where
  "set_string h p s = h\<lparr>string_pool := (string_pool h)(p \<mapsto> s)\<rparr>"

text \<open>
  \<^verbatim>\<open>memcpy\<close> into a caller's buffer: the bytes replace the front of the buffer; a copy
  longer than the buffer writes outside it.
\<close>

definition buffer_write :: "lit_utf8_byte_t list \<Rightarrow> lit_utf8_byte_t list \<Rightarrow> lit_utf8_byte_t list option" where
  "buffer_write buf bs =
     (if length bs \<le> length buf then Some (bs @ drop (length bs) buf) else None)"

text \<open>Reading \<open>n\<close> bytes from the start of a block.\<close>

definition block_read :: "lit_utf8_byte_t list \<Rightarrow> nat \<Rightarrow> lit_utf8_byte_t list option" where
  "block_read src n = (if n \<le> length src then Some (take n src) else None)"

subsection \<open>Magic string tables and the literal storage\<close>

text \<open>
  Modelled from the spec: the magic string tables are exposed as id to bytes, size and
  count lookups (\<^verbatim>\<open>lit_get_magic_string_utf8\<close>, \<^verbatim>\<open>lit_get_magic_string_size\<close>,
  \<^verbatim>\<open>LIT_MAGIC_STRING__COUNT\<close>, and the same for the extended table), and a lookup
  that tells whether a byte slice is the content of an entry
  (\<^verbatim>\<open>lit_is_utf8_string_magic\<close>, \<^verbatim>\<open>lit_is_ex_utf8_string_magic\<close>): the first
  identifier, in table order, whose bytes are the slice.
\<close>

definition lit_get_magic_string_utf8 :: "'n ecma_externals \<Rightarrow> lit_magic_string_id_t \<Rightarrow> lit_utf8_byte_t list option" where
  "lit_get_magic_string_utf8 env mid =
     (if unat mid < length (magic_strings env) then Some (magic_strings env ! unat mid) else None)"

definition lit_get_magic_string_ex_utf8 :: "'n ecma_externals \<Rightarrow> lit_magic_string_ex_id_t \<Rightarrow> lit_utf8_byte_t list option" where
  "lit_get_magic_string_ex_utf8 env mid =
     (if unat mid < length (magic_strings_ex env) then Some (magic_strings_ex env ! unat mid) else None)"

fun magic_table_lookup :: "lit_utf8_byte_t list list \<Rightarrow> lit_utf8_byte_t list \<Rightarrow> nat \<Rightarrow> nat option" where
  "magic_table_lookup [] bs i = None"
| "magic_table_lookup (m # ms) bs i = (if m = bs then Some i else magic_table_lookup ms bs (Suc i))"

definition lit_is_utf8_string_magic :: "'n ecma_externals \<Rightarrow> lit_utf8_byte_t list \<Rightarrow> lit_magic_string_id_t option" where
  "lit_is_utf8_string_magic env bs = map_option of_nat (magic_table_lookup (magic_strings env) bs 0)"

definition lit_is_ex_utf8_string_magic :: "'n ecma_externals \<Rightarrow> lit_utf8_byte_t list \<Rightarrow> lit_magic_string_ex_id_t option" where
  "lit_is_ex_utf8_string_magic env bs = map_option of_nat (magic_table_lookup (magic_strings_ex env) bs 0)"

text \<open>
  \<^verbatim>\<open>lit_get_literal_by_cp\<close> followed by \<^verbatim>\<open>JERRY_ASSERT (LIT_RECORD_IS_CHARSET (lit))\<close>
  and the accessors of a charset record: its bytes, its cached hash and its length in
  code units. On a record of another kind the accessors read what is not there.
\<close>

definition lit_charset_literal :: "'n ecma_externals \<Rightarrow> lit_cpointer_t \<Rightarrow> (lit_utf8_byte_t list \<times> lit_string_hash_t \<times> nat) option" where
  "lit_charset_literal env cp =
     (case literals env cp of
        Some (LIT_STR_T bs hs len) \<Rightarrow> Some (bs, hs, len)
      | _ \<Rightarrow> None)"

subsection \<open>Decimal form of a 32-bit unsigned number\<close>

text \<open>
  Modelled from the spec: \<^verbatim>\<open>ecma_uint32_to_utf8_string\<close>, the engine's
  uint32-to-decimal formatter, is not in this file. It writes the decimal digits of the
  value, most significant first, into a buffer that has room for them and returns
  their count.
\<close>

function uint32_decimal_digits :: "nat \<Rightarrow> lit_utf8_byte_t list" where
  "uint32_decimal_digits n =
     (if n < 10 then [of_nat (48 + n)]
      else uint32_decimal_digits (n div 10) @ [of_nat (48 + n mod 10)])"
  by pat_completeness auto
termination
  by (relation "measure (\<lambda>n. n)") auto

declare uint32_decimal_digits.simps [simp del]

definition ecma_uint32_to_utf8_string ::
  "32 word \<Rightarrow> lit_utf8_byte_t list \<Rightarrow> int \<Rightarrow> (int \<times> lit_utf8_byte_t list) option" where
  "ecma_uint32_to_utf8_string value out_buffer_p buffer_size =
     (if int (length (uint32_decimal_digits (unat value))) \<le> buffer_size
      then do {
        buf \<leftarrow> buffer_write out_buffer_p (uint32_decimal_digits (unat value));
        Some (int (length (uint32_decimal_digits (unat value))), buf)
      }
      else None)"

definition ECMA_MAX_CHARS_IN_STRINGIFIED_UINT32 :: nat where
  "ECMA_MAX_CHARS_IN_STRINGIFIED_UINT32 = 10"

subsection \<open>Size and length\<close>

definition nums_with_ascending_length :: "nat list" where
  "nums_with_ascending_length =
     [1, 10, 100, 1000, 10000, 100000, 1000000, 10000000, 100000000, 1000000000]"

definition max_uint32_len :: nat where
  "max_uint32_len = length nums_with_ascending_length"

function number_in_desc_size_loop :: "32 word \<Rightarrow> nat \<Rightarrow> nat" where
  "number_in_desc_size_loop uint32_number sz =
     (if sz < max_uint32_len \<and> nums_with_ascending_length ! sz \<le> unat uint32_number
      then number_in_desc_size_loop uint32_number (sz + 1)
      else sz)"
  by pat_completeness auto
termination
  by (relation "measure (\<lambda>(n, sz). max_uint32_len - sz)") auto

declare number_in_desc_size_loop.simps [simp del]

definition ecma_string_get_number_in_desc_size :: "32 word \<Rightarrow> nat" where
  "ecma_string_get_number_in_desc_size uint32_number = number_in_desc_size_loop uint32_number 1"

definition ecma_string_get_heap_number_size :: "'n ecma_externals \<Rightarrow> 'n ecma_heap \<Rightarrow> mem_cpointer_t \<Rightarrow> nat option" where
  "ecma_string_get_heap_number_size env h number_cp =
     do {
       num \<leftarrow> ECMA_GET_NON_NULL_POINTER (number_pool h) number_cp;
       Some (length (ecma_number_to_utf8_string env num))
     }"

definition ecma_string_get_length :: "'n ecma_externals \<Rightarrow> 'n ecma_heap \<Rightarrow> ecma_string_t \<Rightarrow> nat option" where
  "ecma_string_get_length env h string_p =
     (case container string_p of
        ECMA_STRING_CONTAINER_LIT_TABLE \<Rightarrow>
          do {
            (bs, hs, len) \<leftarrow> lit_charset_literal env (u_common_field string_p);
            Some len
          }
      | ECMA_STRING_CONTAINER_MAGIC_STRING \<Rightarrow>
          do {
            bs \<leftarrow> lit_get_magic_string_utf8 env (u_common_field string_p);
            Some (lit_utf8_string_length env bs)
          }
      | ECMA_STRING_CONTAINER_MAGIC_STRING_EX \<Rightarrow>
          do {
            bs \<leftarrow> lit_get_magic_string_ex_utf8 env (u_common_field string_p);
            Some (lit_utf8_string_length env bs)
          }
      | ECMA_STRING_CONTAINER_UINT32_IN_DESC \<Rightarrow>
          Some (ecma_string_get_number_in_desc_size (u_common_field string_p))
      | ECMA_STRING_CONTAINER_HEAP_NUMBER \<Rightarrow>
          ecma_string_get_heap_number_size env h (u_common_field string_p)
      | ECMA_STRING_CONTAINER_HEAP_CHUNKS \<Rightarrow>
          do {
            data \<leftarrow> ECMA_GET_NON_NULL_POINTER (chunk_pool h) (u_common_field string_p);
            Some (unat (hdr_length data))
          })"

definition ecma_string_get_size :: "'n ecma_externals \<Rightarrow> 'n ecma_heap \<Rightarrow> ecma_string_t \<Rightarrow> nat option" where
  "ecma_string_get_size env h string_p =
     (case container string_p of
        ECMA_STRING_CONTAINER_LIT_TABLE \<Rightarrow>
          do {
            (bs, hs, len) \<leftarrow> lit_charset_literal env (u_common_field string_p);
            Some (length bs)
          }
      | ECMA_STRING_CONTAINER_MAGIC_STRING \<Rightarrow>
          do {
            bs \<leftarrow> lit_get_magic_string_utf8 env (u_common_field string_p);
            Some (length bs)
          }
      | ECMA_STRING_CONTAINER_MAGIC_STRING_EX \<Rightarrow>
          do {
            bs \<leftarrow> lit_get_magic_string_ex_utf8 env (u_common_field string_p);
            Some (length bs)
          }
      | ECMA_STRING_CONTAINER_UINT32_IN_DESC \<Rightarrow>
          Some (ecma_string_get_number_in_desc_size (u_common_field string_p))
      | ECMA_STRING_CONTAINER_HEAP_NUMBER \<Rightarrow>
          ecma_string_get_heap_number_size env h (u_common_field string_p)
      | ECMA_STRING_CONTAINER_HEAP_CHUNKS \<Rightarrow>
          do {
            data \<leftarrow> ECMA_GET_NON_NULL_POINTER (chunk_pool h) (u_common_field string_p);
            Some (unat (hdr_size data))
          })"

subsection \<open>Conversion to bytes\<close>

definition ecma_string_to_utf8_string ::
  "'n ecma_externals \<Rightarrow> 'n ecma_heap \<Rightarrow> ecma_string_t \<Rightarrow> lit_utf8_byte_t list \<Rightarrow> int
     \<Rightarrow> (int \<times> lit_utf8_byte_t list) option" where
  "ecma_string_to_utf8_string env h string_desc_p buffer_p buffer_size =
     do {
       JERRY_ASSERT env (refs string_desc_p > 0);
       JERRY_ASSERT env (buffer_size \<ge> 0);
       sz \<leftarrow> ecma_string_get_size env h string_desc_p;
       let required_buffer_size = int sz;
       if required_buffer_size > buffer_size \<or> buffer_size = 0
       then Some (- required_buffer_size, buffer_p)
       else
         (case container string_desc_p of
            ECMA_STRING_CONTAINER_HEAP_CHUNKS \<Rightarrow>
              do {
                data \<leftarrow> ECMA_GET_NON_NULL_POINTER (chunk_pool h) (u_common_field string_desc_p);
                bs \<leftarrow> block_read (chunk_bytes data) (unat (hdr_size data));
                buf \<leftarrow> buffer_write buffer_p bs;
                Some (required_buffer_size, buf)
              }
          | ECMA_STRING_CONTAINER_LIT_TABLE \<Rightarrow>
              do {
                (cs, hs, len) \<leftarrow> lit_charset_literal env (u_common_field string_desc_p);
                bs \<leftarrow> block_read cs (nat required_buffer_size);
                buf \<leftarrow> buffer_write buffer_p bs;
                Some (required_buffer_size, buf)
              }
          | ECMA_STRING_CONTAINER_UINT32_IN_DESC \<Rightarrow>
              do {
                (bytes_copied, buf) \<leftarrow>
                   ecma_uint32_to_utf8_string (u_common_field string_desc_p) buffer_p
                     required_buffer_size;
                JERRY_ASSERT env (bytes_copied = required_buffer_size);
                Some (required_buffer_size, buf)
              }
          | ECMA_STRING_CONTAINER_HEAP_NUMBER \<Rightarrow>
              do {
                num \<leftarrow> ECMA_GET_NON_NULL_POINTER (number_pool h) (u_common_field string_desc_p);
                buf \<leftarrow> buffer_write buffer_p (ecma_number_to_utf8_string env num);
                JERRY_ASSERT env (required_buffer_size = int (length (ecma_number_to_utf8_string env num)));
                Some (required_buffer_size, buf)
              }
          | ECMA_STRING_CONTAINER_MAGIC_STRING \<Rightarrow>
              do {
                bs \<leftarrow> lit_get_magic_string_utf8 env (u_common_field string_desc_p);
                buf \<leftarrow> buffer_write buffer_p bs;
                JERRY_ASSERT env (required_buffer_size = int (length bs));
                Some (required_buffer_size, buf)
              }
          | ECMA_STRING_CONTAINER_MAGIC_STRING_EX \<Rightarrow>
              do {
                bs \<leftarrow> lit_get_magic_string_ex_utf8 env (u_common_field string_desc_p);
                buf \<leftarrow> buffer_write buffer_p bs;
                JERRY_ASSERT env (required_buffer_size = int (length bs));
                Some (required_buffer_size, buf)
              })
     }"

subsection \<open>Constructors\<close>

text \<open>
  Modelled from the spec: the macros \<^verbatim>\<open>MEM_DEFINE_LOCAL_ARRAY\<close> and
  \<^verbatim>\<open>MEM_FINALIZE_LOCAL_ARRAY\<close> are declared outside this file. They give a function
  a scratch buffer of \<open>n\<close> bytes, not yet written, until the function leaves the
  block. A local array of the C code is such a buffer too.
\<close>

definition MEM_DEFINE_LOCAL_ARRAY :: "nat \<Rightarrow> lit_utf8_byte_t list" where
  "MEM_DEFINE_LOCAL_ARRAY n = replicate n 0"

text \<open>
  The bytes of a block of \<open>n\<close> bytes that \<^verbatim>\<open>mem_heap_alloc_block\<close> has just
  returned: not yet written.
\<close>

definition mem_heap_block_bytes :: "nat \<Rightarrow> lit_utf8_byte_t list" where
  "mem_heap_block_bytes n = replicate n 0"

definition ecma_init_ecma_string_from_magic_string_id ::
  "'n ecma_externals \<Rightarrow> lit_magic_string_id_t \<Rightarrow> ecma_string_t option" where
  "ecma_init_ecma_string_from_magic_string_id env magic_string_id =
     do {
       bs \<leftarrow> lit_get_magic_string_utf8 env magic_string_id;
       Some \<lparr>refs = 1, container = ECMA_STRING_CONTAINER_MAGIC_STRING,
             hash = lit_utf8_string_calc_hash env bs, u_common_field = magic_string_id\<rparr>
     }"

definition ecma_init_ecma_string_from_magic_string_ex_id ::
  "'n ecma_externals \<Rightarrow> lit_magic_string_ex_id_t \<Rightarrow> ecma_string_t option" where
  "ecma_init_ecma_string_from_magic_string_ex_id env magic_string_ex_id =
     do {
       bs \<leftarrow> lit_get_magic_string_ex_utf8 env magic_string_ex_id;
       Some \<lparr>refs = 1, container = ECMA_STRING_CONTAINER_MAGIC_STRING_EX,
             hash = lit_utf8_string_calc_hash env bs, u_common_field = magic_string_ex_id\<rparr>
     }"

definition ecma_init_ecma_string_from_lit_cp ::
  "'n ecma_externals \<Rightarrow> lit_cpointer_t \<Rightarrow> ecma_string_t option" where
  "ecma_init_ecma_string_from_lit_cp env lit_cp =
     (case literals env lit_cp of
        None \<Rightarrow> None
      | Some (LIT_MAGIC_STR_T mid) \<Rightarrow> ecma_init_ecma_string_from_magic_string_id env mid
      | Some (LIT_MAGIC_STR_EX_T mid) \<Rightarrow> ecma_init_ecma_string_from_magic_string_ex_id env mid
      | Some (LIT_STR_T bs hs len) \<Rightarrow>
          Some \<lparr>refs = 1, container = ECMA_STRING_CONTAINER_LIT_TABLE,
                hash = hs, u_common_field = lit_cp\<rparr>)"

definition ecma_new_ecma_string_from_lit_cp ::
  "'n ecma_externals \<Rightarrow> 'n ecma_heap \<Rightarrow> lit_cpointer_t \<Rightarrow> (nat \<times> 'n ecma_heap) option" where
  "ecma_new_ecma_string_from_lit_cp env h lit_cp =
     do {
       (string_desc_p, h1) \<leftarrow> ecma_alloc_string h;
       s \<leftarrow> ecma_init_ecma_string_from_lit_cp env lit_cp;
       Some (string_desc_p, set_string h1 string_desc_p s)
     }"

definition ecma_new_ecma_string_from_magic_string_id ::
  "'n ecma_externals \<Rightarrow> 'n ecma_heap \<Rightarrow> lit_magic_string_id_t \<Rightarrow> (nat \<times> 'n ecma_heap) option" where
  "ecma_new_ecma_string_from_magic_string_id env h mid =
     do {
       JERRY_ASSERT env (unat mid < length (magic_strings env));
       (string_desc_p, h1) \<leftarrow> ecma_alloc_string h;
       s \<leftarrow> ecma_init_ecma_string_from_magic_string_id env mid;
       Some (string_desc_p, set_string h1 string_desc_p s)
     }"

definition ecma_new_ecma_string_from_magic_string_ex_id ::
  "'n ecma_externals \<Rightarrow> 'n ecma_heap \<Rightarrow> lit_magic_string_ex_id_t \<Rightarrow> (nat \<times> 'n ecma_heap) option" where
  "ecma_new_ecma_string_from_magic_string_ex_id env h mid =
     do {
       JERRY_ASSERT env (unat mid < length (magic_strings_ex env));
       (string_desc_p, h1) \<leftarrow> ecma_alloc_string h;
       s \<leftarrow> ecma_init_ecma_string_from_magic_string_ex_id env mid;
       Some (string_desc_p, set_string h1 string_desc_p s)
     }"

definition ecma_get_magic_string ::
  "'n ecma_externals \<Rightarrow> 'n ecma_heap \<Rightarrow> lit_magic_string_id_t \<Rightarrow> (nat \<times> 'n ecma_heap) option" where
  "ecma_get_magic_string env h mid = ecma_new_ecma_string_from_magic_string_id env h mid"

definition ecma_get_magic_string_ex ::
  "'n ecma_externals \<Rightarrow> 'n ecma_heap \<Rightarrow> lit_magic_string_ex_id_t \<Rightarrow> (nat \<times> 'n ecma_heap) option" where
  "ecma_get_magic_string_ex env h mid = ecma_new_ecma_string_from_magic_string_ex_id env h mid"

text \<open>
  \<^verbatim>\<open>ecma_new_ecma_string_from_utf8 (string_p, string_size)\<close>: the argument is the
  byte slice, its length the \<^verbatim>\<open>string_size\<close>. The two header fields are stored
  through the casts \<^verbatim>\<open>(uint16_t)\<close> of the source.
\<close>

definition ecma_new_ecma_string_from_utf8 ::
  "'n ecma_externals \<Rightarrow> 'n ecma_heap \<Rightarrow> lit_utf8_byte_t list \<Rightarrow> (nat \<times> 'n ecma_heap) option" where
  "ecma_new_ecma_string_from_utf8 env h string_p =
     do {
       JERRY_ASSERT env (lit_is_cesu8_string_valid env string_p);
       (case lit_is_utf8_string_magic env string_p of
          Some magic_string_id \<Rightarrow> ecma_get_magic_string env h magic_string_id
        | None \<Rightarrow>
            (case lit_is_ex_utf8_string_magic env string_p of
               Some magic_string_ex_id \<Rightarrow> ecma_get_magic_string_ex env h magic_string_ex_id
             | None \<Rightarrow>
                 do {
                   JERRY_ASSERT env (length string_p > 0);
                   (string_desc_p, h1) \<leftarrow> ecma_alloc_string h;
                   (data_p, h2) \<leftarrow> mem_heap_alloc_block h1;
                   let data = \<lparr>hdr_size = word_of_nat (length string_p),
                               hdr_length = word_of_nat (lit_utf8_string_length env string_p),
                               chunk_bytes = string_p\<rparr>;
                   JERRY_ASSERT env (data_p \<noteq> MEM_CP_NULL);
                   Some (string_desc_p,
                         set_string (h2\<lparr>chunk_pool := (chunk_pool h2)(data_p \<mapsto> data)\<rparr>) string_desc_p
                           \<lparr>refs = 1, container = ECMA_STRING_CONTAINER_HEAP_CHUNKS,
                            hash = lit_utf8_string_calc_hash env string_p,
                            u_common_field = data_p\<rparr>)
                 }))
     }"

definition ecma_new_ecma_string_from_uint32 ::
  "'n ecma_externals \<Rightarrow> 'n ecma_heap \<Rightarrow> 32 word \<Rightarrow> (nat \<times> 'n ecma_heap) option" where
  "ecma_new_ecma_string_from_uint32 env h uint32_number =
     do {
       (string_desc_p, h1) \<leftarrow> ecma_alloc_string h;
       (bytes_copied, byte_buf) \<leftarrow>
          ecma_uint32_to_utf8_string uint32_number
            (MEM_DEFINE_LOCAL_ARRAY ECMA_MAX_CHARS_IN_STRINGIFIED_UINT32)
            (int ECMA_MAX_CHARS_IN_STRINGIFIED_UINT32);
       Some (string_desc_p,
             set_string h1 string_desc_p
               \<lparr>refs = 1, container = ECMA_STRING_CONTAINER_UINT32_IN_DESC,
                hash = lit_utf8_string_calc_hash env (take (nat bytes_copied) byte_buf),
                u_common_field = uint32_number\<rparr>)
     }"

definition ecma_new_ecma_string_from_number ::
  "'n ecma_externals \<Rightarrow> 'n ecma_heap \<Rightarrow> 'n \<Rightarrow> (nat \<times> 'n ecma_heap) option" where
  "ecma_new_ecma_string_from_number env h num =
     (let uint32_num = ecma_number_to_uint32 env num in
      if ecma_number_eq env num (ecma_uint32_to_number env uint32_num)
      then ecma_new_ecma_string_from_uint32 env h uint32_num
      else
        (let str_buf = ecma_number_to_utf8_string env num in
         case lit_is_utf8_string_magic env str_buf of
           Some magic_string_id \<Rightarrow> ecma_get_magic_string env h magic_string_id
         | None \<Rightarrow>
             (case lit_is_ex_utf8_string_magic env str_buf of
                Some magic_string_ex_id \<Rightarrow> ecma_get_magic_string_ex env h magic_string_ex_id
              | None \<Rightarrow>
                  do {
                    (string_desc_p, h1) \<leftarrow> ecma_alloc_string h;
                    (num_p, h2) \<leftarrow> ecma_alloc_number h1;
                    Some (string_desc_p,
                          set_string (h2\<lparr>number_pool := (number_pool h2)(num_p \<mapsto> num)\<rparr>) string_desc_p
                            \<lparr>refs = 1, container = ECMA_STRING_CONTAINER_HEAP_NUMBER,
                             hash = lit_utf8_string_calc_hash env str_buf,
                             u_common_field = num_p\<rparr>)
                  })))"

subsection \<open>Comparison\<close>

text \<open>
  \<^verbatim>\<open>strncmp\<close> of the C library: at most \<open>n\<close> characters are compared, and the
  comparison ends at the first difference or after a NUL character.
\<close>

fun strncmp :: "lit_utf8_byte_t list \<Rightarrow> lit_utf8_byte_t list \<Rightarrow> nat \<Rightarrow> int option" where
  "strncmp s1 s2 0 = Some 0"
| "strncmp (c1 # s1) (c2 # s2) (Suc n) =
     (if c1 \<noteq> c2 then Some (uint c1 - uint c2)
      else if c1 = 0 then Some 0
      else strncmp s1 s2 n)"
| "strncmp s1 s2 (Suc n) = None"

text \<open>
  An operand of the cross-container comparison: its bytes, the block that
  \<^verbatim>\<open>mem_heap_alloc_block\<close> gave for them when the operand is neither a heap string nor
  a literal (\<^verbatim>\<open>is_utf8_string_on_heap\<close>), and the heap. The block is private to the
  comparison: its bytes are the value \<open>buf\<close>, and its cell is taken from the free
  cells until \<^verbatim>\<open>mem_heap_free_block\<close> gives it back.
\<close>

definition longpath_utf8_string ::
  "'n ecma_externals \<Rightarrow> 'n ecma_heap \<Rightarrow> ecma_string_t \<Rightarrow> nat
     \<Rightarrow> (lit_utf8_byte_t list \<times> mem_cpointer_t option \<times> 'n ecma_heap) option" where
  "longpath_utf8_string env h string_p strings_size =
     (if container string_p = ECMA_STRING_CONTAINER_HEAP_CHUNKS
      then do {
        data_p \<leftarrow> ECMA_GET_NON_NULL_POINTER (chunk_pool h) (u_common_field string_p);
        Some (chunk_bytes data_p, None, h)
      }
      else if container string_p = ECMA_STRING_CONTAINER_LIT_TABLE
      then do {
        (cs, hs, len) \<leftarrow> lit_charset_literal env (u_common_field string_p);
        Some (cs, None, h)
      }
      else do {
        (utf8_string_p, h1) \<leftarrow> mem_heap_alloc_block h;
        (bytes_copied, buf) \<leftarrow>
           ecma_string_to_utf8_string env h1 string_p (mem_heap_block_bytes strings_size)
             (int strings_size);
        JERRY_ASSERT env (bytes_copied > 0);
        Some (buf, Some utf8_string_p, h1)
      })"

text \<open>\<^verbatim>\<open>if (is_utf8_string_on_heap) mem_heap_free_block (...)\<close>.\<close>

definition longpath_free_block :: "'n ecma_heap \<Rightarrow> mem_cpointer_t option \<Rightarrow> 'n ecma_heap" where
  "longpath_free_block h on_heap =
     (case on_heap of None \<Rightarrow> h | Some utf8_string_p \<Rightarrow> mem_heap_free_block h utf8_string_p)"

text \<open>The long path after its first \<^verbatim>\<open>switch\<close>.\<close>

definition ecma_compare_ecma_strings_longpath_sizes ::
  "'n ecma_externals \<Rightarrow> 'n ecma_heap \<Rightarrow> ecma_string_t \<Rightarrow> ecma_string_t \<Rightarrow> (bool \<times> 'n ecma_heap) option" where
  "ecma_compare_ecma_strings_longpath_sizes env h string1_p string2_p =
     do {
       string1_size \<leftarrow> ecma_string_get_size env h string1_p;
       string2_size \<leftarrow> ecma_string_get_size env h string2_p;
       if string1_size \<noteq> string2_size then Some (False, h)
       else
         (let strings_size = string1_size in
          if strings_size = 0 then Some (True, h)
          else if container string1_p = container string2_p
          then
            (case container string1_p of
               ECMA_STRING_CONTAINER_HEAP_NUMBER \<Rightarrow>
                 do {
                   num1 \<leftarrow> ECMA_GET_NON_NULL_POINTER (number_pool h) (u_common_field string1_p);
                   num2 \<leftarrow> ECMA_GET_NON_NULL_POINTER (number_pool h) (u_common_field string2_p);
                   if ecma_number_is_nan env num1 \<and> ecma_number_is_nan env num2 then Some (True, h)
                   else Some (ecma_number_eq env num1 num2, h)
                 }
             | ECMA_STRING_CONTAINER_HEAP_CHUNKS \<Rightarrow>
                 do {
                   data1_p \<leftarrow> ECMA_GET_NON_NULL_POINTER (chunk_pool h) (u_common_field string1_p);
                   data2_p \<leftarrow> ECMA_GET_NON_NULL_POINTER (chunk_pool h) (u_common_field string2_p);
                   if hdr_length data1_p \<noteq> hdr_length data2_p then Some (False, h)
                   else do {
                     r \<leftarrow> strncmp (chunk_bytes data1_p) (chunk_bytes data2_p) strings_size;
                     Some (r = 0, h)
                   }
                 }
             | _ \<Rightarrow> None)
          else do {
            (utf8_string1_p, is_utf8_string1_on_heap, h1) \<leftarrow>
               longpath_utf8_string env h string1_p strings_size;
            (utf8_string2_p, is_utf8_string2_on_heap, h2) \<leftarrow>
               longpath_utf8_string env h1 string2_p strings_size;
            r \<leftarrow> strncmp utf8_string1_p utf8_string2_p strings_size;
            let is_equal = (r = 0);
            let h3 = longpath_free_block h2 is_utf8_string1_on_heap;
            let h4 = longpath_free_block h3 is_utf8_string2_on_heap;
            Some (is_equal, h4)
          })
     }"

definition ecma_compare_ecma_strings_longpath ::
  "'n ecma_externals \<Rightarrow> 'n ecma_heap \<Rightarrow> ecma_string_t \<Rightarrow> ecma_string_t \<Rightarrow> (bool \<times> 'n ecma_heap) option" where
  "ecma_compare_ecma_strings_longpath env h string1_p string2_p =
     (if container string1_p = container string2_p
      then
        (case container string1_p of
           ECMA_STRING_CONTAINER_LIT_TABLE \<Rightarrow>
             do {
               JERRY_ASSERT env (u_common_field string1_p \<noteq> u_common_field string2_p);
               Some (False, h)
             }
         | ECMA_STRING_CONTAINER_MAGIC_STRING \<Rightarrow>
             do {
               JERRY_ASSERT env (u_common_field string1_p \<noteq> u_common_field string2_p);
               Some (False, h)
             }
         | ECMA_STRING_CONTAINER_MAGIC_STRING_EX \<Rightarrow>
             do {
               JERRY_ASSERT env (u_common_field string1_p \<noteq> u_common_field string2_p);
               Some (False, h)
             }
         | ECMA_STRING_CONTAINER_UINT32_IN_DESC \<Rightarrow>
             do {
               JERRY_ASSERT env (u_common_field string1_p \<noteq> u_common_field string2_p);
               Some (False, h)
             }
         | _ \<Rightarrow>
             do {
               JERRY_ASSERT env (container string1_p = ECMA_STRING_CONTAINER_HEAP_NUMBER
                                 \<or> container string1_p = ECMA_STRING_CONTAINER_HEAP_CHUNKS);
               ecma_compare_ecma_strings_longpath_sizes env h string1_p string2_p
             })
      else ecma_compare_ecma_strings_longpath_sizes env h string1_p string2_p)"

text \<open>
  \<^verbatim>\<open>ecma_compare_ecma_strings\<close> returns the flag and the heap: the long path of two
  operands in different containers allocates and frees blocks.
\<close>

definition ecma_compare_ecma_strings ::
  "'n ecma_externals \<Rightarrow> 'n ecma_heap \<Rightarrow> ecma_string_t \<Rightarrow> ecma_string_t \<Rightarrow> (bool \<times> 'n ecma_heap) option" where
  "ecma_compare_ecma_strings env h string1_p string2_p =
     (let is_equal_hashes = (hash string1_p = hash string2_p) in
      if \<not> is_equal_hashes then Some (False, h)
      else
        (let is_equal_containers = (container string1_p = container string2_p);
             is_equal_fields = (u_common_field string1_p = u_common_field string2_p)
         in if is_equal_containers \<and> is_equal_fields then Some (True, h)
            else ecma_compare_ecma_strings_longpath env h string1_p string2_p))"

subsection \<open>Reference counting and copies\<close>

text \<open>\<^verbatim>\<open>refs++\<close> and \<^verbatim>\<open>refs--\<close> on the bit field.\<close>

definition refs_increment :: "'n ecma_externals \<Rightarrow> nat \<Rightarrow> nat" where
  "refs_increment env r = (r + 1) mod 2 ^ CONFIG_ECMA_REFERENCE_COUNTER_WIDTH env"

definition refs_decrement :: "'n ecma_externals \<Rightarrow> nat \<Rightarrow> nat" where
  "refs_decrement env r =
     (r + 2 ^ CONFIG_ECMA_REFERENCE_COUNTER_WIDTH env - 1) mod 2 ^ CONFIG_ECMA_REFERENCE_COUNTER_WIDTH env"

definition ecma_copy_ecma_string ::
  "'n ecma_externals \<Rightarrow> 'n ecma_heap \<Rightarrow> nat \<Rightarrow> (nat \<times> 'n ecma_heap) option" where
  "ecma_copy_ecma_string env h string_desc_p =
     do {
       s \<leftarrow> string_pool h string_desc_p;
       JERRY_ASSERT env (refs s > 0);
       (new_str_p, h') \<leftarrow>
          (case container s of
             ECMA_STRING_CONTAINER_LIT_TABLE \<Rightarrow>
               do {
                 (new_str_p, h1) \<leftarrow> ecma_alloc_string h;
                 Some (new_str_p, set_string h1 new_str_p (s\<lparr>refs := 1\<rparr>))
               }
           | ECMA_STRING_CONTAINER_UINT32_IN_DESC \<Rightarrow>
               do {
                 (new_str_p, h1) \<leftarrow> ecma_alloc_string h;
                 Some (new_str_p, set_string h1 new_str_p (s\<lparr>refs := 1\<rparr>))
               }
           | ECMA_STRING_CONTAINER_MAGIC_STRING \<Rightarrow>
               do {
                 (new_str_p, h1) \<leftarrow> ecma_alloc_string h;
                 Some (new_str_p, set_string h1 new_str_p (s\<lparr>refs := 1\<rparr>))
               }
           | ECMA_STRING_CONTAINER_MAGIC_STRING_EX \<Rightarrow>
               do {
                 (new_str_p, h1) \<leftarrow> ecma_alloc_string h;
                 Some (new_str_p, set_string h1 new_str_p (s\<lparr>refs := 1\<rparr>))
               }
           | ECMA_STRING_CONTAINER_HEAP_NUMBER \<Rightarrow>
               do {
                 num_p \<leftarrow> ECMA_GET_NON_NULL_POINTER (number_pool h) (u_common_field s);
                 ecma_new_ecma_string_from_number env h num_p
               }
           | ECMA_STRING_CONTAINER_HEAP_CHUNKS \<Rightarrow>
               do {
                 (new_str_p, h1) \<leftarrow> ecma_alloc_string h;
                 let new_str = s;
                 data_p \<leftarrow> ECMA_GET_NON_NULL_POINTER (chunk_pool h1) (u_common_field s);
                 (new_data_p, h2) \<leftarrow> mem_heap_alloc_block h1;
                 bs \<leftarrow> block_read (chunk_bytes data_p) (unat (hdr_size data_p));
                 let h3 = h2\<lparr>chunk_pool := (chunk_pool h2)(new_data_p \<mapsto> data_p\<lparr>chunk_bytes := bs\<rparr>)\<rparr>;
                 JERRY_ASSERT env (u_common_field s \<noteq> MEM_CP_NULL);
                 Some (new_str_p, set_string h3 new_str_p (new_str\<lparr>u_common_field := u_common_field s\<rparr>))
               });
       new_str \<leftarrow> string_pool h' new_str_p;
       h'' \<leftarrow> JERRY_ASSERT_heap env h' (ecma_compare_ecma_strings env h' s new_str);
       Some (new_str_p, h'')
     }"

definition ecma_copy_or_ref_ecma_string ::
  "'n ecma_externals \<Rightarrow> 'n ecma_heap \<Rightarrow> nat \<Rightarrow> (nat \<times> 'n ecma_heap) option" where
  "ecma_copy_or_ref_ecma_string env h string_desc_p =
     do {
       s \<leftarrow> string_pool h string_desc_p;
       JERRY_ASSERT env (refs s > 0);
       let s1 = s\<lparr>refs := refs_increment env (refs s)\<rparr>;
       let h1 = set_string h string_desc_p s1;
       if refs s1 = 0
       then do {
         let s2 = s1\<lparr>refs := refs_decrement env (refs s1)\<rparr>;
         let h2 = set_string h1 string_desc_p s2;
         let current_refs = refs s2;
         let h3 = ecma_gc_run env (ecma_lcache_invalidate_all env h2);
         s3 \<leftarrow> string_pool h3 string_desc_p;
         if current_refs = refs s3
         then ecma_copy_ecma_string env h3 string_desc_p
         else do {
           let s4 = s3\<lparr>refs := refs_increment env (refs s3)\<rparr>;
           JERRY_ASSERT env (refs s4 \<noteq> 0);
           Some (string_desc_p, set_string h3 string_desc_p s4)
         }
       }
       else Some (string_desc_p, h1)
     }"

definition ecma_deref_ecma_string ::
  "'n ecma_externals \<Rightarrow> 'n ecma_heap \<Rightarrow> nat \<Rightarrow> 'n ecma_heap option" where
  "ecma_deref_ecma_string env h string_p =
     do {
       s \<leftarrow> string_pool h string_p;
       JERRY_ASSERT env (refs s \<noteq> 0);
       let s1 = s\<lparr>refs := refs_decrement env (refs s)\<rparr>;
       let h1 = set_string h string_p s1;
       if refs s1 \<noteq> 0 then Some h1
       else do {
         h2 \<leftarrow>
           (case container s1 of
              ECMA_STRING_CONTAINER_HEAP_CHUNKS \<Rightarrow>
                do {
                  data_p \<leftarrow> ECMA_GET_NON_NULL_POINTER (chunk_pool h1) (u_common_field s1);
                  Some (mem_heap_free_block h1 (u_common_field s1))
                }
            | ECMA_STRING_CONTAINER_HEAP_NUMBER \<Rightarrow>
                do {
                  num_p \<leftarrow> ECMA_GET_NON_NULL_POINTER (number_pool h1) (u_common_field s1);
                  Some (ecma_dealloc_number h1 (u_common_field s1))
                }
            | _ \<Rightarrow> Some h1);
         Some (ecma_dealloc_string h2 string_p)
       }
     }"

subsection \<open>Concatenation\<close>

text \<open>
  The two operands are written one after the other into the new block: the second
  call of \<^verbatim>\<open>ecma_string_to_utf8_string\<close> gets the block from offset
  \<^verbatim>\<open>str1_size\<close> on. Sizes are \<^verbatim>\<open>lit_utf8_size_t\<close>, 32 bits wide.
\<close>

definition ecma_concat_ecma_strings ::
  "'n ecma_externals \<Rightarrow> 'n ecma_heap \<Rightarrow> nat \<Rightarrow> nat \<Rightarrow> (nat \<times> 'n ecma_heap) option" where
  "ecma_concat_ecma_strings env h string1_p string2_p =
     do {
       s1 \<leftarrow> string_pool h string1_p;
       s2 \<leftarrow> string_pool h string2_p;
       str1_size \<leftarrow> ecma_string_get_size env h s1;
       str2_size \<leftarrow> ecma_string_get_size env h s2;
       if str1_size = 0 then ecma_copy_or_ref_ecma_string env h string2_p
       else if str2_size = 0 then ecma_copy_or_ref_ecma_string env h string1_p
       else do {
         let new_size = (str1_size + str2_size) mod 2 ^ 32;
         (string_desc_p, h1) \<leftarrow> ecma_alloc_string h;
         (data_p, h2) \<leftarrow> mem_heap_alloc_block h1;
         let block = mem_heap_block_bytes new_size;
         (bytes_copied1, block1) \<leftarrow>
            ecma_string_to_utf8_string env h2 s1 block (int str1_size);
         JERRY_ASSERT env (bytes_copied1 > 0);
         (bytes_copied2, rest2) \<leftarrow>
            ecma_string_to_utf8_string env h2 s2 (drop str1_size block1) (int str2_size);
         JERRY_ASSERT env (bytes_copied2 > 0);
         let block2 = take str1_size block1 @ rest2;
         len1 \<leftarrow> ecma_string_get_length env h2 s1;
         len2 \<leftarrow> ecma_string_get_length env h2 s2;
         let data = \<lparr>hdr_size = word_of_nat new_size,
                     hdr_length = word_of_nat ((len1 + len2) mod 2 ^ 32),
                     chunk_bytes = block2\<rparr>;
         JERRY_ASSERT env (data_p \<noteq> MEM_CP_NULL);
         Some (string_desc_p,
               set_string (h2\<lparr>chunk_pool := (chunk_pool h2)(data_p \<mapsto> data)\<rparr>) string_desc_p
                 \<lparr>refs = 1, container = ECMA_STRING_CONTAINER_HEAP_CHUNKS,
                  hash = lit_utf8_string_hash_combine env (hash s1)
                           (take str2_size (drop str1_size block2)),
                  u_common_field = data_p\<rparr>)
       }
     }"

subsection \<open>Numbers and array indices\<close>

text \<open>
  Modelled from the spec: \<^verbatim>\<open>ECMA_MAX_VALUE_OF_VALID_ARRAY_INDEX\<close> is declared
  outside this file; it is the reserved sentinel \<open>2^32 - 1\<close>.
\<close>

definition ECMA_MAX_VALUE_OF_VALID_ARRAY_INDEX :: "32 word" where
  "ECMA_MAX_VALUE_OF_VALID_ARRAY_INDEX = 0xFFFFFFFF"

definition ecma_string_to_number ::
  "'n ecma_externals \<Rightarrow> 'n ecma_heap \<Rightarrow> ecma_string_t \<Rightarrow> 'n option" where
  "ecma_string_to_number env h str_p =
     (case container str_p of
        ECMA_STRING_CONTAINER_UINT32_IN_DESC \<Rightarrow>
          Some (ecma_uint32_to_number env (u_common_field str_p))
      | ECMA_STRING_CONTAINER_HEAP_NUMBER \<Rightarrow>
          ECMA_GET_NON_NULL_POINTER (number_pool h) (u_common_field str_p)
      | _ \<Rightarrow>
          do {
            string_size \<leftarrow> ecma_string_get_size env h str_p;
            if string_size = 0 then Some (ECMA_NUMBER_ZERO env)
            else do {
              (bytes_copied, str_buffer_p) \<leftarrow>
                 ecma_string_to_utf8_string env h str_p (MEM_DEFINE_LOCAL_ARRAY string_size)
                   (int string_size);
              JERRY_ASSERT env (bytes_copied > 0);
              Some (ecma_utf8_string_to_number env (take string_size str_buffer_p))
            }
          })"

text \<open>
  \<^verbatim>\<open>ecma_string_get_array_index\<close> returns the flag and the value stored through
  \<^verbatim>\<open>out_index_p\<close>, and the heap, in which the temporary descriptor of the second
  branch has been allocated and released.
\<close>

definition ecma_string_get_array_index ::
  "'n ecma_externals \<Rightarrow> 'n ecma_heap \<Rightarrow> ecma_string_t \<Rightarrow> (bool \<times> 32 word \<times> 'n ecma_heap) option" where
  "ecma_string_get_array_index env h str_p =
     do {
       (is_array_index, out_index, h') \<leftarrow>
          (if container str_p = ECMA_STRING_CONTAINER_UINT32_IN_DESC
           then Some (True, u_common_field str_p, h)
           else do {
             num \<leftarrow> ecma_string_to_number env h str_p;
             let out_index = ecma_number_to_uint32 env num;
             (to_uint32_to_string_p, h1) \<leftarrow> ecma_new_ecma_string_from_uint32 env h out_index;
             t \<leftarrow> string_pool h1 to_uint32_to_string_p;
             (is_array_index, h1') \<leftarrow> ecma_compare_ecma_strings env h1 str_p t;
             h2 \<leftarrow> ecma_deref_ecma_string env h1' to_uint32_to_string_p;
             Some (is_array_index, out_index, h2)
           });
       Some (is_array_index \<and> out_index \<noteq> ECMA_MAX_VALUE_OF_VALID_ARRAY_INDEX, out_index, h')
     }"

subsection \<open>Magic string recognition\<close>

definition ecma_is_string_magic_longpath ::
  "'n ecma_externals \<Rightarrow> 'n ecma_heap \<Rightarrow> ecma_string_t \<Rightarrow> lit_magic_string_id_t option option" where
  "ecma_is_string_magic_longpath env h string_p =
     do {
       (copied, utf8_string_buffer) \<leftarrow>
          ecma_string_to_utf8_string env h string_p
            (MEM_DEFINE_LOCAL_ARRAY (LIT_MAGIC_STRING_LENGTH_LIMIT env))
            (int (LIT_MAGIC_STRING_LENGTH_LIMIT env));
       JERRY_ASSERT env (copied > 0);
       Some (lit_is_utf8_string_magic env (take (nat copied) utf8_string_buffer))
     }"

text \<open>
  \<^verbatim>\<open>ecma_is_string_magic\<close> returns the flag and, when it is set, the identifier
  stored through \<^verbatim>\<open>out_id_p\<close>.
\<close>

definition ecma_is_string_magic ::
  "'n ecma_externals \<Rightarrow> 'n ecma_heap \<Rightarrow> ecma_string_t \<Rightarrow> (bool \<times> lit_magic_string_id_t option) option" where
  "ecma_is_string_magic env h string_p =
     (if container string_p = ECMA_STRING_CONTAINER_MAGIC_STRING
      then do {
        JERRY_ASSERT env (unat (u_common_field string_p) < length (magic_strings env));
        Some (True, Some (u_common_field string_p))
      }
      else do {
        JERRY_ASSERT_call env
          (do {
             len \<leftarrow> ecma_string_get_length env h string_p;
             if len > LIT_MAGIC_STRING_LENGTH_LIMIT env then Some True
             else do {
               found \<leftarrow> ecma_is_string_magic_longpath env h string_p;
               Some (found = None)
             }
           });
        Some (False, None)
      })"

subsection \<open>Substring\<close>

text \<open>
  The two \<^verbatim>\<open>while\<close> loops of \<^verbatim>\<open>ecma_string_substr\<close>: a cursor at offset \<open>p\<close> of
  the buffer moves over \<open>n\<close> code units, each time by the size that the byte under the
  cursor announces.
\<close>

fun skip_code_units :: "'n ecma_externals \<Rightarrow> lit_utf8_byte_t list \<Rightarrow> nat \<Rightarrow> nat \<Rightarrow> nat option" where
  "skip_code_units env buf p 0 = Some p"
| "skip_code_units env buf p (Suc n) =
     (if p < length buf
      then skip_code_units env buf (p + lit_get_unicode_char_size_by_utf8_first_byte env (buf ! p)) n
      else None)"

definition ecma_string_substr ::
  "'n ecma_externals \<Rightarrow> 'n ecma_heap \<Rightarrow> ecma_string_t \<Rightarrow> nat \<Rightarrow> nat \<Rightarrow> (nat \<times> 'n ecma_heap) option" where
  "ecma_string_substr env h string_p start_pos end_pos =
     do {
       JERRY_ASSERT_call env
         (do { string_length \<leftarrow> ecma_string_get_length env h string_p;
               Some (start_pos \<le> string_length) });
       JERRY_ASSERT_call env
         (do { string_length \<leftarrow> ecma_string_get_length env h string_p;
               Some (end_pos \<le> string_length) });
       if start_pos < end_pos
       then do {
         buffer_size \<leftarrow> ecma_string_get_size env h string_p;
         (sz, utf8_str_p) \<leftarrow>
            ecma_string_to_utf8_string env h string_p (MEM_DEFINE_LOCAL_ARRAY buffer_size)
              (int buffer_size);
         JERRY_ASSERT env (sz \<ge> 0);
         start_p \<leftarrow> skip_code_units env utf8_str_p 0 start_pos;
         end_p \<leftarrow> skip_code_units env utf8_str_p start_p (end_pos - start_pos);
         bs \<leftarrow> block_read (drop start_p utf8_str_p) (end_p - start_p);
         ecma_new_ecma_string_from_utf8 env h bs
       }
       else ecma_new_ecma_string_from_utf8 env h []
     }"

section \<open>Specification notions\<close>

text \<open>
  The logical bytes of a descriptor, container by container: the bytes of the literal,
  the entry of the magic string table, the decimal digits of the stored number, the
  canonical form of the stored heap number, the bytes that the header of the heap
  block announces.
\<close>

definition ecma_string_bytes :: "'n ecma_externals \<Rightarrow> 'n ecma_heap \<Rightarrow> ecma_string_t \<Rightarrow> lit_utf8_byte_t list option" where
  "ecma_string_bytes env h s =
     (case container s of
        ECMA_STRING_CONTAINER_LIT_TABLE \<Rightarrow>
          map_option fst (lit_charset_literal env (u_common_field s))
      | ECMA_STRING_CONTAINER_MAGIC_STRING \<Rightarrow> lit_get_magic_string_utf8 env (u_common_field s)
      | ECMA_STRING_CONTAINER_MAGIC_STRING_EX \<Rightarrow> lit_get_magic_string_ex_utf8 env (u_common_field s)
      | ECMA_STRING_CONTAINER_UINT32_IN_DESC \<Rightarrow> Some (uint32_decimal_digits (unat (u_common_field s)))
      | ECMA_STRING_CONTAINER_HEAP_NUMBER \<Rightarrow>
          map_option (ecma_number_to_utf8_string env)
            (ECMA_GET_NON_NULL_POINTER (number_pool h) (u_common_field s))
      | ECMA_STRING_CONTAINER_HEAP_CHUNKS \<Rightarrow>
          do {
            data \<leftarrow> ECMA_GET_NON_NULL_POINTER (chunk_pool h) (u_common_field s);
            block_read (chunk_bytes data) (unat (hdr_size data))
          })"

text \<open>
  A descriptor in good order: its reference counter is positive, it designates a live
  cell, and the header of its heap block tells the size of the bytes that follow.
\<close>

definition ecma_string_ok :: "'n ecma_externals \<Rightarrow> 'n ecma_heap \<Rightarrow> ecma_string_t \<Rightarrow> bool" where
  "ecma_string_ok env h s =
     (refs s > 0 \<and>
      (case container s of
         ECMA_STRING_CONTAINER_HEAP_CHUNKS \<Rightarrow>
           (case ECMA_GET_NON_NULL_POINTER (chunk_pool h) (u_common_field s) of
              None \<Rightarrow> False
            | Some data \<Rightarrow> unat (hdr_size data) = length (chunk_bytes data))
       | ECMA_STRING_CONTAINER_HEAP_NUMBER \<Rightarrow>
           ECMA_GET_NON_NULL_POINTER (number_pool h) (u_common_field s) \<noteq> None
       | ECMA_STRING_CONTAINER_LIT_TABLE \<Rightarrow> lit_charset_literal env (u_common_field s) \<noteq> None
       | ECMA_STRING_CONTAINER_MAGIC_STRING \<Rightarrow> unat (u_common_field s) < length (magic_strings env)
       | ECMA_STRING_CONTAINER_MAGIC_STRING_EX \<Rightarrow> unat (u_common_field s) < length (magic_strings_ex env)
       | ECMA_STRING_CONTAINER_UINT32_IN_DESC \<Rightarrow> True))"

text \<open>
  The length in code units that the header of a heap block, or the record of a literal,
  keeps is the length that the codec counts in the bytes.
\<close>

definition ecma_string_length_ok :: "'n ecma_externals \<Rightarrow> 'n ecma_heap \<Rightarrow> ecma_string_t \<Rightarrow> bool" where
  "ecma_string_length_ok env h s =
     (case container s of
        ECMA_STRING_CONTAINER_HEAP_CHUNKS \<Rightarrow>
          (case ECMA_GET_NON_NULL_POINTER (chunk_pool h) (u_common_field s) of
             None \<Rightarrow> False
           | Some data \<Rightarrow> unat (hdr_length data) = lit_utf8_string_length env (chunk_bytes data))
      | ECMA_STRING_CONTAINER_LIT_TABLE \<Rightarrow>
          (case lit_charset_literal env (u_common_field s) of
             None \<Rightarrow> False
           | Some (cs, hs, len) \<Rightarrow> len = lit_utf8_string_length env cs)
      | _ \<Rightarrow> True)"

text \<open>
  Modelled from the spec: the variable-width encoding of the engine is CESU-8, and its
  codec is not in this file. A code unit is encoded in one byte \<open>0xxxxxxx\<close>, in two
  bytes \<open>110xxxxx 10xxxxxx\<close> or in three bytes \<open>1110xxxx 10xxxxxx 10xxxxxx\<close>.
  \<open>cesu8_unit_size\<close> is the number of bytes that a first byte announces (0 for a
  byte that starts no code unit), and \<open>cesu8_code_units\<close> splits a byte sequence into
  the byte groups of its code units, when it is made of whole code units.
\<close>

definition cesu8_unit_size :: "lit_utf8_byte_t \<Rightarrow> nat" where
  "cesu8_unit_size b =
     (if b < 0x80 then 1
      else if 0xC0 \<le> b \<and> b < 0xE0 then 2
      else if 0xE0 \<le> b \<and> b < 0xF0 then 3
      else 0)"

definition cesu8_continuation_byte :: "lit_utf8_byte_t \<Rightarrow> bool" where
  "cesu8_continuation_byte b = (0x80 \<le> b \<and> b < 0xC0)"

function cesu8_code_units :: "lit_utf8_byte_t list \<Rightarrow> lit_utf8_byte_t list list option" where
  "cesu8_code_units [] = Some []"
| "cesu8_code_units (b # bs) =
     (if cesu8_unit_size b = 0 \<or> length bs < cesu8_unit_size b - 1
         \<or> \<not> list_all cesu8_continuation_byte (take (cesu8_unit_size b - 1) bs)
      then None
      else
        (case cesu8_code_units (drop (cesu8_unit_size b - 1) bs) of
           None \<Rightarrow> None
         | Some us \<Rightarrow> Some ((b # take (cesu8_unit_size b - 1) bs) # us)))"
  by pat_completeness auto
termination
  by (relation "measure length") auto

declare cesu8_code_units.simps [simp del]

text \<open>The bytes of the code units \<open>i\<close> to \<open>j - 1\<close> of a sequence of code units.\<close>

definition code_unit_slice :: "lit_utf8_byte_t list list \<Rightarrow> nat \<Rightarrow> nat \<Rightarrow> lit_utf8_byte_t list" where
  "code_unit_slice us i j = concat (take (j - i) (drop i us))"

text \<open>
  The codec of the engine agrees with CESU-8 on the code units \<open>us\<close>: for the first
  byte of each of them \<^verbatim>\<open>lit_get_unicode_char_size_by_utf8_first_byte\<close> returns the
  size of the code unit, and on every run of them the validator
  \<^verbatim>\<open>lit_is_cesu8_string_valid\<close> accepts the bytes and \<^verbatim>\<open>lit_utf8_string_length\<close>
  counts the code units.
\<close>

definition cesu8_codec_ok :: "'n ecma_externals \<Rightarrow> lit_utf8_byte_t list list \<Rightarrow> bool" where
  "cesu8_codec_ok env us =
     ((\<forall>u \<in> set us. lit_get_unicode_char_size_by_utf8_first_byte env (hd u) = length u)
      \<and> (\<forall>j \<le> length us. \<forall>i \<le> j.
            lit_is_cesu8_string_valid env (code_unit_slice us i j)
            \<and> lit_utf8_string_length env (code_unit_slice us i j) = j - i))"

text \<open>
  A heap in good order: the free cells are distinct, none of them is live, and the
  null pointer is not among them.
\<close>

definition heap_ok :: "'n ecma_heap \<Rightarrow> bool" where
  "heap_ok h =
     (distinct (free_strings h) \<and> distinct (free_cps h)
      \<and> (\<forall>p \<in> set (free_strings h). string_pool h p = None)
      \<and> (\<forall>cp \<in> set (free_cps h).
            cp \<noteq> MEM_CP_NULL \<and> chunk_pool h cp = None \<and> number_pool h cp = None))"

text \<open>
  The container that a constructor from bytes has to choose: the magic string with the
  first matching identifier, else the extended magic string, else a heap string.
\<close>

definition canonical_for :: "'n ecma_externals \<Rightarrow> lit_utf8_byte_t list \<Rightarrow> ecma_string_t \<Rightarrow> bool" where
  "canonical_for env bs s =
     (case lit_is_utf8_string_magic env bs of
        Some mid \<Rightarrow> container s = ECMA_STRING_CONTAINER_MAGIC_STRING \<and> u_common_field s = mid
      | None \<Rightarrow>
          (case lit_is_ex_utf8_string_magic env bs of
             Some mid \<Rightarrow> container s = ECMA_STRING_CONTAINER_MAGIC_STRING_EX \<and> u_common_field s = mid
           | None \<Rightarrow> container s = ECMA_STRING_CONTAINER_HEAP_CHUNKS))"

text \<open>
  What a constructor from the bytes \<open>bs\<close> leaves: a descriptor \<open>s\<close> at a new address
  \<open>p\<close>, in good order, with these bytes, their hash and their length, in a heap that
  keeps every block and number it had and that has lost a free block only to a heap
  string.
\<close>

definition new_string_of ::
  "'n ecma_externals \<Rightarrow> 'n ecma_heap \<Rightarrow> lit_utf8_byte_t list \<Rightarrow> nat \<Rightarrow> 'n ecma_heap \<Rightarrow> ecma_string_t \<Rightarrow> bool" where
  "new_string_of env h bs p h' s =
     (string_pool h p = None \<and> string_pool h' = (string_pool h)(p \<mapsto> s)
      \<and> number_pool h' = number_pool h \<and> chunk_pool h \<subseteq>\<^sub>m chunk_pool h'
      \<and> heap_ok h'
      \<and> length (free_strings h) \<le> length (free_strings h') + 1
      \<and> length (free_cps h) \<le> length (free_cps h') + 1
      \<and> (container s \<noteq> ECMA_STRING_CONTAINER_HEAP_CHUNKS \<longrightarrow> free_cps h' = free_cps h)
      \<and> refs s = 1 \<and> ecma_string_ok env h' s
      \<and> ecma_string_bytes env h' s = Some bs
      \<and> hash s = lit_utf8_string_calc_hash env bs
      \<and> ecma_string_get_length env h' s = Some (lit_utf8_string_length env bs)
      \<and> canonical_for env bs s)"

text \<open>The cached hash of a descriptor is the hash of its logical bytes.\<close>

definition ecma_string_hash_ok :: "'n ecma_externals \<Rightarrow> 'n ecma_heap \<Rightarrow> ecma_string_t \<Rightarrow> bool" where
  "ecma_string_hash_ok env h s =
     (case ecma_string_bytes env h s of
        None \<Rightarrow> False
      | Some bs \<Rightarrow> hash s = lit_utf8_string_calc_hash env bs)"

text \<open>
  Invariants 1 and 2 for a heap number: the number is not a 32-bit unsigned integer and
  its text is not a magic string (the constructor from a number would else have chosen
  another container), and the number, when it is not NaN, is equal to itself.
\<close>

definition heap_number_canonical :: "'n ecma_externals \<Rightarrow> 'n ecma_heap \<Rightarrow> ecma_string_t \<Rightarrow> bool" where
  "heap_number_canonical env h s =
     (container s = ECMA_STRING_CONTAINER_HEAP_NUMBER \<longrightarrow>
        (case ECMA_GET_NON_NULL_POINTER (number_pool h) (u_common_field s) of
           None \<Rightarrow> False
         | Some num \<Rightarrow>
             \<not> ecma_number_eq env num (ecma_uint32_to_number env (ecma_number_to_uint32 env num))
             \<and> lit_is_utf8_string_magic env (ecma_number_to_utf8_string env num) = None
             \<and> lit_is_ex_utf8_string_magic env (ecma_number_to_utf8_string env num) = None
             \<and> (ecma_number_is_nan env num \<or> ecma_number_eq env num num)))"

text \<open>
  What is asked of the collector when \<^verbatim>\<open>ecma_copy_or_ref_ecma_string\<close> calls it for
  the descriptor \<open>s\<close> at the address \<open>p\<close>: it leaves a heap in good order with a
  free cell in each pool, in which \<open>s\<close> is still at its address with a reference
  counter that is positive and not greater than before, has the bytes and the length
  it had, and is canonical if it is a heap number.
\<close>

definition gc_keeps :: "'n ecma_externals \<Rightarrow> 'n ecma_heap \<Rightarrow> nat \<Rightarrow> ecma_string_t \<Rightarrow> bool" where
  "gc_keeps env h p s =
     (let h3 = ecma_gc_run env (ecma_lcache_invalidate_all env h) in
      heap_ok h3 \<and> free_strings h3 \<noteq> [] \<and> free_cps h3 \<noteq> []
      \<and> (case string_pool h3 p of
            None \<Rightarrow> False
          | Some s3 \<Rightarrow> s3\<lparr>refs := refs s\<rparr> = s \<and> 0 < refs s3 \<and> refs s3 \<le> refs s)
      \<and> ecma_string_ok env h3 s
      \<and> ecma_string_bytes env h3 s = ecma_string_bytes env h s
      \<and> ecma_string_get_length env h3 s = ecma_string_get_length env h s
      \<and> heap_number_canonical env h3 s)"

text \<open>
  What \<^verbatim>\<open>ecma_copy_or_ref_ecma_string\<close> returns for the descriptor \<open>s\<close> at the
  address \<open>p\<close>: \<open>s\<close> itself with its reference counter incremented, when the
  counter is not saturated or the collector has lowered it; else a descriptor at
  another address, \<open>s\<close> and its counter being left as they were.
\<close>

definition acquired ::
  "'n ecma_externals \<Rightarrow> 'n ecma_heap \<Rightarrow> nat \<Rightarrow> ecma_string_t \<Rightarrow> nat \<Rightarrow> 'n ecma_heap \<Rightarrow> ecma_string_t \<Rightarrow> bool" where
  "acquired env h p s pc h' c =
     (if refs s + 1 < 2 ^ CONFIG_ECMA_REFERENCE_COUNTER_WIDTH env
      then pc = p \<and> c = s\<lparr>refs := refs s + 1\<rparr>
      else
        (case string_pool (ecma_gc_run env (ecma_lcache_invalidate_all env h)) p of
           None \<Rightarrow> False
         | Some s3 \<Rightarrow>
             if refs s3 < refs s then pc = p \<and> c = s\<lparr>refs := refs s3 + 1\<rparr>
             else pc \<noteq> p \<and> string_pool h' p = Some s))"

section \<open>An example configuration\<close>

text \<open>
  A small configuration of the engine on which the theorems are instantiated: a debug
  build with a 12-bit reference counter, three magic strings (the empty string,
  \<open>length\<close>, \<open>undefined\<close>), one literal, an additive hash, numbers that are
  integers or NaN, a codec that reads the width of a code unit from its first byte, and
  a garbage collector that finds nothing to free.
\<close>

definition example_hash_combine :: "lit_string_hash_t \<Rightarrow> lit_utf8_byte_t list \<Rightarrow> lit_string_hash_t" where
  "example_hash_combine hs bs = fold (\<lambda>b a. (a + unat b) mod 256) bs hs"

definition example_char_size :: "lit_utf8_byte_t \<Rightarrow> nat" where
  "example_char_size b = (if b < 0x80 then 1 else if b < 0xE0 then 2 else 3)"

definition example_number_to_utf8_string :: "int option \<Rightarrow> lit_utf8_byte_t list" where
  "example_number_to_utf8_string x =
     (case x of
        None \<Rightarrow> [78, 97, 78]
      | Some i \<Rightarrow> if i < 0 then 45 # uint32_decimal_digits (nat (- i)) else uint32_decimal_digits (nat i))"

definition example_env :: "int option ecma_externals" where
  "example_env =
     \<lparr>JERRY_NDEBUG = False,
      CONFIG_ECMA_REFERENCE_COUNTER_WIDTH = 12,
      LIT_MAGIC_STRING_LENGTH_LIMIT = 9,
      magic_strings = [[], [108, 101, 110, 103, 116, 104], [117, 110, 100, 101, 102, 105, 110, 101, 100]],
      magic_strings_ex = [],
      literals = [1 \<mapsto> LIT_STR_T [97, 98, 99] 38 3],
      lit_utf8_string_calc_hash = example_hash_combine 0,
      lit_utf8_string_hash_combine = example_hash_combine,
      lit_is_cesu8_string_valid = (\<lambda>bs. True),
      lit_utf8_string_length = (\<lambda>bs. length (filter (\<lambda>b. b AND 0xC0 \<noteq> 0x80) bs)),
      lit_get_unicode_char_size_by_utf8_first_byte = example_char_size,
      ecma_number_to_uint32 = (\<lambda>x. case x of None \<Rightarrow> 0 | Some i \<Rightarrow> word_of_int i),
      ecma_uint32_to_number = (\<lambda>w. Some (uint w)),
      ecma_number_eq = (\<lambda>x y. x \<noteq> None \<and> x = y),
      ecma_number_is_nan = (\<lambda>x. x = None),
      ecma_number_to_utf8_string = example_number_to_utf8_string,
      ecma_utf8_string_to_number = (\<lambda>bs. None),
      ECMA_NUMBER_ZERO = Some 0,
      ecma_lcache_invalidate_all = (\<lambda>h. h),
      ecma_gc_run = (\<lambda>h. h)\<rparr>"

text \<open>The same configuration built with \<^verbatim>\<open>JERRY_NDEBUG\<close>.\<close>

definition example_env_release :: "int option ecma_externals" where
  "example_env_release = example_env\<lparr>JERRY_NDEBUG := True\<rparr>"

text \<open>
  A heap with the heap string \<open>hi\<close> at address 10, the magic empty string at address
  11 and the number 42 at address 12, and four free cells in each pool.
\<close>

definition example_heap :: "int option ecma_heap" where
  "example_heap =
     \<lparr>string_pool =
        [10 \<mapsto> \<lparr>refs = 1, container = ECMA_STRING_CONTAINER_HEAP_CHUNKS, hash = 209, u_common_field = 5\<rparr>,
         11 \<mapsto> \<lparr>refs = 1, container = ECMA_STRING_CONTAINER_MAGIC_STRING, hash = 0, u_common_field = 0\<rparr>,
         12 \<mapsto> \<lparr>refs = 1, container = ECMA_STRING_CONTAINER_UINT32_IN_DESC, hash = 102, u_common_field = 42\<rparr>],
      chunk_pool = [5 \<mapsto> \<lparr>hdr_size = 2, hdr_length = 2, chunk_bytes = [104, 105]\<rparr>],
      number_pool = Map.empty,
      free_strings = [20, 21, 22, 23],
      free_cps = [30, 31, 32, 33]\<rparr>"

definition example_string_hi :: ecma_string_t where
  "example_string_hi =
     \<lparr>refs = 1, container = ECMA_STRING_CONTAINER_HEAP_CHUNKS, hash = 209, u_common_field = 5\<rparr>"

definition example_string_empty :: ecma_string_t where
  "example_string_empty =
     \<lparr>refs = 1, container = ECMA_STRING_CONTAINER_MAGIC_STRING, hash = 0, u_common_field = 0\<rparr>"

text \<open>
  The heap string \<open>hi\<close> with a reference counter that has reached its maximum
  \<open>2^12 - 1\<close>, at address 10 of a heap that is otherwise as above.
\<close>

definition example_string_hi_max :: ecma_string_t where
  "example_string_hi_max = example_string_hi\<lparr>refs := 4095\<rparr>"

definition example_heap_max :: "int option ecma_heap" where
  "example_heap_max = set_string example_heap 10 example_string_hi_max"

text \<open>
  Two heap strings of four bytes with a NUL character in second place: \<open>a\<close>, NUL,
  \<open>b\<close>, \<open>d\<close> and \<open>a\<close>, NUL, \<open>c\<close>, \<open>c\<close>. The example hash gives 39 for both.
\<close>

definition example_string_nul1 :: ecma_string_t where
  "example_string_nul1 =
     \<lparr>refs = 1, container = ECMA_STRING_CONTAINER_HEAP_CHUNKS, hash = 39, u_common_field = 5\<rparr>"

definition example_string_nul2 :: ecma_string_t where
  "example_string_nul2 =
     \<lparr>refs = 1, container = ECMA_STRING_CONTAINER_HEAP_CHUNKS, hash = 39, u_common_field = 6\<rparr>"

definition example_heap_nul :: "int option ecma_heap" where
  "example_heap_nul =
     \<lparr>string_pool = [10 \<mapsto> example_string_nul1, 11 \<mapsto> example_string_nul2],
      chunk_pool =
        [5 \<mapsto> \<lparr>hdr_size = 4, hdr_length = 4, chunk_bytes = [97, 0, 98, 100]\<rparr>,
         6 \<mapsto> \<lparr>hdr_size = 4, hdr_length = 4, chunk_bytes = [97, 0, 99, 99]\<rparr>],
      number_pool = Map.empty,
      free_strings = [20, 21, 22, 23],
      free_cps = [30, 31, 32, 33]\<rparr>"

text \<open>
  The heap of the saturated counter, seen by the concatenation: the magic empty string
  at address 11 is its first operand and the saturated heap string \<open>hi\<close> its second.
\<close>

definition example_concat_saturated :: "(nat \<times> int option ecma_heap) option" where
  "example_concat_saturated = ecma_concat_ecma_strings example_env example_heap_max 11 10"

text \<open>A slice of \<open>2^16\<close> bytes, each of them the letter \<open>a\<close>, and the string built from it.\<close>

definition example_big_string :: "lit_utf8_byte_t list" where
  "example_big_string = replicate 65536 97"

definition example_from_utf8_big :: "(nat \<times> int option ecma_heap) option" where
  "example_from_utf8_big = ecma_new_ecma_string_from_utf8 example_env example_heap example_big_string"

text \<open>
  A heap with the heap strings \<open>leng\<close> at address 10 and \<open>th\<close> at address 11, and
  the descriptor of the magic string \<open>length\<close> (identifier 1 of the example table).
\<close>

definition example_string_leng :: ecma_string_t where
  "example_string_leng =
     \<lparr>refs = 1, container = ECMA_STRING_CONTAINER_HEAP_CHUNKS, hash = 166, u_common_field = 5\<rparr>"

definition example_string_th :: ecma_string_t where
  "example_string_th =
     \<lparr>refs = 1, container = ECMA_STRING_CONTAINER_HEAP_CHUNKS, hash = 220, u_common_field = 6\<rparr>"

definition example_heap_leng_th :: "int option ecma_heap" where
  "example_heap_leng_th =
     \<lparr>string_pool = [10 \<mapsto> example_string_leng, 11 \<mapsto> example_string_th],
      chunk_pool =
        [5 \<mapsto> \<lparr>hdr_size = 4, hdr_length = 4, chunk_bytes = [108, 101, 110, 103]\<rparr>,
         6 \<mapsto> \<lparr>hdr_size = 2, hdr_length = 2, chunk_bytes = [116, 104]\<rparr>],
      number_pool = Map.empty,
      free_strings = [20, 21, 22, 23],
      free_cps = [30, 31, 32, 33]\<rparr>"

definition example_string_length_magic :: ecma_string_t where
  "example_string_length_magic =
     \<lparr>refs = 1, container = ECMA_STRING_CONTAINER_MAGIC_STRING, hash = 130, u_common_field = 1\<rparr>"

definition example_half_string :: "lit_utf8_byte_t list" where
  "example_half_string = replicate 32768 97"

definition example_string_half :: ecma_string_t where
  "example_string_half =
     \<lparr>refs = 1, container = ECMA_STRING_CONTAINER_HEAP_CHUNKS, hash = 0, u_common_field = 5\<rparr>"

definition example_heap_half :: "int option ecma_heap" where
  "example_heap_half =
     \<lparr>string_pool = [10 \<mapsto> example_string_half],
      chunk_pool =
        [5 \<mapsto> \<lparr>hdr_size = 32768, hdr_length = 32768, chunk_bytes = example_half_string\<rparr>],
      number_pool = Map.empty,
      free_strings = [20, 21, 22, 23],
      free_cps = [30, 31, 32, 33]\<rparr>"

text \<open>
  The example configuration with a codec for CESU-8: the validator accepts the byte
  sequences that are made of whole code units, and the length of such a sequence is
  the number of its code units.
\<close>

definition example_env_cesu8 :: "int option ecma_externals" where
  "example_env_cesu8 =
     example_env\<lparr>lit_is_cesu8_string_valid := (\<lambda>bs. cesu8_code_units bs \<noteq> None),
                 lit_utf8_string_length :=
                   (\<lambda>bs. case cesu8_code_units bs of None \<Rightarrow> 0 | Some us \<Rightarrow> length us)\<rparr>"

text \<open>
  A heap with a heap string of three code units at address 10: the letter \<open>h\<close> (one
  byte), the letter e with an acute accent (two bytes, \<open>C3 A9\<close>) and the ideograph
  U+65E5 (three bytes, \<open>E6 97 A5\<close>).
\<close>

definition example_string_multi :: ecma_string_t where
  "example_string_multi =
     \<lparr>refs = 1, container = ECMA_STRING_CONTAINER_HEAP_CHUNKS, hash = 246, u_common_field = 5\<rparr>"

definition example_heap_multi :: "int option ecma_heap" where
  "example_heap_multi =
     \<lparr>string_pool = [10 \<mapsto> example_string_multi],
      chunk_pool =
        [5 \<mapsto> \<lparr>hdr_size = 6, hdr_length = 3, chunk_bytes = [104, 195, 169, 230, 151, 165]\<rparr>],
      number_pool = Map.empty,
      free_strings = [20, 21, 22, 23],
      free_cps = [30, 31, 32, 33]\<rparr>"

text \<open>The heap string of \<open>2^15\<close> bytes concatenated with itself.\<close>

definition example_concat_half :: "(nat \<times> int option ecma_heap) option" where
  "example_concat_half = ecma_concat_ecma_strings example_env example_heap_half 10 10"

text \<open>
  A heap with the magic empty string at address 11 and, at address 12, the heap number
  \<open>-3\<close> with a reference counter that has reached its maximum.
\<close>

definition example_string_minus3_max :: ecma_string_t where
  "example_string_minus3_max =
     \<lparr>refs = 4095, container = ECMA_STRING_CONTAINER_HEAP_NUMBER, hash = 96, u_common_field = 6\<rparr>"

definition example_heap_number :: "int option ecma_heap" where
  "example_heap_number =
     \<lparr>string_pool = [11 \<mapsto> example_string_empty, 12 \<mapsto> example_string_minus3_max],
      chunk_pool = Map.empty,
      number_pool = [6 \<mapsto> Some (- 3)],
      free_strings = [20, 21, 22, 23],
      free_cps = [30, 31, 32, 33]\<rparr>"

section \<open>Properties\<close>

subsection \<open>Size of a number stored in the descriptor\<close>

lemma digits_len_step: "10 \<le> n \<Longrightarrow> length (uint32_decimal_digits n) = Suc (length (uint32_decimal_digits (n div 10)))"
  by (subst uint32_decimal_digits.simps) simp

lemma digits_len_bounds:
  "10 ^ k \<le> n \<Longrightarrow> n < 10 ^ Suc k \<Longrightarrow> length (uint32_decimal_digits n) = Suc k"
proof (induction k arbitrary: n)
  case 0
  then show ?case by (subst uint32_decimal_digits.simps) simp
next
  case (Suc k)
  have "(10::nat) \<le> 10 * 10 ^ k" by simp
  also have "\<dots> \<le> n" using Suc.prems(1) by simp
  finally have "10 \<le> n" .
  moreover have "10 ^ k \<le> n div 10" using Suc.prems(1) by (simp add: less_eq_div_iff_mult_less_eq)
  moreover have "n div 10 < 10 ^ Suc k" using Suc.prems(2) by (simp add: div_less_iff_less_mult)
  ultimately show ?case using Suc.IH[of "n div 10"] by (simp add: digits_len_step)
qed

lemma loop_unfold: "number_in_desc_size_loop n sz =
  (if sz < 10 \<and> nums_with_ascending_length ! sz \<le> unat n then number_in_desc_size_loop n (sz + 1) else sz)"
  by (subst number_in_desc_size_loop.simps) (simp add: max_uint32_len_def nums_with_ascending_length_def)


lemma in_desc_size_bounds:
  "k < 10 \<Longrightarrow> 10 ^ k \<le> unat n \<Longrightarrow> (k < 9 \<Longrightarrow> unat n < 10 ^ Suc k)
     \<Longrightarrow> ecma_string_get_number_in_desc_size n = Suc k"
proof -
  assume k: "k < 10" and lo: "10 ^ k \<le> unat n" and hi: "k < 9 \<Longrightarrow> unat n < 10 ^ Suc k"
  from k consider "k = 0" | "k = 1" | "k = 2" | "k = 3" | "k = 4" | "k = 5" | "k = 6" | "k = 7" | "k = 8" | "k = 9"
    by atomize_elim arith
  then show ?thesis
  proof cases
    case 1 with lo hi show ?thesis
      by (simp add: ecma_string_get_number_in_desc_size_def loop_unfold nums_with_ascending_length_def)
  next
    case 2 with lo hi show ?thesis
      by (simp add: ecma_string_get_number_in_desc_size_def loop_unfold nums_with_ascending_length_def)
  next
    case 3 with lo hi show ?thesis
      by (simp add: ecma_string_get_number_in_desc_size_def loop_unfold nums_with_ascending_length_def)
  next
    case 4 with lo hi show ?thesis
      by (simp add: ecma_string_get_number_in_desc_size_def loop_unfold nums_with_ascending_length_def)
  next
    case 5 with lo hi show ?thesis
      by (simp add: ecma_string_get_number_in_desc_size_def loop_unfold nums_with_ascending_length_def)
  next
    case 6 with lo hi show ?thesis
      by (simp add: ecma_string_get_number_in_desc_size_def loop_unfold nums_with_ascending_length_def)
  next
    case 7 with lo hi show ?thesis
      by (simp add: ecma_string_get_number_in_desc_size_def loop_unfold nums_with_ascending_length_def)
  next
    case 8 with lo hi show ?thesis
      by (simp add: ecma_string_get_number_in_desc_size_def loop_unfold nums_with_ascending_length_def)
  next
    case 9 with lo hi show ?thesis
      by (simp add: ecma_string_get_number_in_desc_size_def loop_unfold nums_with_ascending_length_def)
  next
    case 10 with lo hi show ?thesis
      by (simp add: ecma_string_get_number_in_desc_size_def loop_unfold nums_with_ascending_length_def)
  qed
qed

lemma in_desc_size_small: "unat n < 10 \<Longrightarrow> ecma_string_get_number_in_desc_size n = 1"
  by (simp add: ecma_string_get_number_in_desc_size_def loop_unfold nums_with_ascending_length_def)

lemma digits_small: "m < 10 \<Longrightarrow> length (uint32_decimal_digits m) = 1"
  by (subst uint32_decimal_digits.simps) simp

lemma decade_exists: "0 < (m::nat) \<Longrightarrow> \<exists>k. 10 ^ k \<le> m \<and> m < 10 ^ Suc k"
proof (induction m rule: less_induct)
  case (less m)
  show ?case
  proof (cases "m < 10")
    case True
    with less.prems have "10 ^ 0 \<le> m \<and> m < 10 ^ Suc 0" by simp
    then show ?thesis by blast
  next
    case False
    then have "0 < m div 10" "m div 10 < m" by simp_all
    then obtain k where k: "10 ^ k \<le> m div 10" "m div 10 < 10 ^ Suc k"
      using less.IH by blast
    have "10 ^ Suc k \<le> m" using k(1) by (simp add: less_eq_div_iff_mult_less_eq)
    moreover have "m < 10 ^ Suc (Suc k)" using k(2) by (simp add: div_less_iff_less_mult)
    ultimately show ?thesis by blast
  qed
qed

lemma uint32_digits_length:
  "length (uint32_decimal_digits (unat (n::32 word))) = ecma_string_get_number_in_desc_size n"
proof (cases "unat n = 0")
  case True
  then show ?thesis by (simp add: in_desc_size_small digits_small)
next
  case False
  then obtain k where k: "10 ^ k \<le> unat n" "unat n < 10 ^ Suc k"
    using decade_exists[of "unat n"] by auto
  have "unat n < 2 ^ 32" using unsigned_less[of n] by simp
  then have "unat n < 10 ^ 10" by simp
  with k(1) have "(10::nat) ^ k < 10 ^ 10" by (rule le_less_trans)
  then have "k < 10" by (rule power_less_imp_less_exp[rotated]) simp
  then show ?thesis
    using k by (simp add: in_desc_size_bounds digits_len_bounds)
qed

text \<open>
  The digits that the formatter writes are as many as the table
  \<^verbatim>\<open>nums_with_ascending_length\<close> tells: the assertion
  \<^verbatim>\<open>bytes_copied == required_buffer_size\<close> of \<^verbatim>\<open>ecma_string_to_utf8_string\<close> holds.
\<close>

subsection \<open>Conversion to bytes\<close>

lemma ok_bytes: "ecma_string_ok env h s \<Longrightarrow> \<exists>bs. ecma_string_bytes env h s = Some bs"
  by (cases "container s")
     (auto simp: ecma_string_ok_def ecma_string_bytes_def lit_get_magic_string_utf8_def
        lit_get_magic_string_ex_utf8_def block_read_def split: option.splits)

lemma ok_size:
  "ecma_string_ok env h s \<Longrightarrow> ecma_string_bytes env h s = Some bs
     \<Longrightarrow> ecma_string_get_size env h s = Some (length bs)"
  by (cases "container s")
     (auto simp: ecma_string_ok_def ecma_string_bytes_def ecma_string_get_size_def
        lit_get_magic_string_utf8_def lit_get_magic_string_ex_utf8_def block_read_def
        ecma_string_get_heap_number_size_def uint32_digits_length lit_charset_literal_def
        split: option.splits lit_literal_t.splits if_splits)

lemma to_utf8_string_eq:
  assumes ok: "ecma_string_ok env h s" and bs: "ecma_string_bytes env h s = Some bs"
    and b: "nat buffer_size \<le> length buffer_p" "0 \<le> buffer_size"
  shows "ecma_string_to_utf8_string env h s buffer_p buffer_size =
       Some (if int (length bs) \<le> buffer_size \<and> 0 < buffer_size
             then (int (length bs), bs @ drop (length bs) buffer_p)
             else (- int (length bs), buffer_p))"
proof -
  have sz: "ecma_string_get_size env h s = Some (length bs)" using ok bs by (rule ok_size)
  have r: "refs s > 0" using ok by (simp add: ecma_string_ok_def)
  show ?thesis
  proof (cases "int (length bs) \<le> buffer_size \<and> 0 < buffer_size")
    case False
    then show ?thesis using sz r b
      by (auto simp: ecma_string_to_utf8_string_def JERRY_ASSERT_def)
  next
    case True
    then have fit: "length bs \<le> length buffer_p" using b by linarith
    show ?thesis using True sz r b ok bs fit
      by (cases "container s")
         (auto simp: ecma_string_to_utf8_string_def JERRY_ASSERT_def ecma_string_ok_def
            ecma_string_bytes_def buffer_write_def block_read_def lit_charset_literal_def
            ecma_uint32_to_utf8_string_def uint32_digits_length
            split: option.splits lit_literal_t.splits if_splits)
  qed
qed

text \<open>
  C3. For a descriptor in good order and a buffer of \<open>buffer_size \<ge> 0\<close> bytes:
  if the byte size of the string is at most \<open>buffer_size\<close> and \<open>buffer_size > 0\<close>,
  \<^verbatim>\<open>ecma_string_to_utf8_string\<close> writes exactly the logical bytes of the string
  at the front of the buffer and returns the byte size; otherwise it returns the
  negation of the required size and leaves the buffer as it was.
\<close>

theorem ecma_string_to_utf8_string_result:
  assumes "ecma_string_ok env h s" and "0 \<le> buffer_size" and "length buffer_p = nat buffer_size"
  shows "\<exists>bs. ecma_string_bytes env h s = Some bs
           \<and> ecma_string_get_size env h s = Some (length bs)
           \<and> ecma_string_to_utf8_string env h s buffer_p buffer_size =
               Some (if int (length bs) \<le> buffer_size \<and> 0 < buffer_size
                     then (int (length bs), bs @ drop (length bs) buffer_p)
                     else (- int (length bs), buffer_p))"
proof -
  obtain bs where bs: "ecma_string_bytes env h s = Some bs"
    using assms(1) ok_bytes by blast
  moreover have "ecma_string_get_size env h s = Some (length bs)"
    using assms(1) bs by (rule ok_size)
  moreover have "nat buffer_size \<le> length buffer_p"
    using assms(3) by simp
  note to_utf8_string_eq [OF assms(1) bs this assms(2)]
  ultimately show ?thesis by blast
qed

lemma example_string_hi_ok: "ecma_string_ok example_env example_heap example_string_hi"
  by (simp add: ecma_string_ok_def example_string_hi_def example_heap_def example_env_def
      ECMA_GET_NON_NULL_POINTER_def MEM_CP_NULL_def)

lemma example_string_hi_bytes:
  "ecma_string_bytes example_env example_heap example_string_hi = Some [104, 105]"
  by (simp add: ecma_string_bytes_def example_string_hi_def example_heap_def
      ECMA_GET_NON_NULL_POINTER_def MEM_CP_NULL_def block_read_def)

theorem ecma_string_to_utf8_string_result_witness:
  "ecma_string_ok example_env example_heap example_string_hi
   \<and> ecma_string_to_utf8_string example_env example_heap example_string_hi [0, 0, 0] 3
       = Some (2, [104, 105, 0])
   \<and> ecma_string_to_utf8_string example_env example_heap example_string_hi [7] 1
       = Some (- 2, [7])"
  using ecma_string_to_utf8_string_result [OF example_string_hi_ok, of 3 "[0, 0, 0]"]
    ecma_string_to_utf8_string_result [OF example_string_hi_ok, of 1 "[7]"]
  by (simp add: example_string_hi_ok example_string_hi_bytes)

text \<open>
  C10. When the byte size of the string is 0 and the buffer size is 0,
  \<^verbatim>\<open>ecma_string_to_utf8_string\<close> returns 0, which is not negative, and leaves the
  buffer as it was: for the empty string a buffer of size zero is not reported as too
  small.
\<close>

theorem ecma_string_to_utf8_string_empty_zero_buffer:
  assumes "ecma_string_get_size env h s = Some 0" and "refs s > 0"
  shows "ecma_string_to_utf8_string env h s buffer_p 0 = Some (0, buffer_p)"
  using assms by (simp add: ecma_string_to_utf8_string_def JERRY_ASSERT_def)

theorem ecma_string_to_utf8_string_empty_zero_buffer_witness:
  "ecma_string_get_size example_env example_heap example_string_empty = Some 0
   \<and> refs example_string_empty > 0
   \<and> ecma_string_to_utf8_string example_env example_heap example_string_empty [] 0 = Some (0, [])"
proof -
  have sz: "ecma_string_get_size example_env example_heap example_string_empty = Some 0"
    by (simp add: ecma_string_get_size_def example_string_empty_def example_env_def
        lit_get_magic_string_utf8_def)
  have r: "refs example_string_empty > 0"
    by (simp add: example_string_empty_def)
  show ?thesis
    using ecma_string_to_utf8_string_empty_zero_buffer [OF sz r, of "[]"] sz r by simp
qed

subsection \<open>Strings of 32-bit unsigned numbers\<close>

lemma uint32_digits_range:
  "1 \<le> length (uint32_decimal_digits (unat (n::32 word)))
   \<and> length (uint32_decimal_digits (unat n)) \<le> 10"
proof (cases "unat n = 0")
  case True
  then show ?thesis by (simp add: digits_small)
next
  case False
  then obtain k where k: "10 ^ k \<le> unat n" "unat n < 10 ^ Suc k"
    using decade_exists[of "unat n"] by auto
  have "unat n < 2 ^ 32" using unsigned_less[of n] by simp
  then have "unat n < 10 ^ 10" by simp
  with k(1) have "(10::nat) ^ k < 10 ^ 10" by (rule le_less_trans)
  then have "k < 10" by (rule power_less_imp_less_exp[rotated]) simp
  then show ?thesis
    using k by (simp add: digits_len_bounds)
qed

lemma from_uint32_eq:
  assumes "free_strings h = p # ps"
  shows "ecma_new_ecma_string_from_uint32 env h n =
     Some (p, set_string (h\<lparr>free_strings := ps\<rparr>) p
       \<lparr>refs = 1, container = ECMA_STRING_CONTAINER_UINT32_IN_DESC,
        hash = lit_utf8_string_calc_hash env (uint32_decimal_digits (unat n)),
        u_common_field = n\<rparr>)"
  using assms uint32_digits_range[of n]
  by (simp add: ecma_new_ecma_string_from_uint32_def ecma_alloc_string_def
      ecma_uint32_to_utf8_string_def buffer_write_def MEM_DEFINE_LOCAL_ARRAY_def
      ECMA_MAX_CHARS_IN_STRINGIFIED_UINT32_def)

lemma example_heap_free_strings: "free_strings example_heap = 20 # [21, 22, 23]"
  by (simp add: example_heap_def)

text \<open>
  C7. When the descriptor pool has a free cell, \<^verbatim>\<open>ecma_new_ecma_string_from_uint32\<close>
  builds a descriptor for \<open>n\<close>, and \<^verbatim>\<open>ecma_string_get_array_index\<close> on it stores
  \<open>n\<close> in the out parameter and returns true exactly when \<open>n < 2^32 - 1\<close>: true for
  every \<open>0 \<le> n < 2^32 - 1\<close>, false for the reserved value \<open>2^32 - 1\<close>.
\<close>

theorem ecma_string_get_array_index_of_uint32:
  assumes "free_strings h = p # ps"
  shows "\<exists>h' s. ecma_new_ecma_string_from_uint32 env h n = Some (p, h')
           \<and> string_pool h' p = Some s
           \<and> ecma_string_get_array_index env h' s = Some (unat n < 2 ^ 32 - 1, n, h')"
proof -
  have "n \<noteq> ECMA_MAX_VALUE_OF_VALID_ARRAY_INDEX \<longleftrightarrow> unat n < 2 ^ 32 - 1"
  proof -
    have "unat n < 2 ^ 32" using unsigned_less[of n] by simp
    moreover have "n = 0xFFFFFFFF \<longleftrightarrow> unat n = 4294967295"
      by (simp add: word_unat_eq_iff)
    ultimately show ?thesis by (auto simp: ECMA_MAX_VALUE_OF_VALID_ARRAY_INDEX_def)
  qed
  then show ?thesis
    using from_uint32_eq [OF assms, of env n]
    by (simp add: ecma_string_get_array_index_def set_string_def)
qed

theorem ecma_string_get_array_index_of_uint32_witness:
  "free_strings example_heap = 20 # [21, 22, 23]
   \<and> (\<exists>h' s. ecma_new_ecma_string_from_uint32 example_env example_heap 7 = Some (20, h')
           \<and> string_pool h' 20 = Some s
           \<and> ecma_string_get_array_index example_env h' s = Some (True, 7, h'))
   \<and> (\<exists>h' s. ecma_new_ecma_string_from_uint32 example_env example_heap 0xFFFFFFFF = Some (20, h')
           \<and> string_pool h' 20 = Some s
           \<and> ecma_string_get_array_index example_env h' s = Some (False, 0xFFFFFFFF, h'))"
  using ecma_string_get_array_index_of_uint32
          [OF example_heap_free_strings, where env = example_env and n = 7]
        ecma_string_get_array_index_of_uint32
          [OF example_heap_free_strings, where env = example_env and n = "0xFFFFFFFF"]
        example_heap_free_strings
  by simp

text \<open>
  C6. Let the conversions of the engine be exact on \<open>n\<close>: \<^verbatim>\<open>ecma_number_to_uint32\<close>
  gives \<open>n\<close> back from \<^verbatim>\<open>ecma_uint32_to_number (n)\<close>, and that number is equal to
  itself. Then, when the descriptor pool has a free cell,
  \<^verbatim>\<open>ecma_new_ecma_string_from_number\<close> applied to \<^verbatim>\<open>ecma_uint32_to_number (n)\<close>
  returns a descriptor with container \<^verbatim>\<open>UINT32_IN_DESC\<close> that stores \<open>n\<close>, with
  \<open>refs = 1\<close> and the hash of the decimal digits of \<open>n\<close>.
\<close>

theorem ecma_new_ecma_string_from_number_of_uint32:
  assumes "free_strings h = p # ps"
    and "ecma_number_to_uint32 env (ecma_uint32_to_number env n) = n"
    and "ecma_number_eq env (ecma_uint32_to_number env n) (ecma_uint32_to_number env n)"
  shows "\<exists>h'. ecma_new_ecma_string_from_number env h (ecma_uint32_to_number env n) = Some (p, h')
           \<and> string_pool h' p =
               Some \<lparr>refs = 1, container = ECMA_STRING_CONTAINER_UINT32_IN_DESC,
                     hash = lit_utf8_string_calc_hash env (uint32_decimal_digits (unat n)),
                     u_common_field = n\<rparr>"
  using from_uint32_eq [OF assms(1), of env n] assms(2,3)
  by (simp add: ecma_new_ecma_string_from_number_def set_string_def)

theorem ecma_new_ecma_string_from_number_of_uint32_witness:
  "free_strings example_heap = 20 # [21, 22, 23]
   \<and> ecma_number_to_uint32 example_env (ecma_uint32_to_number example_env 42) = 42
   \<and> ecma_number_eq example_env (ecma_uint32_to_number example_env 42)
        (ecma_uint32_to_number example_env 42)
   \<and> (\<exists>h'. ecma_new_ecma_string_from_number example_env example_heap (Some 42) = Some (20, h')
           \<and> string_pool h' 20 =
               Some \<lparr>refs = 1, container = ECMA_STRING_CONTAINER_UINT32_IN_DESC,
                     hash = 102, u_common_field = 42\<rparr>)"
proof -
  have a: "ecma_number_to_uint32 example_env (ecma_uint32_to_number example_env 42) = 42"
    by (simp add: example_env_def)
  have b: "ecma_number_eq example_env (ecma_uint32_to_number example_env 42)
             (ecma_uint32_to_number example_env 42)"
    by (simp add: example_env_def)
  have c: "ecma_uint32_to_number example_env 42 = Some 42"
    by (simp add: example_env_def)
  have d: "lit_utf8_string_calc_hash example_env (uint32_decimal_digits (unat (42::32 word))) = 102"
    by (simp add: example_env_def example_hash_combine_def uint32_decimal_digits.simps)
  show ?thesis
    using ecma_new_ecma_string_from_number_of_uint32 [OF example_heap_free_strings a b]
      a b c d example_heap_free_strings
    by simp
qed

subsection \<open>Copy on overflow of the reference counter\<close>

lemma compare_same: "ecma_compare_ecma_strings env h s s = Some (True, h)"
  by (simp add: ecma_compare_ecma_strings_def)

lemma copy_or_ref_overflow_result:
  assumes pool: "string_pool h p = Some s"
    and mx: "refs s = 2 ^ CONFIG_ECMA_REFERENCE_COUNTER_WIDTH env - 1"
            "0 < CONFIG_ECMA_REFERENCE_COUNTER_WIDTH env"
    and gc: "ecma_gc_run env (ecma_lcache_invalidate_all env (set_string h p s)) = h3"
    and after: "string_pool h3 p = Some s3" "refs s3 = refs s"
               "container s3 = ECMA_STRING_CONTAINER_HEAP_CHUNKS"
    and chunk: "u_common_field s3 \<noteq> MEM_CP_NULL" "chunk_pool h3 (u_common_field s3) = Some data"
               "unat (hdr_size data) \<le> length (chunk_bytes data)"
    and free: "free_strings h3 = np # fs" "free_cps h3 = ncp # fc"
              "string_pool h3 np = None" "chunk_pool h3 ncp = None"
  shows "ecma_copy_or_ref_ecma_string env h p =
      Some (np, set_string (h3\<lparr>free_strings := fs, free_cps := fc,
              chunk_pool := (chunk_pool h3)(ncp \<mapsto> data\<lparr>chunk_bytes := take (unat (hdr_size data)) (chunk_bytes data)\<rparr>)\<rparr>) np s3)"
proof -
  have big: "(1::nat) < 2 ^ CONFIG_ECMA_REFERENCE_COUNTER_WIDTH env"
    using one_less_power[of "2::nat", OF _ mx(2)] by simp
  have pos: "0 < refs s" using mx(1) big by simp
  have inc: "refs_increment env (refs s) = 0"
    using mx(1) big by (simp add: refs_increment_def)
  have dec: "refs_decrement env 0 = refs s"
    using mx(1) big by (simp add: refs_decrement_def)
  have h2: "set_string (set_string h p (s\<lparr>refs := 0\<rparr>)) p (s\<lparr>refs := refs s\<rparr>) = set_string h p s"
    by (simp add: set_string_def)
  have copy: "ecma_copy_ecma_string env h3 p =
      Some (np, set_string (h3\<lparr>free_strings := fs, free_cps := fc,
              chunk_pool := (chunk_pool h3)(ncp \<mapsto> data\<lparr>chunk_bytes := take (unat (hdr_size data)) (chunk_bytes data)\<rparr>)\<rparr>) np s3)"
    using after chunk free pos
    by (simp add: ecma_copy_ecma_string_def JERRY_ASSERT_def ecma_alloc_string_def
        ECMA_GET_NON_NULL_POINTER_def mem_heap_alloc_block_def block_read_def set_string_def
        JERRY_ASSERT_heap_def compare_same)
  show "ecma_copy_or_ref_ecma_string env h p =
      Some (np, set_string (h3\<lparr>free_strings := fs, free_cps := fc,
              chunk_pool := (chunk_pool h3)(ncp \<mapsto> data\<lparr>chunk_bytes := take (unat (hdr_size data)) (chunk_bytes data)\<rparr>)\<rparr>) np s3)"
    using pool pos inc dec gc after(1,2) copy h2
    by (simp add: ecma_copy_or_ref_ecma_string_def JERRY_ASSERT_def Let_def)
qed

text \<open>
  C1. What \<^verbatim>\<open>ecma_copy_or_ref_ecma_string\<close> does when the reference counter of a
  \<^verbatim>\<open>HEAP_CHUNKS\<close> descriptor overflows and the collector leaves the counter as it
  was: it returns a new descriptor, distinct from the original, and it allocates a new
  block that holds a copy of the header and of the bytes. But the new descriptor is
  the original field by field: its collection pointer designates the block of the
  original, not the new block, and its reference counter is the saturated counter of
  the original, not 1. The original descriptor and its block are unchanged.
\<close>

theorem ecma_copy_or_ref_ecma_string_overflow_heap_chunks:
  assumes pool: "string_pool h p = Some s"
    and mx: "refs s = 2 ^ CONFIG_ECMA_REFERENCE_COUNTER_WIDTH env - 1"
            "0 < CONFIG_ECMA_REFERENCE_COUNTER_WIDTH env"
    and gc: "ecma_gc_run env (ecma_lcache_invalidate_all env (set_string h p s)) = h3"
    and after: "string_pool h3 p = Some s3" "refs s3 = refs s"
               "container s3 = ECMA_STRING_CONTAINER_HEAP_CHUNKS"
    and chunk: "u_common_field s3 \<noteq> MEM_CP_NULL" "chunk_pool h3 (u_common_field s3) = Some data"
               "unat (hdr_size data) \<le> length (chunk_bytes data)"
    and free: "free_strings h3 = np # fs" "free_cps h3 = ncp # fc"
              "string_pool h3 np = None" "chunk_pool h3 ncp = None"
  shows "\<exists>h'. ecma_copy_or_ref_ecma_string env h p = Some (np, h')
           \<and> np \<noteq> p
           \<and> string_pool h' np = Some s3
           \<and> string_pool h' p = Some s3
           \<and> ncp \<noteq> u_common_field s3
           \<and> chunk_pool h' ncp =
               Some (data\<lparr>chunk_bytes := take (unat (hdr_size data)) (chunk_bytes data)\<rparr>)
           \<and> chunk_pool h' (u_common_field s3) = Some data"
proof -
  have np: "np \<noteq> p" using after(1) free(3) by auto
  have ncp: "ncp \<noteq> u_common_field s3" using chunk(2) free(4) by auto
  show ?thesis
    using copy_or_ref_overflow_result [OF assms] np ncp after(1) chunk(2)
    by (simp add: set_string_def)
qed

theorem ecma_copy_or_ref_ecma_string_overflow_heap_chunks_witness:
  "string_pool example_heap_max 10 = Some example_string_hi_max
   \<and> refs example_string_hi_max = 2 ^ CONFIG_ECMA_REFERENCE_COUNTER_WIDTH example_env - 1
   \<and> container example_string_hi_max = ECMA_STRING_CONTAINER_HEAP_CHUNKS
   \<and> (\<exists>h'. ecma_copy_or_ref_ecma_string example_env example_heap_max 10 = Some (20, h')
          \<and> string_pool h' 20 =
              Some \<lparr>refs = 4095, container = ECMA_STRING_CONTAINER_HEAP_CHUNKS,
                    hash = 209, u_common_field = 5\<rparr>
          \<and> chunk_pool h' 30 = Some \<lparr>hdr_size = 2, hdr_length = 2, chunk_bytes = [104, 105]\<rparr>
          \<and> chunk_pool h' 5 = Some \<lparr>hdr_size = 2, hdr_length = 2, chunk_bytes = [104, 105]\<rparr>)"
proof -
  have pool: "string_pool example_heap_max 10 = Some example_string_hi_max"
    by (simp add: example_heap_max_def set_string_def)
  have mx: "refs example_string_hi_max = 2 ^ CONFIG_ECMA_REFERENCE_COUNTER_WIDTH example_env - 1"
    by (simp add: example_string_hi_max_def example_env_def)
  have w: "0 < CONFIG_ECMA_REFERENCE_COUNTER_WIDTH example_env"
    by (simp add: example_env_def)
  have gc: "ecma_gc_run example_env (ecma_lcache_invalidate_all example_env
              (set_string example_heap_max 10 example_string_hi_max)) = example_heap_max"
    by (simp add: example_env_def example_heap_max_def set_string_def)
  have c: "container example_string_hi_max = ECMA_STRING_CONTAINER_HEAP_CHUNKS"
    by (simp add: example_string_hi_max_def example_string_hi_def)
  have u: "u_common_field example_string_hi_max = 5"
    by (simp add: example_string_hi_max_def example_string_hi_def)
  have nn: "u_common_field example_string_hi_max \<noteq> MEM_CP_NULL"
    by (simp add: u MEM_CP_NULL_def)
  have ch: "chunk_pool example_heap_max (u_common_field example_string_hi_max)
              = Some \<lparr>hdr_size = 2, hdr_length = 2, chunk_bytes = [104, 105]\<rparr>"
    by (simp add: u example_heap_max_def example_heap_def set_string_def)
  have le: "unat (hdr_size \<lparr>hdr_size = 2, hdr_length = 2, chunk_bytes = [104, 105]\<rparr>)
              \<le> length (chunk_bytes \<lparr>hdr_size = 2, hdr_length = 2, chunk_bytes = [104, 105::8 word]\<rparr>)"
    by simp
  have fs: "free_strings example_heap_max = 20 # [21, 22, 23]"
    by (simp add: example_heap_max_def example_heap_def set_string_def)
  have fc: "free_cps example_heap_max = 30 # [31, 32, 33]"
    by (simp add: example_heap_max_def example_heap_def set_string_def)
  have n1: "string_pool example_heap_max 20 = None"
    by (simp add: example_heap_max_def example_heap_def set_string_def)
  have n2: "chunk_pool example_heap_max 30 = None"
    by (simp add: example_heap_max_def example_heap_def set_string_def)
  show ?thesis
    using ecma_copy_or_ref_ecma_string_overflow_heap_chunks [OF pool mx w gc pool refl c nn ch le fs fc n1 n2] pool mx c
    by (auto simp add: u example_string_hi_max_def example_string_hi_def)
qed

subsection \<open>Comparison of strings with a NUL character\<close>

lemma strncmp_nul: "strncmp (pre @ 0 # xs) (pre @ 0 # ys) n = Some 0"
proof (induction pre arbitrary: n)
  case Nil
  show ?case by (cases n) simp_all
next
  case (Cons c pre)
  show ?case by (cases n) (simp_all add: Cons.IH)
qed

text \<open>
  C2. Two heap strings in good order, with cached hashes that are the hashes of their
  bytes, whose bytes agree up to and including a NUL character and differ after it,
  and for which the engine hash, the byte size and the length in code units coincide:
  \<^verbatim>\<open>ecma_compare_ecma_strings\<close> returns true although the logical bytes differ,
  because the long path compares with \<^verbatim>\<open>strncmp\<close>, which stops at the NUL.
\<close>

theorem ecma_compare_ecma_strings_stops_at_nul:
  assumes a: "container a = ECMA_STRING_CONTAINER_HEAP_CHUNKS" "ecma_string_ok env h a"
             "ecma_string_hash_ok env h a" "ecma_string_length_ok env h a"
    and b: "container b = ECMA_STRING_CONTAINER_HEAP_CHUNKS" "ecma_string_ok env h b"
           "ecma_string_hash_ok env h b" "ecma_string_length_ok env h b"
    and ba: "ecma_string_bytes env h a = Some (pre @ 0 # xs)"
    and bb: "ecma_string_bytes env h b = Some (pre @ 0 # ys)"
    and len: "length xs = length ys"
    and units: "lit_utf8_string_length env (pre @ 0 # xs) = lit_utf8_string_length env (pre @ 0 # ys)"
    and coll: "lit_utf8_string_calc_hash env (pre @ 0 # xs) = lit_utf8_string_calc_hash env (pre @ 0 # ys)"
    and diff: "xs \<noteq> ys"
  shows "ecma_compare_ecma_strings env h a b = Some (True, h)
         \<and> ecma_string_bytes env h a \<noteq> ecma_string_bytes env h b"
proof -
  obtain da where da: "ECMA_GET_NON_NULL_POINTER (chunk_pool h) (u_common_field a) = Some da"
      "unat (hdr_size da) = length (chunk_bytes da)"
      "unat (hdr_length da) = lit_utf8_string_length env (chunk_bytes da)"
    using a(1,2,4) by (auto simp: ecma_string_ok_def ecma_string_length_ok_def split: option.splits)
  obtain db where db: "ECMA_GET_NON_NULL_POINTER (chunk_pool h) (u_common_field b) = Some db"
      "unat (hdr_size db) = length (chunk_bytes db)"
      "unat (hdr_length db) = lit_utf8_string_length env (chunk_bytes db)"
    using b(1,2,4) by (auto simp: ecma_string_ok_def ecma_string_length_ok_def split: option.splits)
  have ca: "chunk_bytes da = pre @ 0 # xs"
    using ba a(1) da by (simp add: ecma_string_bytes_def block_read_def)
  have cb: "chunk_bytes db = pre @ 0 # ys"
    using bb b(1) db by (simp add: ecma_string_bytes_def block_read_def)
  have hs: "hash a = hash b"
    using a(3) b(3) ba bb coll by (simp add: ecma_string_hash_ok_def)
  have sa: "ecma_string_get_size env h a = Some (Suc (length pre + length xs))"
    using ok_size [OF a(2) ba] by simp
  have sb: "ecma_string_get_size env h b = Some (Suc (length pre + length xs))"
    using ok_size [OF b(2) bb] len by simp
  have hl: "hdr_length da = hdr_length db"
    using da(3) db(3) ca cb units by (simp add: word_unat_eq_iff)
  have "ecma_compare_ecma_strings_longpath_sizes env h a b = Some (True, h)"
    using a(1) b(1) sa sb da(1) db(1) hl ca cb
    by (simp add: ecma_compare_ecma_strings_longpath_sizes_def strncmp_nul)
  then have "ecma_compare_ecma_strings env h a b = Some (True, h)"
    using hs a(1) b(1)
    by (simp add: ecma_compare_ecma_strings_def ecma_compare_ecma_strings_longpath_def
        JERRY_ASSERT_def)
  moreover have "ecma_string_bytes env h a \<noteq> ecma_string_bytes env h b"
    using ba bb diff by simp
  ultimately show ?thesis by simp
qed

theorem ecma_compare_ecma_strings_stops_at_nul_witness:
  "ecma_string_ok example_env example_heap_nul example_string_nul1
   \<and> ecma_string_ok example_env example_heap_nul example_string_nul2
   \<and> ecma_string_hash_ok example_env example_heap_nul example_string_nul1
   \<and> ecma_string_hash_ok example_env example_heap_nul example_string_nul2
   \<and> ecma_string_length_ok example_env example_heap_nul example_string_nul1
   \<and> ecma_string_length_ok example_env example_heap_nul example_string_nul2
   \<and> ecma_string_bytes example_env example_heap_nul example_string_nul1 = Some [97, 0, 98, 100]
   \<and> ecma_string_bytes example_env example_heap_nul example_string_nul2 = Some [97, 0, 99, 99]
   \<and> ecma_compare_ecma_strings example_env example_heap_nul example_string_nul1 example_string_nul2
       = Some (True, example_heap_nul)"
proof -
  have ba: "ecma_string_bytes example_env example_heap_nul example_string_nul1 = Some ([97] @ 0 # [98, 100])"
    by (simp add: ecma_string_bytes_def example_string_nul1_def example_heap_nul_def
        ECMA_GET_NON_NULL_POINTER_def MEM_CP_NULL_def block_read_def)
  have bb: "ecma_string_bytes example_env example_heap_nul example_string_nul2 = Some ([97] @ 0 # [99, 99])"
    by (simp add: ecma_string_bytes_def example_string_nul2_def example_heap_nul_def
        ECMA_GET_NON_NULL_POINTER_def MEM_CP_NULL_def block_read_def)
  have oa: "ecma_string_ok example_env example_heap_nul example_string_nul1"
    by (simp add: ecma_string_ok_def example_string_nul1_def example_heap_nul_def example_env_def
        ECMA_GET_NON_NULL_POINTER_def MEM_CP_NULL_def)
  have ob: "ecma_string_ok example_env example_heap_nul example_string_nul2"
    by (simp add: ecma_string_ok_def example_string_nul2_def example_heap_nul_def example_env_def
        ECMA_GET_NON_NULL_POINTER_def MEM_CP_NULL_def)
  have la: "ecma_string_length_ok example_env example_heap_nul example_string_nul1"
    by (simp add: ecma_string_length_ok_def example_string_nul1_def example_heap_nul_def example_env_def
        ECMA_GET_NON_NULL_POINTER_def MEM_CP_NULL_def)
  have lb: "ecma_string_length_ok example_env example_heap_nul example_string_nul2"
    by (simp add: ecma_string_length_ok_def example_string_nul2_def example_heap_nul_def example_env_def
        ECMA_GET_NON_NULL_POINTER_def MEM_CP_NULL_def)
  have ha: "ecma_string_hash_ok example_env example_heap_nul example_string_nul1"
    using ba by (simp add: ecma_string_hash_ok_def example_string_nul1_def example_env_def
        example_hash_combine_def)
  have hb: "ecma_string_hash_ok example_env example_heap_nul example_string_nul2"
    using bb by (simp add: ecma_string_hash_ok_def example_string_nul2_def example_env_def
        example_hash_combine_def)
  have ca: "container example_string_nul1 = ECMA_STRING_CONTAINER_HEAP_CHUNKS"
    by (simp add: example_string_nul1_def)
  have cb: "container example_string_nul2 = ECMA_STRING_CONTAINER_HEAP_CHUNKS"
    by (simp add: example_string_nul2_def)
  have len: "length [98, 100 :: 8 word] = length [99, 99 :: 8 word]" by simp
  have units: "lit_utf8_string_length example_env ([97] @ 0 # [98, 100])
             = lit_utf8_string_length example_env ([97] @ 0 # [99, 99])"
    by (simp add: example_env_def)
  have coll: "lit_utf8_string_calc_hash example_env ([97] @ 0 # [98, 100])
            = lit_utf8_string_calc_hash example_env ([97] @ 0 # [99, 99])"
    by (simp add: example_env_def example_hash_combine_def)
  have diff: "[98, 100 :: 8 word] \<noteq> [99, 99]" by simp
  show ?thesis
    using ecma_compare_ecma_strings_stops_at_nul [OF ca oa ha la cb ob hb lb ba bb len units coll diff]
      oa ob ha hb la lb ba bb
    by simp
qed

subsection \<open>Concatenation\<close>

text \<open>Reading a string does not depend on the free cells or on the descriptor pool.\<close>

lemma get_size_heap_cong:
  "chunk_pool h' = chunk_pool h \<Longrightarrow> number_pool h' = number_pool h
     \<Longrightarrow> ecma_string_get_size env h' s = ecma_string_get_size env h s"
  by (cases "container s") (simp_all add: ecma_string_get_size_def ecma_string_get_heap_number_size_def)

lemma get_length_heap_cong:
  "chunk_pool h' = chunk_pool h \<Longrightarrow> number_pool h' = number_pool h
     \<Longrightarrow> ecma_string_get_length env h' s = ecma_string_get_length env h s"
  by (cases "container s") (simp_all add: ecma_string_get_length_def ecma_string_get_heap_number_size_def)

lemma bytes_heap_cong:
  "chunk_pool h' = chunk_pool h \<Longrightarrow> number_pool h' = number_pool h
     \<Longrightarrow> ecma_string_bytes env h' s = ecma_string_bytes env h s"
  by (cases "container s") (simp_all add: ecma_string_bytes_def)

lemma ok_heap_cong:
  "chunk_pool h' = chunk_pool h \<Longrightarrow> number_pool h' = number_pool h
     \<Longrightarrow> ecma_string_ok env h' s = ecma_string_ok env h s"
  by (cases "container s") (simp_all add: ecma_string_ok_def)

lemma ok_length_ex: "ecma_string_ok env h s \<Longrightarrow> \<exists>len. ecma_string_get_length env h s = Some len"
  by (cases "container s")
     (auto simp: ecma_string_ok_def ecma_string_get_length_def lit_get_magic_string_utf8_def
        lit_get_magic_string_ex_utf8_def ecma_string_get_heap_number_size_def
        split: option.splits)

lemma size0_length0:
  assumes "ecma_string_ok env h s" "ecma_string_length_ok env h s"
    "ecma_string_get_size env h s = Some 0"
    "lit_utf8_string_length env [] = 0"
  shows "ecma_string_get_length env h s = Some 0"
  using assms
  by (cases "container s")
     (auto simp: ecma_string_ok_def ecma_string_length_ok_def ecma_string_get_length_def ecma_string_get_size_def
        lit_get_magic_string_utf8_def lit_get_magic_string_ex_utf8_def
        ecma_string_get_heap_number_size_def lit_charset_literal_def
        split: option.splits lit_literal_t.splits if_splits)

lemma copy_or_ref_no_overflow:
  assumes "string_pool h p = Some s" "0 < refs s"
    "refs s + 1 < 2 ^ CONFIG_ECMA_REFERENCE_COUNTER_WIDTH env"
  shows "ecma_copy_or_ref_ecma_string env h p = Some (p, set_string h p (s\<lparr>refs := refs s + 1\<rparr>))"
  using assms
  by (simp add: ecma_copy_or_ref_ecma_string_def JERRY_ASSERT_def refs_increment_def Let_def)

lemma concat_nonempty:
  assumes p1: "string_pool h string1_p = Some s1" and p2: "string_pool h string2_p = Some s2"
    and ok1: "ecma_string_ok env h s1" and ok2: "ecma_string_ok env h s2"
    and b1: "ecma_string_bytes env h s1 = Some bs1" and b2: "ecma_string_bytes env h s2 = Some bs2"
    and ne: "bs1 \<noteq> []" "bs2 \<noteq> []"
    and small: "length bs1 + length bs2 < 2 ^ 32"
    and l1: "ecma_string_get_length env h s1 = Some len1"
    and l2: "ecma_string_get_length env h s2 = Some len2"
    and free: "free_strings h = p # ps" "free_cps h = cp # cps" "cp \<noteq> MEM_CP_NULL"
  shows "ecma_concat_ecma_strings env h string1_p string2_p =
     Some (p,
       set_string
         (h\<lparr>free_strings := ps, free_cps := cps,
            chunk_pool := (chunk_pool h)(cp \<mapsto>
              \<lparr>hdr_size = word_of_nat (length bs1 + length bs2),
               hdr_length = word_of_nat ((len1 + len2) mod 2 ^ 32),
               chunk_bytes = bs1 @ bs2\<rparr>)\<rparr>)
         p
         \<lparr>refs = 1, container = ECMA_STRING_CONTAINER_HEAP_CHUNKS,
          hash = lit_utf8_string_hash_combine env (hash s1) bs2,
          u_common_field = cp\<rparr>)"
proof -
  let ?h2 = "h\<lparr>free_strings := ps, free_cps := cps\<rparr>"
  let ?n = "length bs1 + length bs2"
  have sz1: "ecma_string_get_size env h s1 = Some (length bs1)" using ok1 b1 by (rule ok_size)
  have sz2: "ecma_string_get_size env h s2 = Some (length bs2)" using ok2 b2 by (rule ok_size)
  have ok1': "ecma_string_ok env ?h2 s1" using ok1 by (simp add: ok_heap_cong[of ?h2 h])
  have ok2': "ecma_string_ok env ?h2 s2" using ok2 by (simp add: ok_heap_cong[of ?h2 h])
  have b1': "ecma_string_bytes env ?h2 s1 = Some bs1" using b1 by (simp add: bytes_heap_cong[of ?h2 h])
  have b2': "ecma_string_bytes env ?h2 s2 = Some bs2" using b2 by (simp add: bytes_heap_cong[of ?h2 h])
  have w1: "ecma_string_to_utf8_string env ?h2 s1 (replicate ?n 0) (int (length bs1))
      = Some (int (length bs1), bs1 @ replicate (length bs2) 0)"
    using to_utf8_string_eq [OF ok1' b1', of "int (length bs1)" "replicate ?n 0"] ne
    by simp
  have w2: "ecma_string_to_utf8_string env ?h2 s2 (replicate (length bs2) 0) (int (length bs2))
      = Some (int (length bs2), bs2)"
    using to_utf8_string_eq [OF ok2' b2', of "int (length bs2)" "replicate (length bs2) 0"] ne
    by simp
  have l1': "ecma_string_get_length env ?h2 s1 = Some len1" using l1 by (simp add: get_length_heap_cong[of ?h2 h])
  have l2': "ecma_string_get_length env ?h2 s2 = Some len2" using l2 by (simp add: get_length_heap_cong[of ?h2 h])
  show ?thesis
    using p1 p2 sz1 sz2 ne small free w1 w2 l1' l2'
    by (simp add: ecma_concat_ecma_strings_def ecma_alloc_string_def mem_heap_alloc_block_def
        mem_heap_block_bytes_def JERRY_ASSERT_def Let_def)
qed

lemma unat_word16: "n < 2 ^ 16 \<Longrightarrow> unat (word_of_nat n :: 16 word) = n"
  by (simp add: unat_of_nat)

lemma set_string_pools [simp]:
  "chunk_pool (set_string h p s) = chunk_pool h"
  "number_pool (set_string h p s) = number_pool h"
  "string_pool (set_string h p s) p = Some s"
  by (simp_all add: set_string_def)

lemma example_string_hi_length:
  "ecma_string_get_length example_env example_heap example_string_hi = Some 2"
  by (simp add: ecma_string_get_length_def example_string_hi_def example_heap_def
      ECMA_GET_NON_NULL_POINTER_def MEM_CP_NULL_def)

lemma example_string_hi_length_ok:
  "ecma_string_length_ok example_env example_heap example_string_hi"
  by (simp add: ecma_string_length_ok_def example_string_hi_def example_heap_def example_env_def
      ECMA_GET_NON_NULL_POINTER_def MEM_CP_NULL_def)

lemma example_copy_or_ref_saturated:
  "ecma_copy_or_ref_ecma_string example_env example_heap_max 10 =
     Some (20, set_string
       (example_heap_max\<lparr>free_strings := [21, 22, 23], free_cps := [31, 32, 33],
          chunk_pool := (chunk_pool example_heap_max)(30 \<mapsto>
            \<lparr>hdr_size = 2, hdr_length = 2, chunk_bytes = [104, 105]\<rparr>)\<rparr>)
       20 example_string_hi_max)"
proof -
  have pool: "string_pool example_heap_max 10 = Some example_string_hi_max"
    by (simp add: example_heap_max_def set_string_def)
  have mx: "refs example_string_hi_max = 2 ^ CONFIG_ECMA_REFERENCE_COUNTER_WIDTH example_env - 1"
    by (simp add: example_string_hi_max_def example_env_def)
  have w: "0 < CONFIG_ECMA_REFERENCE_COUNTER_WIDTH example_env"
    by (simp add: example_env_def)
  have gc: "ecma_gc_run example_env (ecma_lcache_invalidate_all example_env
              (set_string example_heap_max 10 example_string_hi_max)) = example_heap_max"
    by (simp add: example_env_def example_heap_max_def set_string_def)
  have c: "container example_string_hi_max = ECMA_STRING_CONTAINER_HEAP_CHUNKS"
    by (simp add: example_string_hi_max_def example_string_hi_def)
  have u: "u_common_field example_string_hi_max = 5"
    by (simp add: example_string_hi_max_def example_string_hi_def)
  have nn: "u_common_field example_string_hi_max \<noteq> MEM_CP_NULL"
    by (simp add: u MEM_CP_NULL_def)
  have ch: "chunk_pool example_heap_max (u_common_field example_string_hi_max)
              = Some \<lparr>hdr_size = 2, hdr_length = 2, chunk_bytes = [104, 105]\<rparr>"
    by (simp add: u example_heap_max_def example_heap_def set_string_def)
  have le: "unat (hdr_size \<lparr>hdr_size = 2, hdr_length = 2, chunk_bytes = [104, 105]\<rparr>)
              \<le> length (chunk_bytes \<lparr>hdr_size = 2, hdr_length = 2, chunk_bytes = [104, 105::8 word]\<rparr>)"
    by simp
  have fs: "free_strings example_heap_max = 20 # [21, 22, 23]"
    by (simp add: example_heap_max_def example_heap_def set_string_def)
  have fc: "free_cps example_heap_max = 30 # [31, 32, 33]"
    by (simp add: example_heap_max_def example_heap_def set_string_def)
  have n1: "string_pool example_heap_max 20 = None"
    by (simp add: example_heap_max_def example_heap_def set_string_def)
  have n2: "chunk_pool example_heap_max 30 = None"
    by (simp add: example_heap_max_def example_heap_def set_string_def)
  show ?thesis
    using copy_or_ref_overflow_result [OF pool mx w gc pool refl c nn ch le fs fc n1 n2]
    by simp
qed

subsection \<open>Heap strings are not empty\<close>

lemma magic_table_lookup_Some:
  "magic_table_lookup ms bs i = Some j \<Longrightarrow> i \<le> j \<and> j < i + length ms \<and> ms ! (j - i) = bs"
proof (induction ms arbitrary: i)
  case Nil
  then show ?case by simp
next
  case (Cons m ms)
  show ?case
  proof (cases "m = bs")
    case True
    with Cons.prems show ?thesis by simp
  next
    case False
    with Cons.prems have "magic_table_lookup ms bs (Suc i) = Some j" by simp
    from Cons.IH [OF this] show ?thesis by (auto simp: nth_Cons')
  qed
qed

lemma magic_table_lookup_None_iff:
  "magic_table_lookup ms bs i = None \<longleftrightarrow> bs \<notin> set ms"
  by (induction ms arbitrary: i) auto

lemma get_magic_string_container:
  assumes "ecma_get_magic_string env h mid = Some (p, h')"
  shows "\<exists>s. string_pool h' p = Some s \<and> container s = ECMA_STRING_CONTAINER_MAGIC_STRING"
  using assms
  by (auto simp: ecma_get_magic_string_def ecma_new_ecma_string_from_magic_string_id_def
      ecma_init_ecma_string_from_magic_string_id_def ecma_alloc_string_def
      bind_eq_Some_conv split: list.splits)

lemma get_magic_string_ex_container:
  assumes "ecma_get_magic_string_ex env h mid = Some (p, h')"
  shows "\<exists>s. string_pool h' p = Some s \<and> container s = ECMA_STRING_CONTAINER_MAGIC_STRING_EX"
  using assms
  by (auto simp: ecma_get_magic_string_ex_def ecma_new_ecma_string_from_magic_string_ex_id_def
      ecma_init_ecma_string_from_magic_string_ex_id_def ecma_alloc_string_def
      bind_eq_Some_conv split: list.splits)

lemma from_utf8_new_chunk:
  assumes valid: "JERRY_NDEBUG env \<or> lit_is_cesu8_string_valid env bs"
    and nm: "lit_is_utf8_string_magic env bs = None"
    and nmx: "lit_is_ex_utf8_string_magic env bs = None"
    and ne: "bs \<noteq> []"
    and free: "free_strings h = p # ps" "free_cps h = cp # cps" "cp \<noteq> MEM_CP_NULL"
  shows "ecma_new_ecma_string_from_utf8 env h bs =
     Some (p,
       set_string
         (h\<lparr>free_strings := ps, free_cps := cps,
            chunk_pool := (chunk_pool h)(cp \<mapsto>
              \<lparr>hdr_size = word_of_nat (length bs),
               hdr_length = word_of_nat (lit_utf8_string_length env bs),
               chunk_bytes = bs\<rparr>)\<rparr>)
         p
         \<lparr>refs = 1, container = ECMA_STRING_CONTAINER_HEAP_CHUNKS,
          hash = lit_utf8_string_calc_hash env bs, u_common_field = cp\<rparr>)"
  using assms
  by (auto simp: ecma_new_ecma_string_from_utf8_def JERRY_ASSERT_def ecma_alloc_string_def
      mem_heap_alloc_block_def)

lemma from_utf8_heap_chunk_size:
  assumes r: "ecma_new_ecma_string_from_utf8 env h bs = Some (p, h')"
    and c: "string_pool h' p = Some c" "container c = ECMA_STRING_CONTAINER_HEAP_CHUNKS"
    and small: "length bs < 2 ^ 16"
    and empty: "\<not> JERRY_NDEBUG env \<or> [] \<in> set (magic_strings env) \<or> [] \<in> set (magic_strings_ex env)"
    and nonnull: "MEM_CP_NULL \<notin> set (free_cps h)"
  shows "ecma_string_get_size env h' c = Some (length bs) \<and> 1 \<le> length bs"
proof (cases "lit_is_utf8_string_magic env bs")
  case (Some mid)
  then have "ecma_get_magic_string env h mid = Some (p, h')"
    using r by (auto simp: ecma_new_ecma_string_from_utf8_def bind_eq_Some_conv)
  from get_magic_string_container [OF this] c show ?thesis by auto
next
  case None
  note nm = this
  show ?thesis
  proof (cases "lit_is_ex_utf8_string_magic env bs")
    case (Some mid)
    then have "ecma_get_magic_string_ex env h mid = Some (p, h')"
      using r nm by (auto simp: ecma_new_ecma_string_from_utf8_def bind_eq_Some_conv)
    from get_magic_string_ex_container [OF this] c show ?thesis by auto
  next
    case None
    have ne: "bs \<noteq> []"
    proof
      assume e: "bs = []"
      from nm None have "[] \<notin> set (magic_strings env)" "[] \<notin> set (magic_strings_ex env)"
        by (simp_all add: e lit_is_utf8_string_magic_def lit_is_ex_utf8_string_magic_def
            magic_table_lookup_None_iff)
      with empty have "\<not> JERRY_NDEBUG env" by blast
      with r nm None e show False
        by (auto simp: ecma_new_ecma_string_from_utf8_def JERRY_ASSERT_def bind_eq_Some_conv
            split: if_splits)
    qed
    obtain q qs cp cps where free: "free_strings h = q # qs" "free_cps h = cp # cps"
      using r nm None
      by (auto simp: ecma_new_ecma_string_from_utf8_def ecma_alloc_string_def
          mem_heap_alloc_block_def bind_eq_Some_conv split: list.splits)
    have cp: "cp \<noteq> MEM_CP_NULL" using nonnull free(2) by auto
    have valid: "JERRY_NDEBUG env \<or> lit_is_cesu8_string_valid env bs"
      using r by (auto simp: ecma_new_ecma_string_from_utf8_def JERRY_ASSERT_def bind_eq_Some_conv
          split: if_splits)
    have "unat (word_of_nat (length bs) :: 16 word) = length bs"
      using small by (rule unat_word16)
    moreover have "1 \<le> length bs" using ne by (cases bs) simp_all
    ultimately show ?thesis
      using r c ne cp from_utf8_new_chunk [OF valid nm None ne free cp]
      by (auto simp: set_string_def ecma_string_get_size_def ECMA_GET_NON_NULL_POINTER_def
          split: if_splits)
  qed
qed

lemma heap_chunk_get_size:
  "container c = ECMA_STRING_CONTAINER_HEAP_CHUNKS \<Longrightarrow> u_common_field c \<noteq> MEM_CP_NULL
     \<Longrightarrow> chunk_pool h (u_common_field c) = Some d
     \<Longrightarrow> ecma_string_get_size env h c = Some (unat (hdr_size d))"
  by (simp add: ecma_string_get_size_def ECMA_GET_NON_NULL_POINTER_def)

lemma concat_heap_chunk_size:
  assumes pools: "string_pool h p1 = Some a" "string_pool h p2 = Some b"
    and sizes: "ecma_string_get_size env h a = Some n1" "ecma_string_get_size env h b = Some n2"
    and r: "ecma_concat_ecma_strings env h p1 p2 = Some (pc, h')"
    and nonnull: "MEM_CP_NULL \<notin> set (free_cps h)"
  shows "(n1 = 0 \<longrightarrow> ecma_copy_or_ref_ecma_string env h p2 = Some (pc, h'))
       \<and> (n1 \<noteq> 0 \<and> n2 = 0 \<longrightarrow> ecma_copy_or_ref_ecma_string env h p1 = Some (pc, h'))
       \<and> (n1 \<noteq> 0 \<and> n2 \<noteq> 0 \<and> n1 + n2 < 2 ^ 16 \<longrightarrow>
            (\<exists>c. string_pool h' pc = Some c
                 \<and> container c = ECMA_STRING_CONTAINER_HEAP_CHUNKS
                 \<and> ecma_string_get_size env h' c = Some (n1 + n2) \<and> 1 \<le> n1 + n2))"
proof (intro conjI impI)
  assume "n1 = 0"
  then show "ecma_copy_or_ref_ecma_string env h p2 = Some (pc, h')"
    using pools sizes r by (simp add: ecma_concat_ecma_strings_def)
next
  assume "n1 \<noteq> 0 \<and> n2 = 0"
  then show "ecma_copy_or_ref_ecma_string env h p1 = Some (pc, h')"
    using pools sizes r by (simp add: ecma_concat_ecma_strings_def)
next
  assume n: "n1 \<noteq> 0 \<and> n2 \<noteq> 0 \<and> n1 + n2 < 2 ^ 16"
  then have m: "(n1 + n2) mod 2 ^ 32 = n1 + n2" by simp
  from r pools sizes n obtain q qs cp cps d hs where
    free: "free_strings h = q # qs" "free_cps h = cp # cps"
    and res: "pc = q"
      "h' = set_string (h\<lparr>free_strings := qs, free_cps := cps,
              chunk_pool := (chunk_pool h)(cp \<mapsto> d)\<rparr>) q
             \<lparr>refs = 1, container = ECMA_STRING_CONTAINER_HEAP_CHUNKS, hash = hs, u_common_field = cp\<rparr>"
      "hdr_size d = word_of_nat (n1 + n2)"
    by (auto simp: ecma_concat_ecma_strings_def ecma_alloc_string_def mem_heap_alloc_block_def
        bind_eq_Some_conv Let_def m split: list.splits simp del: of_nat_add)
  have cp: "cp \<noteq> MEM_CP_NULL" using nonnull free(2) by auto
  have "unat (hdr_size d) = n1 + n2"
    using n res(3) by (simp add: unat_word16 del: of_nat_add)
  moreover have "1 \<le> n1 + n2" using n by simp
  ultimately show "\<exists>c. string_pool h' pc = Some c
                 \<and> container c = ECMA_STRING_CONTAINER_HEAP_CHUNKS
                 \<and> ecma_string_get_size env h' c = Some (n1 + n2) \<and> 1 \<le> n1 + n2"
    using res(1,2) cp
    by (simp add: heap_chunk_get_size [where d = d])
qed

text \<open>
  Below \<open>2^16\<close> bytes no heap string is empty. In a heap whose allocator does not
  hand out the null pointer:
  a \<^verbatim>\<open>HEAP_CHUNKS\<close> descriptor that \<^verbatim>\<open>ecma_new_ecma_string_from_utf8\<close> builds
  from a slice of fewer than \<open>2^16\<close> bytes has the byte size of the slice, which is
  at least 1 (the empty slice gives a magic string when a table holds the empty
  string, and a debug build asserts that the slice is not empty); and
  \<^verbatim>\<open>ecma_concat_ecma_strings\<close> hands the other operand to
  \<^verbatim>\<open>ecma_copy_or_ref_ecma_string\<close> when an operand has byte size 0, and otherwise,
  when the byte sizes sum to less than \<open>2^16\<close>, builds a \<^verbatim>\<open>HEAP_CHUNKS\<close> descriptor
  whose byte size is that sum, at least 1.
\<close>

lemma heap_chunks_nonempty_below_limit:
  assumes "MEM_CP_NULL \<notin> set (free_cps h)"
  shows "(\<forall>bs p h' c.
            ecma_new_ecma_string_from_utf8 env h bs = Some (p, h')
            \<and> string_pool h' p = Some c \<and> container c = ECMA_STRING_CONTAINER_HEAP_CHUNKS
            \<and> length bs < 2 ^ 16
            \<and> (\<not> JERRY_NDEBUG env \<or> [] \<in> set (magic_strings env) \<or> [] \<in> set (magic_strings_ex env))
            \<longrightarrow> ecma_string_get_size env h' c = Some (length bs) \<and> 1 \<le> length bs)
       \<and> (\<forall>p1 p2 a b n1 n2 pc h'.
            string_pool h p1 = Some a \<and> string_pool h p2 = Some b
            \<and> ecma_string_get_size env h a = Some n1 \<and> ecma_string_get_size env h b = Some n2
            \<and> ecma_concat_ecma_strings env h p1 p2 = Some (pc, h')
            \<longrightarrow> (n1 = 0 \<longrightarrow> ecma_copy_or_ref_ecma_string env h p2 = Some (pc, h'))
              \<and> (n1 \<noteq> 0 \<and> n2 = 0 \<longrightarrow> ecma_copy_or_ref_ecma_string env h p1 = Some (pc, h'))
              \<and> (n1 \<noteq> 0 \<and> n2 \<noteq> 0 \<and> n1 + n2 < 2 ^ 16 \<longrightarrow>
                   (\<exists>c. string_pool h' pc = Some c
                        \<and> container c = ECMA_STRING_CONTAINER_HEAP_CHUNKS
                        \<and> ecma_string_get_size env h' c = Some (n1 + n2) \<and> 1 \<le> n1 + n2)))"
proof (intro conjI allI impI)
  fix bs p h' c
  assume a: "ecma_new_ecma_string_from_utf8 env h bs = Some (p, h')
            \<and> string_pool h' p = Some c \<and> container c = ECMA_STRING_CONTAINER_HEAP_CHUNKS
            \<and> length bs < 2 ^ 16
            \<and> (\<not> JERRY_NDEBUG env \<or> [] \<in> set (magic_strings env) \<or> [] \<in> set (magic_strings_ex env))"
  then have "ecma_string_get_size env h' c = Some (length bs) \<and> 1 \<le> length bs"
    using from_utf8_heap_chunk_size [of env h bs p h' c] assms by blast
  then show "ecma_string_get_size env h' c = Some (length bs)" "1 \<le> length bs" by simp_all
next
  fix p1 p2 a b n1 n2 pc h'
  assume a: "string_pool h p1 = Some a \<and> string_pool h p2 = Some b
            \<and> ecma_string_get_size env h a = Some n1 \<and> ecma_string_get_size env h b = Some n2
            \<and> ecma_concat_ecma_strings env h p1 p2 = Some (pc, h')"
  then have r: "(n1 = 0 \<longrightarrow> ecma_copy_or_ref_ecma_string env h p2 = Some (pc, h'))
       \<and> (n1 \<noteq> 0 \<and> n2 = 0 \<longrightarrow> ecma_copy_or_ref_ecma_string env h p1 = Some (pc, h'))
       \<and> (n1 \<noteq> 0 \<and> n2 \<noteq> 0 \<and> n1 + n2 < 2 ^ 16 \<longrightarrow>
            (\<exists>c. string_pool h' pc = Some c
                 \<and> container c = ECMA_STRING_CONTAINER_HEAP_CHUNKS
                 \<and> ecma_string_get_size env h' c = Some (n1 + n2) \<and> 1 \<le> n1 + n2))"
    using concat_heap_chunk_size [of h p1 a p2 b env n1 n2 pc h'] assms by blast
  {
    assume "n1 = 0"
    with r show "ecma_copy_or_ref_ecma_string env h p2 = Some (pc, h')" by blast
  }
  {
    assume "n1 \<noteq> 0 \<and> n2 = 0"
    with r show "ecma_copy_or_ref_ecma_string env h p1 = Some (pc, h')" by blast
  }
  {
    assume "n1 \<noteq> 0 \<and> n2 \<noteq> 0 \<and> n1 + n2 < 2 ^ 16"
    with r show "\<exists>c. string_pool h' pc = Some c
                 \<and> container c = ECMA_STRING_CONTAINER_HEAP_CHUNKS
                 \<and> ecma_string_get_size env h' c = Some (n1 + n2) \<and> 1 \<le> n1 + n2" by blast
  }
qed

lemma example_heap_free_cps: "free_cps example_heap = 30 # [31, 32, 33]"
  by (simp add: example_heap_def)

lemma example_not_null: "(30 :: 32 word) \<noteq> MEM_CP_NULL"
  by (simp add: MEM_CP_NULL_def)

lemma example_heap_nonnull: "MEM_CP_NULL \<notin> set (free_cps example_heap)"
  by (simp add: example_heap_def MEM_CP_NULL_def)

lemma example_from_utf8_x:
  "ecma_new_ecma_string_from_utf8 example_env example_heap [120] =
     Some (20,
       set_string
         (example_heap\<lparr>free_strings := [21, 22, 23], free_cps := [31, 32, 33],
            chunk_pool := (chunk_pool example_heap)(30 \<mapsto>
              \<lparr>hdr_size = 1, hdr_length = 1, chunk_bytes = [120]\<rparr>)\<rparr>)
         20
         \<lparr>refs = 1, container = ECMA_STRING_CONTAINER_HEAP_CHUNKS,
          hash = 120, u_common_field = 30\<rparr>)"
proof -
  have valid: "JERRY_NDEBUG example_env \<or> lit_is_cesu8_string_valid example_env [120]"
    by (simp add: example_env_def)
  have nm: "lit_is_utf8_string_magic example_env [120] = None"
    by (simp add: lit_is_utf8_string_magic_def example_env_def)
  have nmx: "lit_is_ex_utf8_string_magic example_env [120] = None"
    by (simp add: lit_is_ex_utf8_string_magic_def example_env_def)
  have ne: "[120 :: 8 word] \<noteq> []" by simp
  show ?thesis
    using from_utf8_new_chunk [OF valid nm nmx ne example_heap_free_strings
        example_heap_free_cps example_not_null]
    by (simp add: example_env_def example_hash_combine_def)
qed

lemma example_heap_chunks_nonempty:
  "MEM_CP_NULL \<notin> set (free_cps example_heap)
   \<and> ecma_new_ecma_string_from_utf8 example_env example_heap [120] \<noteq> None
   \<and> container (the (string_pool (snd (the (ecma_new_ecma_string_from_utf8 example_env example_heap [120]))) 20))
       = ECMA_STRING_CONTAINER_HEAP_CHUNKS
   \<and> ecma_string_get_size example_env
        (snd (the (ecma_new_ecma_string_from_utf8 example_env example_heap [120])))
        (the (string_pool (snd (the (ecma_new_ecma_string_from_utf8 example_env example_heap [120]))) 20))
       = Some 1"
proof -
  let ?h = "set_string
         (example_heap\<lparr>free_strings := [21, 22, 23], free_cps := [31, 32, 33],
            chunk_pool := (chunk_pool example_heap)(30 \<mapsto>
              \<lparr>hdr_size = 1, hdr_length = 1, chunk_bytes = [120]\<rparr>)\<rparr>)
         20
         \<lparr>refs = 1, container = ECMA_STRING_CONTAINER_HEAP_CHUNKS,
          hash = 120, u_common_field = 30\<rparr>"
  let ?c = "\<lparr>refs = 1, container = ECMA_STRING_CONTAINER_HEAP_CHUNKS,
          hash = 120, u_common_field = 30\<rparr>"
  have dbg: "\<not> JERRY_NDEBUG example_env" by (simp add: example_env_def)
  have "ecma_new_ecma_string_from_utf8 example_env example_heap [120] = Some (20, ?h)
        \<and> string_pool ?h 20 = Some ?c \<and> container ?c = ECMA_STRING_CONTAINER_HEAP_CHUNKS
        \<and> length [120 :: 8 word] < 2 ^ 16
        \<and> (\<not> JERRY_NDEBUG example_env \<or> [] \<in> set (magic_strings example_env)
             \<or> [] \<in> set (magic_strings_ex example_env))"
    using example_from_utf8_x dbg by simp
  then have "ecma_string_get_size example_env ?h ?c = Some (length [120 :: 8 word])"
    using heap_chunks_nonempty_below_limit [OF example_heap_nonnull, where env = example_env] by blast
  then show ?thesis
    using example_heap_nonnull by (simp add: example_from_utf8_x)
qed

lemma example_big_string_length: "length example_big_string = 65536"
  unfolding example_big_string_def by (rule length_replicate)

lemma magic_table_lookup_length:
  "\<forall>m \<in> set ms. length m \<noteq> length bs \<Longrightarrow> magic_table_lookup ms bs i = None"
  by (auto simp: magic_table_lookup_None_iff)

text \<open>
  C9. Every \<^verbatim>\<open>HEAP_CHUNKS\<close> descriptor should have a byte size of at least 1, the
  field \<^verbatim>\<open>size\<close> of the header being the size of the string in bytes. For a slice
  of \<open>2^16\<close> bytes (the letter \<open>a\<close>, \<open>2^16\<close> times)
  \<^verbatim>\<open>ecma_new_ecma_string_from_utf8\<close> returns a \<^verbatim>\<open>HEAP_CHUNKS\<close> descriptor whose
  block holds the \<open>2^16\<close> bytes and whose byte size is 0: the size is stored
  through the cast \<^verbatim>\<open>(uint16_t) string_size\<close>.
\<close>

theorem ecma_new_ecma_string_from_utf8_size_wraps:
  "length example_big_string = 65536
   \<and> example_from_utf8_big \<noteq> None
   \<and> container (the (string_pool (snd (the example_from_utf8_big)) (fst (the example_from_utf8_big))))
       = ECMA_STRING_CONTAINER_HEAP_CHUNKS
   \<and> length (chunk_bytes (the (chunk_pool (snd (the example_from_utf8_big))
        (u_common_field
          (the (string_pool (snd (the example_from_utf8_big)) (fst (the example_from_utf8_big))))))))
       = 65536
   \<and> ecma_string_get_size example_env (snd (the example_from_utf8_big))
        (the (string_pool (snd (the example_from_utf8_big)) (fst (the example_from_utf8_big))))
       = Some 0"
proof -
  have valid: "JERRY_NDEBUG example_env \<or> lit_is_cesu8_string_valid example_env example_big_string"
    by (simp add: example_env_def)
  have "magic_table_lookup (magic_strings example_env) example_big_string 0 = None"
    by (rule magic_table_lookup_length) (simp add: example_env_def example_big_string_length)
  then have nm: "lit_is_utf8_string_magic example_env example_big_string = None"
    by (simp add: lit_is_utf8_string_magic_def)
  have nmx: "lit_is_ex_utf8_string_magic example_env example_big_string = None"
    by (simp add: lit_is_ex_utf8_string_magic_def example_env_def)
  have ne: "example_big_string \<noteq> []"
    using example_big_string_length by auto
  have z: "(word_of_nat 65536 :: 16 word) = 0" by simp
  show ?thesis
    using from_utf8_new_chunk [OF valid nm nmx ne example_heap_free_strings
        example_heap_free_cps example_not_null]
    by (simp add: example_from_utf8_big_def example_big_string_length set_string_def
        ecma_string_get_size_def ECMA_GET_NON_NULL_POINTER_def example_not_null z)
qed

subsection \<open>Equal strings in different containers, and magic string recognition\<close>

lemma strncmp_refl: "n \<le> length bs \<Longrightarrow> strncmp bs bs n = Some 0"
proof (induction bs arbitrary: n)
  case Nil
  then show ?case by simp
next
  case (Cons c bs)
  show ?case
  proof (cases n)
    case 0
    then show ?thesis by simp
  next
    case (Suc m)
    with Cons.prems have "m \<le> length bs" by simp
    with Suc Cons.IH show ?thesis by simp
  qed
qed

lemma longpath_utf8_string_direct:
  assumes ok: "ecma_string_ok env h s" and bs: "ecma_string_bytes env h s = Some bs"
    and c: "container s = ECMA_STRING_CONTAINER_HEAP_CHUNKS \<or> container s = ECMA_STRING_CONTAINER_LIT_TABLE"
  shows "longpath_utf8_string env h s n = Some (bs, None, h)"
  using ok bs c
  by (auto simp: longpath_utf8_string_def ecma_string_ok_def ecma_string_bytes_def block_read_def
      split: option.splits)

lemma longpath_utf8_string_alloc:
  assumes ok: "ecma_string_ok env h s" and bs: "ecma_string_bytes env h s = Some bs"
    and ne: "bs \<noteq> []"
    and c: "container s \<noteq> ECMA_STRING_CONTAINER_HEAP_CHUNKS" "container s \<noteq> ECMA_STRING_CONTAINER_LIT_TABLE"
    and free: "free_cps h = cp # cps"
  shows "longpath_utf8_string env h s (length bs) = Some (bs, Some cp, h\<lparr>free_cps := cps\<rparr>)"
proof -
  let ?h1 = "h\<lparr>free_cps := cps\<rparr>"
  have ok1: "ecma_string_ok env ?h1 s" using ok by (simp add: ok_heap_cong [of ?h1 h])
  have bs1: "ecma_string_bytes env ?h1 s = Some bs" using bs by (simp add: bytes_heap_cong [of ?h1 h])
  have "ecma_string_to_utf8_string env ?h1 s (replicate (length bs) 0) (int (length bs))
          = Some (int (length bs), bs)"
    using to_utf8_string_eq [OF ok1 bs1, of "int (length bs)" "replicate (length bs) 0"] ne
    by simp
  then show ?thesis
    using c ne free
    by (simp add: longpath_utf8_string_def mem_heap_alloc_block_def mem_heap_block_bytes_def
        JERRY_ASSERT_def)
qed

text \<open>
  The blocks that the long path of the comparison takes from the allocator: one for
  each operand that is neither a heap string nor a literal.
\<close>

lemma longpath_utf8_string_bytes:
  assumes ok: "ecma_string_ok env h s" and bs: "ecma_string_bytes env h s = Some bs"
    and ne: "bs \<noteq> []"
    and free: "container s \<noteq> ECMA_STRING_CONTAINER_HEAP_CHUNKS
               \<Longrightarrow> container s \<noteq> ECMA_STRING_CONTAINER_LIT_TABLE \<Longrightarrow> free_cps h \<noteq> []"
  shows "\<exists>on_heap h1. longpath_utf8_string env h s (length bs) = Some (bs, on_heap, h1)
           \<and> chunk_pool h1 = chunk_pool h \<and> number_pool h1 = number_pool h
           \<and> (if container s = ECMA_STRING_CONTAINER_HEAP_CHUNKS
                 \<or> container s = ECMA_STRING_CONTAINER_LIT_TABLE
              then free_cps h1 = free_cps h else free_cps h1 = tl (free_cps h))"
proof (cases "container s = ECMA_STRING_CONTAINER_HEAP_CHUNKS \<or> container s = ECMA_STRING_CONTAINER_LIT_TABLE")
  case True
  then show ?thesis using longpath_utf8_string_direct [OF ok bs True] by simp
next
  case False
  then obtain cp cps where f: "free_cps h = cp # cps" using free by (cases "free_cps h") auto
  from False have c: "container s \<noteq> ECMA_STRING_CONTAINER_HEAP_CHUNKS"
      "container s \<noteq> ECMA_STRING_CONTAINER_LIT_TABLE" by simp_all
  show ?thesis using longpath_utf8_string_alloc [OF ok bs ne c f] False f by simp
qed

lemma compare_equal_bytes:
  assumes oka: "ecma_string_ok env h a" and okb: "ecma_string_ok env h b"
    and ba: "ecma_string_bytes env h a = Some bs" and bb: "ecma_string_bytes env h b = Some bs"
    and hs: "hash a = hash b"
    and same: "container a = container b \<Longrightarrow>
               u_common_field a = u_common_field b
               \<or> (container a = ECMA_STRING_CONTAINER_HEAP_CHUNKS
                  \<and> ecma_string_get_length env h a = ecma_string_get_length env h b)"
    and free: "2 \<le> length (free_cps h)"
  shows "\<exists>h'. ecma_compare_ecma_strings env h a b = Some (True, h')"
proof (cases "container a = container b \<and> u_common_field a = u_common_field b")
  case True
  then show ?thesis using hs by (simp add: ecma_compare_ecma_strings_def)
next
  case False
  have sa: "ecma_string_get_size env h a = Some (length bs)" using oka ba by (rule ok_size)
  have sb: "ecma_string_get_size env h b = Some (length bs)" using okb bb by (rule ok_size)
  have sizes: "\<exists>h'. ecma_compare_ecma_strings_longpath_sizes env h a b = Some (True, h')"
  proof (cases "bs = []")
    case True
    then show ?thesis using sa sb by (simp add: ecma_compare_ecma_strings_longpath_sizes_def)
  next
    case ne: False
    show ?thesis
    proof (cases "container a = container b")
      case c: True
      with same False have hc: "container a = ECMA_STRING_CONTAINER_HEAP_CHUNKS"
        and len: "ecma_string_get_length env h a = ecma_string_get_length env h b"
        by auto
      from hc c have hcb: "container b = ECMA_STRING_CONTAINER_HEAP_CHUNKS" by simp
      obtain da where da: "ECMA_GET_NON_NULL_POINTER (chunk_pool h) (u_common_field a) = Some da"
          "chunk_bytes da = bs"
        using oka ba hc
        by (auto simp: ecma_string_ok_def ecma_string_bytes_def block_read_def split: option.splits)
      obtain db where db: "ECMA_GET_NON_NULL_POINTER (chunk_pool h) (u_common_field b) = Some db"
          "chunk_bytes db = bs"
        using okb bb hcb
        by (auto simp: ecma_string_ok_def ecma_string_bytes_def block_read_def split: option.splits)
      have "hdr_length da = hdr_length db"
        using len hc hcb da db by (simp add: ecma_string_get_length_def word_unat_eq_iff)
      then show ?thesis
        using sa sb ne hc hcb da db
        by (simp add: ecma_compare_ecma_strings_longpath_sizes_def strncmp_refl)
    next
      case c: False
      have fa: "free_cps h \<noteq> []" using free by auto
      obtain on1 h1 where l1: "longpath_utf8_string env h a (length bs) = Some (bs, on1, h1)"
          and p1: "chunk_pool h1 = chunk_pool h" "number_pool h1 = number_pool h"
          and f1: "free_cps h1 = free_cps h \<or> free_cps h1 = tl (free_cps h)"
        using longpath_utf8_string_bytes [OF oka ba ne fa] by (auto split: if_splits)
      have okb1: "ecma_string_ok env h1 b" using okb p1 by (simp add: ok_heap_cong [of h1 h])
      have bb1: "ecma_string_bytes env h1 b = Some bs" using bb p1 by (simp add: bytes_heap_cong [of h1 h])
      have fb: "free_cps h1 \<noteq> []"
        using f1 free by (cases "free_cps h") (auto simp: Suc_le_eq)
      obtain on2 h2 where l2: "longpath_utf8_string env h1 b (length bs) = Some (bs, on2, h2)"
        using longpath_utf8_string_bytes [OF okb1 bb1 ne fb] by auto
      show ?thesis
        using sa sb ne c l1 l2
        by (simp add: ecma_compare_ecma_strings_longpath_sizes_def strncmp_refl)
    qed
  qed
  have "\<exists>h'. ecma_compare_ecma_strings_longpath env h a b = Some (True, h')"
  proof (cases "container a = container b")
    case True
    with same False have hc: "container a = ECMA_STRING_CONTAINER_HEAP_CHUNKS" by auto
    with True sizes show ?thesis
      by (simp add: ecma_compare_ecma_strings_longpath_def JERRY_ASSERT_def)
  next
    case False
    with sizes show ?thesis by (simp add: ecma_compare_ecma_strings_longpath_def)
  qed
  then show ?thesis using False hs by (auto simp: ecma_compare_ecma_strings_def)
qed

text \<open>
  A heap string against a string in another container that is not a literal: the long
  path takes one block for the second operand and gives it back.
\<close>

lemma compare_heap_chunk_other:
  assumes oka: "ecma_string_ok env h a" and okb: "ecma_string_ok env h b"
    and ba: "ecma_string_bytes env h a = Some bs" and bb: "ecma_string_bytes env h b = Some bs"
    and hs: "hash a = hash b"
    and ca: "container a = ECMA_STRING_CONTAINER_HEAP_CHUNKS"
    and cb: "container b \<noteq> ECMA_STRING_CONTAINER_HEAP_CHUNKS" "container b \<noteq> ECMA_STRING_CONTAINER_LIT_TABLE"
  shows "ecma_compare_ecma_strings env h a b =
     (if bs = [] then Some (True, h)
      else
        (case free_cps h of
           [] \<Rightarrow> None
         | cp # cps \<Rightarrow> Some (True, mem_heap_free_block (h\<lparr>free_cps := cps\<rparr>) cp)))"
proof -
  have sa: "ecma_string_get_size env h a = Some (length bs)" using oka ba by (rule ok_size)
  have sb: "ecma_string_get_size env h b = Some (length bs)" using okb bb by (rule ok_size)
  have l1: "longpath_utf8_string env h a (length bs) = Some (bs, None, h)"
    using longpath_utf8_string_direct [OF oka ba] ca by simp
  have c: "container a \<noteq> container b" using ca cb by simp
  show ?thesis
  proof (cases "bs = []")
    case True
    then show ?thesis
      using sa sb c hs
      by (simp add: ecma_compare_ecma_strings_def ecma_compare_ecma_strings_longpath_def
          ecma_compare_ecma_strings_longpath_sizes_def)
  next
    case ne: False
    show ?thesis
    proof (cases "free_cps h")
      case Nil
      then have "longpath_utf8_string env h b (length bs) = None"
        using cb by (simp add: longpath_utf8_string_def mem_heap_alloc_block_def)
      then show ?thesis
        using Nil sa sb ne c l1 hs
        by (simp add: ecma_compare_ecma_strings_def ecma_compare_ecma_strings_longpath_def
            ecma_compare_ecma_strings_longpath_sizes_def)
    next
      case (Cons cp cps)
      have l2: "longpath_utf8_string env h b (length bs) = Some (bs, Some cp, h\<lparr>free_cps := cps\<rparr>)"
        by (rule longpath_utf8_string_alloc [OF okb bb ne cb Cons])
      show ?thesis
        using Cons sa sb ne c l1 l2 hs
        by (simp add: ecma_compare_ecma_strings_def ecma_compare_ecma_strings_longpath_def
            ecma_compare_ecma_strings_longpath_sizes_def strncmp_refl longpath_free_block_def)
    qed
  qed
qed

text \<open>Two strings in the same container: the comparison takes no block.\<close>

lemma compare_equal_bytes_same:
  assumes oka: "ecma_string_ok env h a" and okb: "ecma_string_ok env h b"
    and ba: "ecma_string_bytes env h a = Some bs" and bb: "ecma_string_bytes env h b = Some bs"
    and hs: "hash a = hash b"
    and c: "container a = container b"
    and same: "u_common_field a = u_common_field b
               \<or> (container a = ECMA_STRING_CONTAINER_HEAP_CHUNKS
                  \<and> ecma_string_get_length env h a = ecma_string_get_length env h b)"
  shows "ecma_compare_ecma_strings env h a b = Some (True, h)"
proof (cases "u_common_field a = u_common_field b")
  case True
  then show ?thesis using hs c by (simp add: ecma_compare_ecma_strings_def)
next
  case False
  with same have hc: "container a = ECMA_STRING_CONTAINER_HEAP_CHUNKS"
    and len: "ecma_string_get_length env h a = ecma_string_get_length env h b"
    by auto
  from hc c have hcb: "container b = ECMA_STRING_CONTAINER_HEAP_CHUNKS" by simp
  have sa: "ecma_string_get_size env h a = Some (length bs)" using oka ba by (rule ok_size)
  have sb: "ecma_string_get_size env h b = Some (length bs)" using okb bb by (rule ok_size)
  obtain da where da: "ECMA_GET_NON_NULL_POINTER (chunk_pool h) (u_common_field a) = Some da"
      "chunk_bytes da = bs"
    using oka ba hc
    by (auto simp: ecma_string_ok_def ecma_string_bytes_def block_read_def split: option.splits)
  obtain db where db: "ECMA_GET_NON_NULL_POINTER (chunk_pool h) (u_common_field b) = Some db"
      "chunk_bytes db = bs"
    using okb bb hcb
    by (auto simp: ecma_string_ok_def ecma_string_bytes_def block_read_def split: option.splits)
  have "hdr_length da = hdr_length db"
    using len hc hcb da db by (simp add: ecma_string_get_length_def word_unat_eq_iff)
  then have "ecma_compare_ecma_strings_longpath_sizes env h a b = Some (True, h)"
    using sa sb hc hcb da db
    by (cases "bs = []") (simp_all add: ecma_compare_ecma_strings_longpath_sizes_def strncmp_refl)
  then show ?thesis
    using False hs hc hcb
    by (simp add: ecma_compare_ecma_strings_def ecma_compare_ecma_strings_longpath_def
        JERRY_ASSERT_def)
qed

lemma lit_is_utf8_string_magic_bytes:
  assumes "length (magic_strings env) < 2 ^ 32" "lit_is_utf8_string_magic env bs = Some mid"
  shows "unat mid < length (magic_strings env) \<and> lit_get_magic_string_utf8 env mid = Some bs"
proof -
  from assms(2) obtain j where j: "magic_table_lookup (magic_strings env) bs 0 = Some j" "mid = of_nat j"
    by (auto simp: lit_is_utf8_string_magic_def)
  from magic_table_lookup_Some [OF j(1)] have jj: "j < length (magic_strings env)" "magic_strings env ! j = bs"
    by simp_all
  have "unat mid = j" using j(2) jj(1) assms(1) by (simp add: unat_of_nat)
  then show ?thesis using jj by (simp add: lit_get_magic_string_utf8_def)
qed

lemma is_string_magic_other_container:
  assumes ok: "ecma_string_ok env h s" and bs: "ecma_string_bytes env h s = Some bs"
    and c: "container s \<noteq> ECMA_STRING_CONTAINER_MAGIC_STRING"
    and ne: "bs \<noteq> []" and lim: "length bs \<le> LIT_MAGIC_STRING_LENGTH_LIMIT env"
    and len: "ecma_string_get_length env h s = Some n" "n \<le> LIT_MAGIC_STRING_LENGTH_LIMIT env"
    and magic: "lit_is_utf8_string_magic env bs = Some mid"
  shows "ecma_is_string_magic env h s = (if JERRY_NDEBUG env then Some (False, None) else None)"
proof -
  let ?L = "LIT_MAGIC_STRING_LENGTH_LIMIT env"
  have pos: "0 < length bs" using ne by simp
  then have "0 < ?L" using lim by linarith
  then have "ecma_string_to_utf8_string env h s (replicate ?L 0) (int ?L)
          = Some (int (length bs), bs @ drop (length bs) (replicate ?L 0))"
    using to_utf8_string_eq [OF ok bs, of "int ?L" "replicate ?L 0"] lim
    by simp
  then have "ecma_is_string_magic_longpath env h s = Some (Some mid)"
    using ne magic
    by (simp add: ecma_is_string_magic_longpath_def MEM_DEFINE_LOCAL_ARRAY_def JERRY_ASSERT_def)
  then show ?thesis
    using c len by (simp add: ecma_is_string_magic_def JERRY_ASSERT_call_def)
qed

text \<open>
  C5. Let \<open>a\<close> and \<open>b\<close> be descriptors in good order of nonzero byte size whose
  bytes, one after the other, are the bytes of an entry of the magic string table (not
  longer than \<^verbatim>\<open>LIT_MAGIC_STRING_LENGTH_LIMIT\<close>), and let the hash functions agree
  that combining the hash of the first bytes with the second bytes gives the hash of
  the whole. Then \<^verbatim>\<open>ecma_concat_ecma_strings\<close> returns a \<^verbatim>\<open>HEAP_CHUNKS\<close>
  descriptor with these bytes, and \<^verbatim>\<open>ecma_compare_ecma_strings\<close> between it and
  the descriptor of the magic string returns true when the allocator has a second
  block, for the bytes of the magic string. \<^verbatim>\<open>ecma_is_string_magic\<close> on
  it returns false in a build with \<^verbatim>\<open>JERRY_NDEBUG\<close>; in a debug build it does not
  return: its assertion that a string in another container is not a magic string
  fails.
\<close>

theorem ecma_is_string_magic_of_concat_result:
  assumes p1: "string_pool h string1_p = Some a" and p2: "string_pool h string2_p = Some b"
    and ok1: "ecma_string_ok env h a" and ok2: "ecma_string_ok env h b"
    and hok: "ecma_string_hash_ok env h a"
    and b1: "ecma_string_bytes env h a = Some bs1" and b2: "ecma_string_bytes env h b = Some bs2"
    and ne: "bs1 \<noteq> []" "bs2 \<noteq> []"
    and l1: "ecma_string_get_length env h a = Some len1"
    and l2: "ecma_string_get_length env h b = Some len2"
    and free: "free_strings h = p # ps" "free_cps h = cp # cp' # cps" "cp \<noteq> MEM_CP_NULL"
    and table: "length (magic_strings env) < 2 ^ 32"
    and magic: "lit_is_utf8_string_magic env (bs1 @ bs2) = Some mid"
    and lim: "length bs1 + length bs2 \<le> LIT_MAGIC_STRING_LENGTH_LIMIT env"
             "len1 + len2 \<le> LIT_MAGIC_STRING_LENGTH_LIMIT env"
             "LIT_MAGIC_STRING_LENGTH_LIMIT env < 2 ^ 16"
    and law: "lit_utf8_string_hash_combine env (lit_utf8_string_calc_hash env bs1) bs2
                = lit_utf8_string_calc_hash env (bs1 @ bs2)"
  shows "\<exists>h' c m h''. ecma_concat_ecma_strings env h string1_p string2_p = Some (p, h')
           \<and> string_pool h' p = Some c
           \<and> container c = ECMA_STRING_CONTAINER_HEAP_CHUNKS
           \<and> ecma_string_bytes env h' c = Some (bs1 @ bs2)
           \<and> ecma_is_string_magic env h' c = (if JERRY_NDEBUG env then Some (False, None) else None)
           \<and> ecma_init_ecma_string_from_magic_string_id env mid = Some m
           \<and> ecma_compare_ecma_strings env h' c m = Some (True, h'')"
proof -
  let ?d = "\<lparr>hdr_size = word_of_nat (length bs1 + length bs2),
               hdr_length = word_of_nat ((len1 + len2) mod 2 ^ 32),
               chunk_bytes = bs1 @ bs2\<rparr>"
  let ?c = "\<lparr>refs = 1, container = ECMA_STRING_CONTAINER_HEAP_CHUNKS,
          hash = lit_utf8_string_hash_combine env (hash a) bs2,
          u_common_field = cp\<rparr>"
  let ?h = "set_string
         (h\<lparr>free_strings := ps, free_cps := cp' # cps,
            chunk_pool := (chunk_pool h)(cp \<mapsto> ?d)\<rparr>) p ?c"
  let ?m = "\<lparr>refs = 1, container = ECMA_STRING_CONTAINER_MAGIC_STRING,
             hash = lit_utf8_string_calc_hash env (bs1 @ bs2), u_common_field = mid\<rparr>"
  have small16: "length bs1 + length bs2 < 2 ^ 16" "len1 + len2 < 2 ^ 16"
    using lim by simp_all
  then have small: "length bs1 + length bs2 < 2 ^ 32" by simp
  have r: "ecma_concat_ecma_strings env h string1_p string2_p = Some (p, ?h)"
    by (rule concat_nonempty [OF p1 p2 ok1 ok2 b1 b2 ne small l1 l2 free])
  have us: "unat (word_of_nat (length bs1 + length bs2) :: 16 word) = length bs1 + length bs2"
    using small16(1) by (rule unat_word16)
  have ul: "unat (word_of_nat ((len1 + len2) mod 2 ^ 32) :: 16 word) = len1 + len2"
    using small16(2) by (simp add: unat_word16 del: of_nat_add)
  have okc: "ecma_string_ok env ?h ?c"
    using free(3) us by (simp add: ecma_string_ok_def ECMA_GET_NON_NULL_POINTER_def del: of_nat_add)
  have bc: "ecma_string_bytes env ?h ?c = Some (bs1 @ bs2)"
    using free(3) us by (simp add: ecma_string_bytes_def ECMA_GET_NON_NULL_POINTER_def block_read_def del: of_nat_add)
  have lc: "ecma_string_get_length env ?h ?c = Some (len1 + len2)"
    using free(3) ul by (simp add: ecma_string_get_length_def ECMA_GET_NON_NULL_POINTER_def del: of_nat_add)
  have nec: "bs1 @ bs2 \<noteq> []" using ne by simp
  have limc: "length (bs1 @ bs2) \<le> LIT_MAGIC_STRING_LENGTH_LIMIT env" using lim(1) by simp
  have cc: "container ?c \<noteq> ECMA_STRING_CONTAINER_MAGIC_STRING" by simp
  note ism = is_string_magic_other_container [OF okc bc cc nec limc lc lim(2) magic]
  from lit_is_utf8_string_magic_bytes [OF table magic]
  have mid: "unat mid < length (magic_strings env)" "lit_get_magic_string_utf8 env mid = Some (bs1 @ bs2)"
    by simp_all
  have im: "ecma_init_ecma_string_from_magic_string_id env mid = Some ?m"
    using mid(2) by (simp add: ecma_init_ecma_string_from_magic_string_id_def)
  have okm: "ecma_string_ok env ?h ?m"
    using mid(1) by (simp add: ecma_string_ok_def)
  have bm: "ecma_string_bytes env ?h ?m = Some (bs1 @ bs2)"
    using mid(2) by (simp add: ecma_string_bytes_def)
  have "hash a = lit_utf8_string_calc_hash env bs1"
    using hok b1 by (simp add: ecma_string_hash_ok_def)
  then have hs: "hash ?c = hash ?m" using law by simp
  have cmp: "ecma_compare_ecma_strings env ?h ?c ?m
               = Some (True, mem_heap_free_block (?h\<lparr>free_cps := cps\<rparr>) cp')"
    by (subst compare_heap_chunk_other [OF okc okm bc bm hs])
       (simp_all add: ne set_string_def del: of_nat_add)
  show ?thesis
    using r ism im cmp bc by (simp del: of_nat_add)
qed

theorem ecma_is_string_magic_of_concat_result_witness:
  "string_pool example_heap_leng_th 10 = Some example_string_leng
   \<and> string_pool example_heap_leng_th 11 = Some example_string_th
   \<and> ecma_string_bytes example_env example_heap_leng_th example_string_leng = Some [108, 101, 110, 103]
   \<and> ecma_string_bytes example_env example_heap_leng_th example_string_th = Some [116, 104]
   \<and> lit_is_utf8_string_magic example_env [108, 101, 110, 103, 116, 104] = Some 1
   \<and> (\<exists>h' c. ecma_concat_ecma_strings example_env example_heap_leng_th 10 11 = Some (20, h')
          \<and> string_pool h' 20 = Some c
          \<and> container c = ECMA_STRING_CONTAINER_HEAP_CHUNKS
          \<and> ecma_string_bytes example_env h' c = Some [108, 101, 110, 103, 116, 104]
          \<and> ecma_is_string_magic example_env h' c = None
          \<and> (\<exists>h''. ecma_compare_ecma_strings example_env h' c example_string_length_magic
                      = Some (True, h'')))
   \<and> (\<exists>h' c. ecma_concat_ecma_strings example_env_release example_heap_leng_th 10 11 = Some (20, h')
          \<and> string_pool h' 20 = Some c
          \<and> container c = ECMA_STRING_CONTAINER_HEAP_CHUNKS
          \<and> ecma_is_string_magic example_env_release h' c = Some (False, None)
          \<and> (\<exists>h''. ecma_compare_ecma_strings example_env_release h' c example_string_length_magic
                      = Some (True, h'')))"
proof -
  have p1: "string_pool example_heap_leng_th 10 = Some example_string_leng"
    by (simp add: example_heap_leng_th_def)
  have p2: "string_pool example_heap_leng_th 11 = Some example_string_th"
    by (simp add: example_heap_leng_th_def)
  have fs: "free_strings example_heap_leng_th = 20 # [21, 22, 23]"
    by (simp add: example_heap_leng_th_def)
  have fc: "free_cps example_heap_leng_th = 30 # 31 # [32, 33]"
    by (simp add: example_heap_leng_th_def)
  have nn: "(30 :: 32 word) \<noteq> MEM_CP_NULL" by (simp add: MEM_CP_NULL_def)
  have ne: "[108, 101, 110, 103 :: 8 word] \<noteq> []" "[116, 104 :: 8 word] \<noteq> []" by simp_all
  {
    fix f
    let ?e = "example_env\<lparr>JERRY_NDEBUG := f\<rparr>"
    have ok1: "ecma_string_ok ?e example_heap_leng_th example_string_leng"
      by (simp add: ecma_string_ok_def example_string_leng_def example_heap_leng_th_def
          ECMA_GET_NON_NULL_POINTER_def MEM_CP_NULL_def)
    have ok2: "ecma_string_ok ?e example_heap_leng_th example_string_th"
      by (simp add: ecma_string_ok_def example_string_th_def example_heap_leng_th_def
          ECMA_GET_NON_NULL_POINTER_def MEM_CP_NULL_def)
    have b1: "ecma_string_bytes ?e example_heap_leng_th example_string_leng = Some [108, 101, 110, 103]"
      by (simp add: ecma_string_bytes_def example_string_leng_def example_heap_leng_th_def
          ECMA_GET_NON_NULL_POINTER_def MEM_CP_NULL_def block_read_def)
    have b2: "ecma_string_bytes ?e example_heap_leng_th example_string_th = Some [116, 104]"
      by (simp add: ecma_string_bytes_def example_string_th_def example_heap_leng_th_def
          ECMA_GET_NON_NULL_POINTER_def MEM_CP_NULL_def block_read_def)
    have hok: "ecma_string_hash_ok ?e example_heap_leng_th example_string_leng"
      using b1 by (simp add: ecma_string_hash_ok_def example_string_leng_def example_env_def
          example_hash_combine_def)
    have l1: "ecma_string_get_length ?e example_heap_leng_th example_string_leng = Some 4"
      by (simp add: ecma_string_get_length_def example_string_leng_def example_heap_leng_th_def
          ECMA_GET_NON_NULL_POINTER_def MEM_CP_NULL_def)
    have l2: "ecma_string_get_length ?e example_heap_leng_th example_string_th = Some 2"
      by (simp add: ecma_string_get_length_def example_string_th_def example_heap_leng_th_def
          ECMA_GET_NON_NULL_POINTER_def MEM_CP_NULL_def)
    have table: "length (magic_strings ?e) < 2 ^ 32"
      by (simp add: example_env_def)
    have magic: "lit_is_utf8_string_magic ?e ([108, 101, 110, 103] @ [116, 104]) = Some 1"
      by (simp add: lit_is_utf8_string_magic_def example_env_def)
    have lim: "length [108, 101, 110, 103 :: 8 word] + length [116, 104 :: 8 word]
                 \<le> LIT_MAGIC_STRING_LENGTH_LIMIT ?e"
        "(4::nat) + 2 \<le> LIT_MAGIC_STRING_LENGTH_LIMIT ?e"
        "LIT_MAGIC_STRING_LENGTH_LIMIT ?e < 2 ^ 16"
      by (simp_all add: example_env_def)
    have law: "lit_utf8_string_hash_combine ?e (lit_utf8_string_calc_hash ?e [108, 101, 110, 103]) [116, 104]
                = lit_utf8_string_calc_hash ?e ([108, 101, 110, 103] @ [116, 104])"
      by (simp add: example_env_def example_hash_combine_def)
    have im: "ecma_init_ecma_string_from_magic_string_id ?e 1 = Some example_string_length_magic"
      by (simp add: ecma_init_ecma_string_from_magic_string_id_def lit_get_magic_string_utf8_def
          example_env_def example_hash_combine_def example_string_length_magic_def)
    note ecma_is_string_magic_of_concat_result [OF p1 p2 ok1 ok2 hok b1 b2 ne l1 l2 fs fc nn table magic lim law] im b1 b2 magic
  }
  note inst = this
  have e1: "example_env = example_env\<lparr>JERRY_NDEBUG := False\<rparr>"
    by (simp add: example_env_def)
  have e2: "example_env_release = example_env\<lparr>JERRY_NDEBUG := True\<rparr>"
    by (simp add: example_env_release_def)
  have dbg: "\<not> JERRY_NDEBUG example_env" by (simp add: example_env_def)
  have rel: "JERRY_NDEBUG example_env_release" by (simp add: example_env_release_def)
  show ?thesis
    using inst [of False, folded e1] inst [of True, folded e2] p1 p2 dbg rel
    by auto
qed

subsection \<open>Substrings\<close>

text \<open>The code units of a byte sequence are not empty, and they are its bytes.\<close>

lemma cesu8_code_units_concat:
  "cesu8_code_units bs = Some us
     \<Longrightarrow> concat us = bs \<and> (\<forall>u \<in> set us. u \<noteq> [] \<and> cesu8_unit_size (hd u) = length u)"
proof (induction bs arbitrary: us rule: cesu8_code_units.induct)
  case 1
  then show ?case by (simp add: cesu8_code_units.simps)
next
  case (2 b bs)
  let ?w = "cesu8_unit_size b"
  from "2.prems" have c: "?w \<noteq> 0" "?w - 1 \<le> length bs"
    by (auto simp: cesu8_code_units.simps split: if_splits)
  from "2.prems" c obtain us' where r: "cesu8_code_units (drop (?w - 1) bs) = Some us'"
      and us: "us = (b # take (?w - 1) bs) # us'"
    by (auto simp: cesu8_code_units.simps split: if_splits option.splits)
  have g: "\<not> (?w = 0 \<or> length bs < ?w - 1
              \<or> \<not> list_all cesu8_continuation_byte (take (?w - 1) bs))"
    using "2.prems" by (auto simp: cesu8_code_units.simps split: if_splits)
  from "2.IH" [OF g r]
  have ih: "concat us' = drop (?w - 1) bs"
      "\<forall>u \<in> set us'. u \<noteq> [] \<and> cesu8_unit_size (hd u) = length u"
    by simp_all
  have len: "length (b # take (?w - 1) bs) = ?w" using c by simp
  show ?case using us ih len by simp
qed

text \<open>
  The cursor of \<^verbatim>\<open>ecma_string_substr\<close>, standing at the start of the code unit \<open>i\<close>,
  stands at the start of the code unit \<open>i + m\<close> after \<open>m\<close> steps, when the codec
  announces for the first byte of each code unit the size of the code unit.
\<close>

lemma concat_take_Suc:
  "i < length us \<Longrightarrow> concat (take (Suc i) us) = concat (take i us) @ us ! i"
  by (simp add: take_Suc_conv_app_nth)

lemma concat_nth_first:
  assumes "i < length us" "us ! i \<noteq> []"
  shows "length (concat (take i us)) < length (concat us)"
    and "concat us ! length (concat (take i us)) = hd (us ! i)"
proof -
  have sp: "concat us = concat (take i us) @ us ! i @ concat (drop (Suc i) us)"
    using assms(1) by (metis concat.simps(2) concat_append id_take_nth_drop)
  show "length (concat (take i us)) < length (concat us)"
    using assms(2) by (subst sp) simp
  show "concat us ! length (concat (take i us)) = hd (us ! i)"
    using assms(2) by (subst sp) (simp add: nth_append hd_conv_nth)
qed

lemma skip_code_units_units:
  assumes u: "\<forall>u \<in> set us. u \<noteq> [] \<and> lit_get_unicode_char_size_by_utf8_first_byte env (hd u) = length u"
  shows "i + m \<le> length us \<Longrightarrow>
     skip_code_units env (concat us) (length (concat (take i us))) m
       = Some (length (concat (take (i + m) us)))"
proof (induction m arbitrary: i)
  case 0
  then show ?case by simp
next
  case (Suc m)
  then have i: "i < length us" by simp
  then have ui: "us ! i \<noteq> []"
      "lit_get_unicode_char_size_by_utf8_first_byte env (hd (us ! i)) = length (us ! i)"
    using u by simp_all
  note f = concat_nth_first [OF i ui(1)]
  have step: "length (concat (take i us))
               + lit_get_unicode_char_size_by_utf8_first_byte env (concat us ! length (concat (take i us)))
             = length (concat (take (Suc i) us))"
    using f(2) ui(2) i by (simp add: concat_take_Suc)
  have "Suc i + m \<le> length us" using Suc.prems by simp
  from Suc.IH [OF this] show ?case
    using f(1) step by simp
qed

lemma concat_take_drop:
  "drop (length (concat (take i us))) (concat us) = concat (drop i us)"
  "take (length (concat (take i us))) (concat us) = concat (take i us)"
proof -
  have "concat us = concat (take i us) @ concat (drop i us)"
    by (metis append_take_drop_id concat_append)
  then show "drop (length (concat (take i us))) (concat us) = concat (drop i us)"
    and "take (length (concat (take i us))) (concat us) = concat (take i us)"
    by (metis append_eq_conv_conj)+
qed

lemma concat_take_length: "length (concat (take i us)) \<le> length (concat us)"
proof -
  have "concat us = concat (take i us) @ concat (drop i us)"
    by (metis append_take_drop_id concat_append)
  then have "length (concat us) = length (concat (take i us)) + length (concat (drop i us))"
    by (metis length_append)
  then show ?thesis by simp
qed

lemma concat_take_add:
  "concat (take (i + m) us) = concat (take i us) @ concat (take m (drop i us))"
  by (simp add: take_add)

lemma slice_bytes:
  assumes "i \<le> j"
  shows "take (length (concat (take j us)) - length (concat (take i us)))
           (drop (length (concat (take i us))) (concat us))
         = code_unit_slice us i j"
proof -
  have "concat (take j us) = concat (take i us) @ concat (take (j - i) (drop i us))"
    using concat_take_add [of i "j - i" us] assms by simp
  then have "length (concat (take j us)) - length (concat (take i us))
               = length (concat (take (j - i) (drop i us)))"
    by simp
  then show ?thesis
    by (simp add: concat_take_drop code_unit_slice_def)
qed

lemma slice_append:
  assumes "i \<le> j" "j \<le> k"
  shows "code_unit_slice us i j @ code_unit_slice us j k = code_unit_slice us i k"
proof -
  have "take (k - i) (drop i us) = take ((j - i) + (k - j)) (drop i us)"
    using assms by simp
  also have "\<dots> = take (j - i) (drop i us) @ take (k - j) (drop (j - i) (drop i us))"
    by (rule take_add)
  also have "drop (j - i) (drop i us) = drop j us" using assms by simp
  finally show ?thesis by (simp add: code_unit_slice_def)
qed

lemma slice_empty: "code_unit_slice us i i = []"
  by (simp add: code_unit_slice_def)

lemma slice_length: "length (code_unit_slice us i j) \<le> length (concat us)"
proof -
  have "concat us = concat (take i us) @ concat (take (j - i) (drop i us))
                      @ concat (drop (j - i) (drop i us))"
    by (metis append_take_drop_id concat_append)
  then have "length (concat us) = length (concat (take i us))
               + length (concat (take (j - i) (drop i us)))
               + length (concat (drop (j - i) (drop i us)))"
    by (metis length_append add.assoc)
  then show ?thesis by (simp add: code_unit_slice_def)
qed

lemma slice_whole: "code_unit_slice us 0 (length us) = concat us"
  by (simp add: code_unit_slice_def)

text \<open>
  \<^verbatim>\<open>ecma_string_substr\<close> on a string of whole code units passes to
  \<^verbatim>\<open>ecma_new_ecma_string_from_utf8\<close> the bytes of the code units \<open>i\<close> to \<open>j - 1\<close>.
\<close>

lemma substr_eq:
  assumes ok: "ecma_string_ok env h s" and bs: "ecma_string_bytes env h s = Some bs"
    and len: "ecma_string_get_length env h s = Some (length us)"
    and units: "cesu8_code_units bs = Some us"
    and codec: "\<forall>u \<in> set us. lit_get_unicode_char_size_by_utf8_first_byte env (hd u) = length u"
    and ij: "i \<le> j" "j \<le> length us"
  shows "ecma_string_substr env h s i j =
           ecma_new_ecma_string_from_utf8 env h (code_unit_slice us i j)"
proof (cases "i < j")
  case False
  with ij have "i = j" by simp
  then show ?thesis
    using len ij by (simp add: ecma_string_substr_def JERRY_ASSERT_call_def slice_empty)
next
  case True
  note cu = cesu8_code_units_concat [OF units]
  have cat: "concat us = bs" using cu by simp
  have u: "\<forall>u \<in> set us. u \<noteq> [] \<and> lit_get_unicode_char_size_by_utf8_first_byte env (hd u) = length u"
    using cu codec by simp
  have sz: "ecma_string_get_size env h s = Some (length bs)" using ok bs by (rule ok_size)
  have i: "i < length us" using True ij by simp
  then have "us ! i \<noteq> []" using u by simp
  from concat_nth_first(1) [OF i this] have pos: "0 < length bs" using cat by auto
  have mat: "ecma_string_to_utf8_string env h s (replicate (length bs) 0) (int (length bs))
               = Some (int (length bs), bs)"
    using to_utf8_string_eq [OF ok bs, of "int (length bs)" "replicate (length bs) 0"] pos
    by simp
  let ?a = "length (concat (take i us))" and ?b = "length (concat (take j us))"
  have w1: "skip_code_units env bs 0 i = Some ?a"
    using skip_code_units_units [OF u, of 0 i] i cat by simp
  have w2: "skip_code_units env bs ?a (j - i) = Some ?b"
    using skip_code_units_units [OF u, of i "j - i"] ij cat by simp
  have ab: "?a \<le> ?b"
    using concat_take_add [of i "j - i" us] ij by simp
  have bl: "?b \<le> length bs" using concat_take_length [of j us] cat by simp
  have rd: "block_read (drop ?a bs) (?b - ?a) = Some (code_unit_slice us i j)"
    using ab bl slice_bytes [OF ij(1), of us] cat by (simp add: block_read_def)
  show ?thesis
    using True len ij sz mat w1 w2 rd
    by (simp add: ecma_string_substr_def JERRY_ASSERT_call_def JERRY_ASSERT_def
        MEM_DEFINE_LOCAL_ARRAY_def)
qed

lemma lit_is_ex_utf8_string_magic_bytes:
  assumes "length (magic_strings_ex env) < 2 ^ 32" "lit_is_ex_utf8_string_magic env bs = Some mid"
  shows "unat mid < length (magic_strings_ex env) \<and> lit_get_magic_string_ex_utf8 env mid = Some bs"
proof -
  from assms(2) obtain j where j: "magic_table_lookup (magic_strings_ex env) bs 0 = Some j" "mid = of_nat j"
    by (auto simp: lit_is_ex_utf8_string_magic_def)
  from magic_table_lookup_Some [OF j(1)] have jj: "j < length (magic_strings_ex env)" "magic_strings_ex env ! j = bs"
    by simp_all
  have "unat mid = j" using j(2) jj(1) assms(1) by (simp add: unat_of_nat)
  then show ?thesis using jj by (simp add: lit_get_magic_string_ex_utf8_def)
qed

lemma heap_ok_alloc_string:
  assumes "heap_ok h" "free_strings h = p # ps"
  shows "string_pool h p = None" "p \<notin> set ps"
    "heap_ok (set_string (h\<lparr>free_strings := ps\<rparr>) p s)"
  using assms by (auto simp: heap_ok_def set_string_def)

lemma heap_ok_alloc_chunk:
  assumes "heap_ok h" "free_strings h = p # ps" "free_cps h = cp # cps"
  shows "cp \<noteq> MEM_CP_NULL" "chunk_pool h cp = None"
    "heap_ok (set_string (h\<lparr>free_strings := ps, free_cps := cps,
                chunk_pool := (chunk_pool h)(cp \<mapsto> d)\<rparr>) p s)"
  using assms by (auto simp: heap_ok_def set_string_def)

lemma from_utf8_spec:
  assumes hok: "heap_ok h"
    and tables: "length (magic_strings env) < 2 ^ 32" "length (magic_strings_ex env) < 2 ^ 32"
    and valid: "JERRY_NDEBUG env \<or> lit_is_cesu8_string_valid env bs"
    and ne: "bs \<noteq> [] \<or> [] \<in> set (magic_strings env)"
    and small: "length bs < 2 ^ 16" "lit_utf8_string_length env bs < 2 ^ 16"
    and free: "free_strings h \<noteq> []" "free_cps h \<noteq> []"
  shows "\<exists>p h' s. ecma_new_ecma_string_from_utf8 env h bs = Some (p, h')
           \<and> new_string_of env h bs p h' s"
proof -
  obtain p ps where fs: "free_strings h = p # ps" using free(1) by (cases "free_strings h") auto
  obtain cp cps where fc: "free_cps h = cp # cps" using free(2) by (cases "free_cps h") auto
  note as = heap_ok_alloc_string [OF hok fs]
  show ?thesis
  proof (cases "lit_is_utf8_string_magic env bs")
    case (Some mid)
    from lit_is_utf8_string_magic_bytes [OF tables(1) Some]
    have mid: "unat mid < length (magic_strings env)" "lit_get_magic_string_utf8 env mid = Some bs"
      by simp_all
    let ?s = "\<lparr>refs = 1, container = ECMA_STRING_CONTAINER_MAGIC_STRING,
               hash = lit_utf8_string_calc_hash env bs, u_common_field = mid\<rparr>"
    let ?h = "set_string (h\<lparr>free_strings := ps\<rparr>) p ?s"
    have r: "ecma_new_ecma_string_from_utf8 env h bs = Some (p, ?h)"
      using valid Some mid fs
      by (auto simp: ecma_new_ecma_string_from_utf8_def JERRY_ASSERT_def ecma_get_magic_string_def
          ecma_new_ecma_string_from_magic_string_id_def ecma_alloc_string_def
          ecma_init_ecma_string_from_magic_string_id_def)
    have "new_string_of env h bs p ?h ?s"
      using as(1) as(3) [of ?s] mid fs Some
      by (simp add: new_string_of_def ecma_string_ok_def ecma_string_bytes_def
          ecma_string_get_length_def canonical_for_def set_string_def)
    with r show ?thesis by blast
  next
    case None
    note nm = this
    show ?thesis
    proof (cases "lit_is_ex_utf8_string_magic env bs")
      case (Some mid)
      from lit_is_ex_utf8_string_magic_bytes [OF tables(2) Some]
      have mid: "unat mid < length (magic_strings_ex env)" "lit_get_magic_string_ex_utf8 env mid = Some bs"
        by simp_all
      let ?s = "\<lparr>refs = 1, container = ECMA_STRING_CONTAINER_MAGIC_STRING_EX,
                 hash = lit_utf8_string_calc_hash env bs, u_common_field = mid\<rparr>"
      let ?h = "set_string (h\<lparr>free_strings := ps\<rparr>) p ?s"
      have r: "ecma_new_ecma_string_from_utf8 env h bs = Some (p, ?h)"
        using valid nm Some mid fs
        by (auto simp: ecma_new_ecma_string_from_utf8_def JERRY_ASSERT_def ecma_get_magic_string_ex_def
            ecma_new_ecma_string_from_magic_string_ex_id_def ecma_alloc_string_def
            ecma_init_ecma_string_from_magic_string_ex_id_def)
      have "new_string_of env h bs p ?h ?s"
        using as(1) as(3) [of ?s] mid fs Some nm
        by (simp add: new_string_of_def ecma_string_ok_def ecma_string_bytes_def
            ecma_string_get_length_def canonical_for_def set_string_def)
      with r show ?thesis by blast
    next
      case None
      have nonempty: "bs \<noteq> []"
      proof
        assume e: "bs = []"
        with ne have "[] \<in> set (magic_strings env)" by simp
        with nm e show False
          by (simp add: lit_is_utf8_string_magic_def magic_table_lookup_None_iff)
      qed
      let ?d = "\<lparr>hdr_size = word_of_nat (length bs),
                 hdr_length = word_of_nat (lit_utf8_string_length env bs),
                 chunk_bytes = bs\<rparr>"
      let ?s = "\<lparr>refs = 1, container = ECMA_STRING_CONTAINER_HEAP_CHUNKS,
                 hash = lit_utf8_string_calc_hash env bs, u_common_field = cp\<rparr>"
      let ?h = "set_string (h\<lparr>free_strings := ps, free_cps := cps,
                  chunk_pool := (chunk_pool h)(cp \<mapsto> ?d)\<rparr>) p ?s"
      note ac = heap_ok_alloc_chunk [OF hok fs fc]
      have r: "ecma_new_ecma_string_from_utf8 env h bs = Some (p, ?h)"
        by (rule from_utf8_new_chunk [OF valid nm None nonempty fs fc ac(1)])
      have le: "chunk_pool h \<subseteq>\<^sub>m (chunk_pool h)(cp \<mapsto> ?d)"
        using ac(2) by (auto simp: map_le_def)
      have "new_string_of env h bs p ?h ?s"
        using as(1) ac(1) ac(3) [of ?d ?s] fs fc nm None le small
        by (simp add: new_string_of_def ecma_string_ok_def ecma_string_bytes_def
            ecma_string_get_length_def canonical_for_def set_string_def
            ECMA_GET_NON_NULL_POINTER_def block_read_def unat_word16)
      with r show ?thesis by blast
    qed
  qed
qed

lemma frame_read:
  assumes le: "chunk_pool h \<subseteq>\<^sub>m chunk_pool h'" and num: "number_pool h' = number_pool h"
    and ok: "ecma_string_ok env h t"
  shows "ecma_string_ok env h' t"
    and "ecma_string_bytes env h' t = ecma_string_bytes env h t"
    and "ecma_string_get_length env h' t = ecma_string_get_length env h t"
proof -
  have ch: "container t = ECMA_STRING_CONTAINER_HEAP_CHUNKS \<Longrightarrow>
        ECMA_GET_NON_NULL_POINTER (chunk_pool h') (u_common_field t)
        = ECMA_GET_NON_NULL_POINTER (chunk_pool h) (u_common_field t)"
  proof -
    assume c: "container t = ECMA_STRING_CONTAINER_HEAP_CHUNKS"
    then obtain d where d: "u_common_field t \<noteq> MEM_CP_NULL" "chunk_pool h (u_common_field t) = Some d"
      using ok by (auto simp: ecma_string_ok_def ECMA_GET_NON_NULL_POINTER_def split: option.splits if_splits)
    then have "chunk_pool h' (u_common_field t) = Some d"
      using le by (auto simp: map_le_def dom_def)
    with d show ?thesis by (simp add: ECMA_GET_NON_NULL_POINTER_def)
  qed
  show "ecma_string_ok env h' t"
    using ok ch num by (cases "container t") (simp_all add: ecma_string_ok_def)
  show "ecma_string_bytes env h' t = ecma_string_bytes env h t"
    using ch num by (cases "container t") (simp_all add: ecma_string_bytes_def)
  show "ecma_string_get_length env h' t = ecma_string_get_length env h t"
    using ch num by (cases "container t")
      (simp_all add: ecma_string_get_length_def ecma_string_get_heap_number_size_def)
qed

lemma heap_ok_set_live:
  assumes "heap_ok h" "string_pool h p = Some s"
  shows "heap_ok (set_string h p s')"
  using assms by (auto simp: heap_ok_def set_string_def)

lemma refs_only_read:
  "ecma_string_bytes env h (s\<lparr>refs := r\<rparr>) = ecma_string_bytes env h s"
  "ecma_string_get_length env h (s\<lparr>refs := r\<rparr>) = ecma_string_get_length env h s"
  by (cases "container s"; simp add: ecma_string_bytes_def ecma_string_get_length_def)+

lemma read_set_string:
  "ecma_string_bytes env (set_string h p t) s = ecma_string_bytes env h s"
  "ecma_string_get_length env (set_string h p t) s = ecma_string_get_length env h s"
  "ecma_string_get_size env (set_string h p t) s = ecma_string_get_size env h s"
  by (rule bytes_heap_cong get_length_heap_cong get_size_heap_cong; simp)+

lemma ok_set_refs:
  assumes "ecma_string_ok env h s" "0 < r"
  shows "ecma_string_ok env (set_string h p t) (s\<lparr>refs := r\<rparr>)"
  using assms by (cases "container s") (simp_all add: ecma_string_ok_def)

lemma two_refs_fit: "2 \<le> w \<Longrightarrow> (1::nat) + 1 < 2 ^ w"
proof -
  assume "2 \<le> w"
  then have "(2::nat) ^ 2 \<le> 2 ^ w" by (rule power_increasing) simp
  then show ?thesis by simp
qed

lemma concat_spec:
  assumes hok: "heap_ok h"
    and p1: "string_pool h string1_p = Some c1" and p2: "string_pool h string2_p = Some c2"
    and ok1: "ecma_string_ok env h c1" and ok2: "ecma_string_ok env h c2"
    and r1: "refs c1 = 1" and r2: "refs c2 = 1"
    and b1: "ecma_string_bytes env h c1 = Some x1" and b2: "ecma_string_bytes env h c2 = Some x2"
    and h1: "hash c1 = lit_utf8_string_calc_hash env x1"
    and h2: "hash c2 = lit_utf8_string_calc_hash env x2"
    and l1: "ecma_string_get_length env h c1 = Some len1"
    and l2: "ecma_string_get_length env h c2 = Some len2"
    and z: "x1 = [] \<Longrightarrow> len1 = 0" "x2 = [] \<Longrightarrow> len2 = 0"
    and bound: "length x1 + length x2 < 2 ^ 16" "len1 + len2 < 2 ^ 16"
    and w: "2 \<le> CONFIG_ECMA_REFERENCE_COUNTER_WIDTH env"
    and law: "lit_utf8_string_hash_combine env (lit_utf8_string_calc_hash env x1) x2
                = lit_utf8_string_calc_hash env (x1 @ x2)"
    and free: "free_strings h \<noteq> []" "free_cps h \<noteq> []"
  shows "\<exists>p3 h3 c3. ecma_concat_ecma_strings env h string1_p string2_p = Some (p3, h3)
           \<and> string_pool h3 p3 = Some c3
           \<and> ecma_string_ok env h3 c3
           \<and> ecma_string_bytes env h3 c3 = Some (x1 @ x2)
           \<and> hash c3 = lit_utf8_string_calc_hash env (x1 @ x2)
           \<and> ecma_string_get_length env h3 c3 = Some (len1 + len2)
           \<and> (container c3 = ECMA_STRING_CONTAINER_HEAP_CHUNKS
                \<or> (x1 = [] \<and> container c3 = container c2 \<and> u_common_field c3 = u_common_field c2)
                \<or> (x2 = [] \<and> container c3 = container c1 \<and> u_common_field c3 = u_common_field c1))
           \<and> chunk_pool h \<subseteq>\<^sub>m chunk_pool h3 \<and> number_pool h3 = number_pool h
           \<and> heap_ok h3
           \<and> length (free_strings h) \<le> length (free_strings h3) + 1
           \<and> length (free_cps h) \<le> length (free_cps h3) + 1"
proof -
  have sz1: "ecma_string_get_size env h c1 = Some (length x1)" using ok1 b1 by (rule ok_size)
  have sz2: "ecma_string_get_size env h c2 = Some (length x2)" using ok2 b2 by (rule ok_size)
  have fit: "(1::nat) + 1 < 2 ^ CONFIG_ECMA_REFERENCE_COUNTER_WIDTH env" using w by (rule two_refs_fit)
  consider (first) "x1 = []" | (second) "x1 \<noteq> []" "x2 = []" | (both) "x1 \<noteq> []" "x2 \<noteq> []"
    by blast
  then show ?thesis
  proof cases
    case first
    let ?c = "c2\<lparr>refs := refs c2 + 1\<rparr>"
    let ?h = "set_string h string2_p ?c"
    have cr: "ecma_copy_or_ref_ecma_string env h string2_p = Some (string2_p, ?h)"
      using copy_or_ref_no_overflow [OF p2] r2 fit by simp
    have r: "ecma_concat_ecma_strings env h string1_p string2_p = Some (string2_p, ?h)"
      using p1 p2 sz1 sz2 first cr by (simp add: ecma_concat_ecma_strings_def)
    have okc: "ecma_string_ok env ?h ?c"
      using ok2 by (rule ok_set_refs) simp
    have bc: "ecma_string_bytes env ?h ?c = Some x2"
      using b2 by (simp add: read_set_string refs_only_read)
    have lc: "ecma_string_get_length env ?h ?c = Some len2"
      using l2 by (simp add: read_set_string refs_only_read)
    have hk: "heap_ok ?h" using hok p2 by (rule heap_ok_set_live)
    show ?thesis
      using r okc bc lc hk first h2 z(1)
      by (simp add: set_string_def)
  next
    case second
    let ?c = "c1\<lparr>refs := refs c1 + 1\<rparr>"
    let ?h = "set_string h string1_p ?c"
    have cr: "ecma_copy_or_ref_ecma_string env h string1_p = Some (string1_p, ?h)"
      using copy_or_ref_no_overflow [OF p1] r1 fit by simp
    have r: "ecma_concat_ecma_strings env h string1_p string2_p = Some (string1_p, ?h)"
      using p1 p2 sz1 sz2 second cr by (simp add: ecma_concat_ecma_strings_def)
    have okc: "ecma_string_ok env ?h ?c"
      using ok1 by (rule ok_set_refs) simp
    have bc: "ecma_string_bytes env ?h ?c = Some x1"
      using b1 by (simp add: read_set_string refs_only_read)
    have lc: "ecma_string_get_length env ?h ?c = Some len1"
      using l1 by (simp add: read_set_string refs_only_read)
    have hk: "heap_ok ?h" using hok p1 by (rule heap_ok_set_live)
    show ?thesis
      using r okc bc lc hk second h1 z(2)
      by (simp add: set_string_def)
  next
    case both
    obtain p ps where fs: "free_strings h = p # ps" using free(1) by (cases "free_strings h") auto
    obtain cp cps where fc: "free_cps h = cp # cps" using free(2) by (cases "free_cps h") auto
    let ?d = "\<lparr>hdr_size = word_of_nat (length x1 + length x2),
               hdr_length = word_of_nat ((len1 + len2) mod 2 ^ 32),
               chunk_bytes = x1 @ x2\<rparr>"
    let ?c = "\<lparr>refs = 1, container = ECMA_STRING_CONTAINER_HEAP_CHUNKS,
          hash = lit_utf8_string_hash_combine env (hash c1) x2,
          u_common_field = cp\<rparr>"
    let ?h = "set_string
         (h\<lparr>free_strings := ps, free_cps := cps,
            chunk_pool := (chunk_pool h)(cp \<mapsto> ?d)\<rparr>) p ?c"
    note ac = heap_ok_alloc_chunk [OF hok fs fc]
    have small: "length x1 + length x2 < 2 ^ 32" using bound(1) by simp
    have r: "ecma_concat_ecma_strings env h string1_p string2_p = Some (p, ?h)"
      by (rule concat_nonempty [OF p1 p2 ok1 ok2 b1 b2 both small l1 l2 fs fc ac(1)])
    have us: "unat (word_of_nat (length x1 + length x2) :: 16 word) = length x1 + length x2"
      using bound(1) by (rule unat_word16)
    have ul: "unat (word_of_nat ((len1 + len2) mod 2 ^ 32) :: 16 word) = len1 + len2"
      using bound(2) by (simp add: unat_word16 del: of_nat_add)
    have okc: "ecma_string_ok env ?h ?c"
      using ac(1) us by (simp add: ecma_string_ok_def ECMA_GET_NON_NULL_POINTER_def del: of_nat_add)
    have bc: "ecma_string_bytes env ?h ?c = Some (x1 @ x2)"
      using ac(1) us by (simp add: ecma_string_bytes_def ECMA_GET_NON_NULL_POINTER_def block_read_def del: of_nat_add)
    have lc: "ecma_string_get_length env ?h ?c = Some (len1 + len2)"
      using ac(1) ul by (simp add: ecma_string_get_length_def ECMA_GET_NON_NULL_POINTER_def del: of_nat_add)
    have le: "chunk_pool h \<subseteq>\<^sub>m (chunk_pool h)(cp \<mapsto> ?d)"
      using ac(2) by (auto simp: map_le_def)
    have hk: "heap_ok ?h" by (rule ac(3))
    have hc: "hash ?c = lit_utf8_string_calc_hash env (x1 @ x2)" using h1 law by simp
    have sp: "string_pool ?h p = Some ?c" by (simp add: set_string_def)
    have fl: "chunk_pool ?h = (chunk_pool h)(cp \<mapsto> ?d)" "number_pool ?h = number_pool h"
      "free_strings ?h = ps" "free_cps ?h = cps"
      by (simp_all add: set_string_def)
    have "ecma_concat_ecma_strings env h string1_p string2_p = Some (p, ?h)
           \<and> string_pool ?h p = Some ?c
           \<and> ecma_string_ok env ?h ?c
           \<and> ecma_string_bytes env ?h ?c = Some (x1 @ x2)
           \<and> hash ?c = lit_utf8_string_calc_hash env (x1 @ x2)
           \<and> ecma_string_get_length env ?h ?c = Some (len1 + len2)
           \<and> (container ?c = ECMA_STRING_CONTAINER_HEAP_CHUNKS
                \<or> (x1 = [] \<and> container ?c = container c2 \<and> u_common_field ?c = u_common_field c2)
                \<or> (x2 = [] \<and> container ?c = container c1 \<and> u_common_field ?c = u_common_field c1))
           \<and> chunk_pool h \<subseteq>\<^sub>m chunk_pool ?h \<and> number_pool ?h = number_pool h
           \<and> heap_ok ?h
           \<and> length (free_strings h) \<le> length (free_strings ?h) + 1
           \<and> length (free_cps h) \<le> length (free_cps ?h) + 1"
      using r sp okc bc hc lc le hk fs fc by (simp only: fl) simp
    then show ?thesis by blast
  qed
qed

lemma canonical_same:
  assumes "canonical_for env x a" "canonical_for env x b" "container a = container b"
  shows "u_common_field a = u_common_field b \<or> container a = ECMA_STRING_CONTAINER_HEAP_CHUNKS"
  using assms by (auto simp: canonical_for_def split: option.splits)

lemma canonical_cong:
  "container a = container b \<Longrightarrow> u_common_field a = u_common_field b
     \<Longrightarrow> canonical_for env x a = canonical_for env x b"
  by (simp add: canonical_for_def split: option.splits)

lemma new_string_frame:
  assumes ns: "new_string_of env h x p h' c" and ok: "ecma_string_ok env h t"
  shows "ecma_string_ok env h' t"
    and "ecma_string_bytes env h' t = ecma_string_bytes env h t"
    and "ecma_string_get_length env h' t = ecma_string_get_length env h t"
proof -
  from ns have le: "chunk_pool h \<subseteq>\<^sub>m chunk_pool h'" and num: "number_pool h' = number_pool h"
    by (simp_all add: new_string_of_def)
  show "ecma_string_ok env h' t" by (rule frame_read(1) [OF le num ok])
  show "ecma_string_bytes env h' t = ecma_string_bytes env h t" by (rule frame_read(2) [OF le num ok])
  show "ecma_string_get_length env h' t = ecma_string_get_length env h t"
    by (rule frame_read(3) [OF le num ok])
qed

lemma new_string_pool:
  assumes ns: "new_string_of env h x p h' c"
  shows "string_pool h' p = Some c" and "string_pool h q = Some t \<Longrightarrow> string_pool h' q = Some t"
proof -
  from ns have a: "string_pool h p = None" "string_pool h' = (string_pool h)(p \<mapsto> c)"
    by (simp_all add: new_string_of_def)
  show "string_pool h' p = Some c" using a by simp
  show "string_pool h q = Some t \<Longrightarrow> string_pool h' q = Some t" using a by auto
qed

lemma substr_spec:
  assumes hok: "heap_ok h"
    and ok: "ecma_string_ok env h s" and bs: "ecma_string_bytes env h s = Some bs"
    and len: "ecma_string_get_length env h s = Some (length us)"
    and units: "cesu8_code_units bs = Some us"
    and codec: "cesu8_codec_ok env us"
    and small: "length bs < 2 ^ 16" "length us < 2 ^ 16"
    and ij: "i \<le> j" "j \<le> length us"
    and tables: "length (magic_strings env) < 2 ^ 32" "length (magic_strings_ex env) < 2 ^ 32"
    and empty: "[] \<in> set (magic_strings env)"
    and free: "free_strings h \<noteq> []" "free_cps h \<noteq> []"
  shows "\<exists>p h' c. ecma_string_substr env h s i j = Some (p, h')
           \<and> new_string_of env h (code_unit_slice us i j) p h' c"
proof -
  from codec have width: "\<forall>u \<in> set us. lit_get_unicode_char_size_by_utf8_first_byte env (hd u) = length u"
    and valid: "lit_is_cesu8_string_valid env (code_unit_slice us i j)"
    and count: "lit_utf8_string_length env (code_unit_slice us i j) = j - i"
    using ij by (simp_all add: cesu8_codec_ok_def)
  have eq: "ecma_string_substr env h s i j =
           ecma_new_ecma_string_from_utf8 env h (code_unit_slice us i j)"
    by (rule substr_eq [OF ok bs len units width ij])
  have cat: "concat us = bs" using cesu8_code_units_concat [OF units] by simp
  have l: "length (code_unit_slice us i j) < 2 ^ 16"
    using slice_length [of us i j] small(1) cat by simp
  have u: "lit_utf8_string_length env (code_unit_slice us i j) < 2 ^ 16"
    using count ij small(2) by simp
  show ?thesis
    unfolding eq
    by (rule from_utf8_spec [OF hok tables _ _ l u free]) (simp_all add: valid empty)
qed

lemma substr_concat_chain:
  assumes hok: "heap_ok h"
    and ok: "ecma_string_ok env h s" and bs: "ecma_string_bytes env h s = Some bs"
    and len: "ecma_string_get_length env h s = Some (length us)"
    and units: "cesu8_code_units bs = Some us"
    and codec: "cesu8_codec_ok env us"
    and small: "length bs < 2 ^ 16" "length us < 2 ^ 16"
    and ijk: "i \<le> j" "j \<le> k" "k \<le> length us"
    and tables: "length (magic_strings env) < 2 ^ 32" "length (magic_strings_ex env) < 2 ^ 32"
    and empty: "[] \<in> set (magic_strings env)"
    and w: "2 \<le> CONFIG_ECMA_REFERENCE_COUNTER_WIDTH env"
    and law: "lit_utf8_string_hash_combine env
                (lit_utf8_string_calc_hash env (code_unit_slice us i j))
                (code_unit_slice us j k)
              = lit_utf8_string_calc_hash env (code_unit_slice us i k)"
    and mem: "4 \<le> length (free_strings h)" "4 \<le> length (free_cps h)"
  shows "\<exists>p1 h1 c1 p2 h2 c2 p3 h3 p4 h4 c3 c4 h5.
           ecma_string_substr env h s i j = Some (p1, h1)
           \<and> string_pool h1 p1 = Some c1
           \<and> ecma_string_bytes env h1 c1 = Some (code_unit_slice us i j)
           \<and> ecma_string_substr env h1 s j k = Some (p2, h2)
           \<and> string_pool h2 p2 = Some c2
           \<and> ecma_string_bytes env h2 c2 = Some (code_unit_slice us j k)
           \<and> ecma_concat_ecma_strings env h2 p1 p2 = Some (p3, h3)
           \<and> ecma_string_substr env h3 s i k = Some (p4, h4)
           \<and> string_pool h4 p3 = Some c3 \<and> string_pool h4 p4 = Some c4
           \<and> ecma_string_bytes env h4 c3 = Some (code_unit_slice us i k)
           \<and> ecma_string_bytes env h4 c4 = Some (code_unit_slice us i k)
           \<and> ecma_compare_ecma_strings env h4 c3 c4 = Some (True, h5)"
proof -
  let ?n = "length us"
  let ?x1 = "code_unit_slice us i j" and ?x2 = "code_unit_slice us j k"
    and ?x = "code_unit_slice us i k"
  have cat: "concat us = bs" using cesu8_code_units_concat [OF units] by simp
  have jn: "j \<le> ?n" and ik: "i \<le> k" using ijk by simp_all
  have app: "?x1 @ ?x2 = ?x" by (rule slice_append [OF ijk(1,2)])
  have u1: "lit_utf8_string_length env ?x1 = j - i"
    and u2: "lit_utf8_string_length env ?x2 = k - j"
    and ux: "lit_utf8_string_length env ?x = k - i"
    and u0: "lit_utf8_string_length env (code_unit_slice us i i) = 0"
    using codec ijk by (simp_all add: cesu8_codec_ok_def)
  have e0: "lit_utf8_string_length env [] = 0" using u0 by (simp add: slice_empty)
  \<comment> \<open>first substring\<close>
  have f0: "free_strings h \<noteq> []" "free_cps h \<noteq> []" using mem by auto
  from substr_spec [OF hok ok bs len units codec small ijk(1) jn tables empty f0]
  obtain p1 h1 c1 where r1: "ecma_string_substr env h s i j = Some (p1, h1)"
    and n1: "new_string_of env h ?x1 p1 h1 c1" by blast
  have hok1: "heap_ok h1" and fr1: "3 \<le> length (free_strings h1)" "3 \<le> length (free_cps h1)"
    using n1 mem by (simp_all add: new_string_of_def)
  have ok1: "ecma_string_ok env h1 s" by (rule new_string_frame(1) [OF n1 ok])
  have bs1: "ecma_string_bytes env h1 s = Some bs" using new_string_frame(2) [OF n1 ok] bs by simp
  have len1: "ecma_string_get_length env h1 s = Some ?n" using new_string_frame(3) [OF n1 ok] len by simp
  have c1: "ecma_string_ok env h1 c1" "ecma_string_bytes env h1 c1 = Some ?x1" "refs c1 = 1"
    "hash c1 = lit_utf8_string_calc_hash env ?x1"
    "ecma_string_get_length env h1 c1 = Some (j - i)" "canonical_for env ?x1 c1"
    using n1 u1 by (simp_all add: new_string_of_def)
  have s1: "string_pool h1 p1 = Some c1" by (rule new_string_pool(1) [OF n1])
  \<comment> \<open>second substring\<close>
  have f1: "free_strings h1 \<noteq> []" "free_cps h1 \<noteq> []" using fr1 by auto
  from substr_spec [OF hok1 ok1 bs1 len1 units codec small ijk(2,3) tables empty f1]
  obtain p2 h2 c2 where r2: "ecma_string_substr env h1 s j k = Some (p2, h2)"
    and n2: "new_string_of env h1 ?x2 p2 h2 c2" by blast
  have hok2: "heap_ok h2" and fr2: "2 \<le> length (free_strings h2)" "2 \<le> length (free_cps h2)"
    using n2 fr1 by (simp_all add: new_string_of_def)
  have ok2: "ecma_string_ok env h2 s" by (rule new_string_frame(1) [OF n2 ok1])
  have bs2: "ecma_string_bytes env h2 s = Some bs" using new_string_frame(2) [OF n2 ok1] bs1 by simp
  have len2: "ecma_string_get_length env h2 s = Some ?n" using new_string_frame(3) [OF n2 ok1] len1 by simp
  have c2: "ecma_string_ok env h2 c2" "ecma_string_bytes env h2 c2 = Some ?x2" "refs c2 = 1"
    "hash c2 = lit_utf8_string_calc_hash env ?x2"
    "ecma_string_get_length env h2 c2 = Some (k - j)" "canonical_for env ?x2 c2"
    using n2 u2 by (simp_all add: new_string_of_def)
  have c1': "ecma_string_ok env h2 c1" "ecma_string_bytes env h2 c1 = Some ?x1"
    "ecma_string_get_length env h2 c1 = Some (j - i)"
    using new_string_frame [OF n2 c1(1)] c1(2,5) by simp_all
  have q1: "string_pool h2 p1 = Some c1"
    by (rule new_string_pool(2) [OF n2 s1])
  have q2: "string_pool h2 p2 = Some c2" by (rule new_string_pool(1) [OF n2])
  \<comment> \<open>concatenation\<close>
  have z1: "?x1 = [] \<Longrightarrow> j - i = 0" using u1 e0 by simp
  have z2: "?x2 = [] \<Longrightarrow> k - j = 0" using u2 e0 by simp
  have lx: "length ?x1 + length ?x2 < 2 ^ 16"
  proof -
    have "length ?x1 + length ?x2 = length ?x" using app by (metis length_append)
    also have "\<dots> \<le> length bs" using slice_length [of us i k] cat by simp
    finally show ?thesis using small(1) by simp
  qed
  have ll: "(j - i) + (k - j) < 2 ^ 16" using ijk small(2) by simp
  have law': "lit_utf8_string_hash_combine env (lit_utf8_string_calc_hash env ?x1) ?x2
                = lit_utf8_string_calc_hash env (?x1 @ ?x2)"
    using law app by simp
  have f2: "free_strings h2 \<noteq> []" "free_cps h2 \<noteq> []" using fr2 by auto
  from concat_spec [OF hok2 q1 q2 c1'(1) c2(1) c1(3) c2(3) c1'(2) c2(2) c1(4) c2(4) c1'(3) c2(5)
      z1 z2 lx ll w law' f2]
  obtain p3 h3 c3 where r3: "ecma_concat_ecma_strings env h2 p1 p2 = Some (p3, h3)"
    and q3: "string_pool h3 p3 = Some c3"
    and c3: "ecma_string_ok env h3 c3" "ecma_string_bytes env h3 c3 = Some (?x1 @ ?x2)"
      "hash c3 = lit_utf8_string_calc_hash env (?x1 @ ?x2)"
      "ecma_string_get_length env h3 c3 = Some ((j - i) + (k - j))"
    and shape: "container c3 = ECMA_STRING_CONTAINER_HEAP_CHUNKS
                \<or> (?x1 = [] \<and> container c3 = container c2 \<and> u_common_field c3 = u_common_field c2)
                \<or> (?x2 = [] \<and> container c3 = container c1 \<and> u_common_field c3 = u_common_field c1)"
    and fr: "chunk_pool h2 \<subseteq>\<^sub>m chunk_pool h3" "number_pool h3 = number_pool h2"
    and hok3: "heap_ok h3"
    and fr3: "length (free_strings h2) \<le> length (free_strings h3) + 1"
             "length (free_cps h2) \<le> length (free_cps h3) + 1"
    by blast
  have ok3: "ecma_string_ok env h3 s" by (rule frame_read(1) [OF fr ok2])
  have bs3: "ecma_string_bytes env h3 s = Some bs" using frame_read(2) [OF fr ok2] bs2 by simp
  have len3: "ecma_string_get_length env h3 s = Some ?n" using frame_read(3) [OF fr ok2] len2 by simp
  have canon3: "container c3 = ECMA_STRING_CONTAINER_HEAP_CHUNKS \<or> canonical_for env ?x c3"
  proof -
    {
      assume a: "?x1 = []" "container c3 = container c2" "u_common_field c3 = u_common_field c2"
      then have "?x2 = ?x" using app by simp
      with c2(6) canonical_cong [OF a(2,3), of env ?x] have "canonical_for env ?x c3" by simp
    }
    moreover
    {
      assume a: "?x2 = []" "container c3 = container c1" "u_common_field c3 = u_common_field c1"
      then have "?x1 = ?x" using app by simp
      with c1(6) canonical_cong [OF a(2,3), of env ?x] have "canonical_for env ?x c3" by simp
    }
    ultimately show ?thesis using shape by blast
  qed
  \<comment> \<open>the substring over both parts\<close>
  have f3: "free_strings h3 \<noteq> []" "free_cps h3 \<noteq> []" using fr2 fr3 by auto
  from substr_spec [OF hok3 ok3 bs3 len3 units codec small ik ijk(3) tables empty f3]
  obtain p4 h4 c4 where r4: "ecma_string_substr env h3 s i k = Some (p4, h4)"
    and n4: "new_string_of env h3 ?x p4 h4 c4" by blast
  have c4: "ecma_string_ok env h4 c4" "ecma_string_bytes env h4 c4 = Some ?x"
    "hash c4 = lit_utf8_string_calc_hash env ?x"
    "ecma_string_get_length env h4 c4 = Some (k - i)" "canonical_for env ?x c4"
    using n4 ux by (simp_all add: new_string_of_def)
  have q4: "string_pool h4 p4 = Some c4" by (rule new_string_pool(1) [OF n4])
  have q3': "string_pool h4 p3 = Some c3" by (rule new_string_pool(2) [OF n4 q3])
  have c3': "ecma_string_ok env h4 c3" "ecma_string_bytes env h4 c3 = Some ?x"
    "ecma_string_get_length env h4 c3 = Some (k - i)"
    using new_string_frame [OF n4 c3(1)] c3(2,4) app ijk by simp_all
  have hs: "hash c3 = hash c4" using c3(3) c4(3) app by simp
  have cmp: "\<exists>h5. ecma_compare_ecma_strings env h4 c3 c4 = Some (True, h5)"
  proof (cases "container c3 = container c4")
    case same: True
    have "u_common_field c3 = u_common_field c4
          \<or> (container c3 = ECMA_STRING_CONTAINER_HEAP_CHUNKS
             \<and> ecma_string_get_length env h4 c3 = ecma_string_get_length env h4 c4)"
    proof (cases "container c3 = ECMA_STRING_CONTAINER_HEAP_CHUNKS")
      case True
      then show ?thesis using c3'(3) c4(4) by simp
    next
      case False
      with canon3 have "canonical_for env ?x c3" by simp
      from canonical_same [OF this c4(5) same] False show ?thesis by simp
    qed
    then show ?thesis
      using compare_equal_bytes_same [OF c3'(1) c4(1) c3'(2) c4(2) hs same] by blast
  next
    case diff: False
    have hc3: "container c3 = ECMA_STRING_CONTAINER_HEAP_CHUNKS"
    proof (rule ccontr)
      assume "container c3 \<noteq> ECMA_STRING_CONTAINER_HEAP_CHUNKS"
      with canon3 have "canonical_for env ?x c3" by simp
      with c4(5) diff show False by (auto simp: canonical_for_def split: option.splits)
    qed
    with diff have nc4: "container c4 \<noteq> ECMA_STRING_CONTAINER_HEAP_CHUNKS" by simp
    have nl4: "container c4 \<noteq> ECMA_STRING_CONTAINER_LIT_TABLE"
      using c4(5) by (auto simp: canonical_for_def split: option.splits)
    have "free_cps h4 = free_cps h3" using n4 nc4 by (simp add: new_string_of_def)
    then have f4: "free_cps h4 \<noteq> []" using f3 by simp
    show ?thesis
      using compare_heap_chunk_other [OF c3'(1) c4(1) c3'(2) c4(2) hs hc3 nc4 nl4] f4
      by (cases "free_cps h4") simp_all
  qed
  then obtain h5 where "ecma_compare_ecma_strings env h4 c3 c4 = Some (True, h5)" by blast
  then show ?thesis
    using r1 s1 c1(2) r2 q2 c2(2) r3 r4 q3' q4 c3'(2) c4(2) by blast
qed

lemma substr_empty:
  assumes hok: "heap_ok h"
    and ok: "ecma_string_ok env h s" and bs: "ecma_string_bytes env h s = Some bs"
    and len: "ecma_string_get_length env h s = Some (length us)"
    and units: "cesu8_code_units bs = Some us"
    and codec: "cesu8_codec_ok env us"
    and small: "length bs < 2 ^ 16" "length us < 2 ^ 16"
    and i: "i \<le> length us"
    and tables: "length (magic_strings env) < 2 ^ 32" "length (magic_strings_ex env) < 2 ^ 32"
    and empty: "[] \<in> set (magic_strings env)"
    and free: "free_strings h \<noteq> []" "free_cps h \<noteq> []"
  shows "\<exists>p0 h0 c0. ecma_string_substr env h s i i = Some (p0, h0)
           \<and> string_pool h0 p0 = Some c0
           \<and> container c0 = ECMA_STRING_CONTAINER_MAGIC_STRING \<and> refs c0 = 1
           \<and> ecma_string_bytes env h0 c0 = Some []"
proof -
  from substr_spec [OF hok ok bs len units codec small le_refl i tables empty free]
  obtain p0 h0 c0 where r: "ecma_string_substr env h s i i = Some (p0, h0)"
    and ns: "new_string_of env h [] p0 h0 c0" by (auto simp: slice_empty)
  from empty obtain mid where "lit_is_utf8_string_magic env [] = Some mid"
    by (cases "lit_is_utf8_string_magic env []")
       (auto simp: lit_is_utf8_string_magic_def magic_table_lookup_None_iff)
  then have "container c0 = ECMA_STRING_CONTAINER_MAGIC_STRING"
    using ns by (simp add: new_string_of_def canonical_for_def)
  then show ?thesis
    using r ns new_string_pool(1) [OF ns] by (auto simp: new_string_of_def)
qed


text \<open>
  C8. Let \<open>s\<close> be a descriptor in good order whose bytes (fewer than \<open>2^16\<close>) are
  valid CESU-8 with the code units \<open>us\<close>, and whose length is their number, in a
  heap in good order with four free cells in each pool; let the codec of the engine
  agree with CESU-8 on these code units, the magic string table hold the empty string,
  the reference counter have at least two bits, and the hash functions agree that
  combining the hash of the code units \<open>i..j\<close> with the code units \<open>j..k\<close> gives the
  hash of the code units \<open>i..k\<close>. Then for \<open>i \<le> j \<le> k \<le> length us\<close> the four
  calls \<^verbatim>\<open>ecma_string_substr (s, i, j)\<close>, \<^verbatim>\<open>ecma_string_substr (s, j, k)\<close>,
  \<^verbatim>\<open>ecma_concat_ecma_strings\<close> of the two results and
  \<^verbatim>\<open>ecma_string_substr (s, i, k)\<close> all return; the two substrings hold the bytes of
  the code units \<open>i..j\<close> and \<open>j..k\<close> of \<open>s\<close>, the concatenation and the last
  substring both hold the bytes of the code units \<open>i..k\<close>, and
  \<^verbatim>\<open>ecma_compare_ecma_strings\<close> on them returns true. And
  \<^verbatim>\<open>ecma_string_substr (s, i, i)\<close> returns a new descriptor of the empty magic
  string.
\<close>

theorem ecma_string_substr_concat:
  assumes hok: "heap_ok h"
    and ok: "ecma_string_ok env h s" and bs: "ecma_string_bytes env h s = Some bs"
    and len: "ecma_string_get_length env h s = Some (length us)"
    and units: "cesu8_code_units bs = Some us"
    and codec: "cesu8_codec_ok env us"
    and small: "length bs < 2 ^ 16" "length us < 2 ^ 16"
    and ijk: "i \<le> j" "j \<le> k" "k \<le> length us"
    and tables: "length (magic_strings env) < 2 ^ 32" "length (magic_strings_ex env) < 2 ^ 32"
    and empty: "[] \<in> set (magic_strings env)"
    and w: "2 \<le> CONFIG_ECMA_REFERENCE_COUNTER_WIDTH env"
    and law: "lit_utf8_string_hash_combine env
                (lit_utf8_string_calc_hash env (code_unit_slice us i j))
                (code_unit_slice us j k)
              = lit_utf8_string_calc_hash env (code_unit_slice us i k)"
    and mem: "4 \<le> length (free_strings h)" "4 \<le> length (free_cps h)"
  shows "(\<exists>p1 h1 c1 p2 h2 c2 p3 h3 p4 h4 c3 c4 h5.
           ecma_string_substr env h s i j = Some (p1, h1)
           \<and> string_pool h1 p1 = Some c1
           \<and> ecma_string_bytes env h1 c1 = Some (code_unit_slice us i j)
           \<and> ecma_string_substr env h1 s j k = Some (p2, h2)
           \<and> string_pool h2 p2 = Some c2
           \<and> ecma_string_bytes env h2 c2 = Some (code_unit_slice us j k)
           \<and> ecma_concat_ecma_strings env h2 p1 p2 = Some (p3, h3)
           \<and> ecma_string_substr env h3 s i k = Some (p4, h4)
           \<and> string_pool h4 p3 = Some c3 \<and> string_pool h4 p4 = Some c4
           \<and> ecma_string_bytes env h4 c3 = Some (code_unit_slice us i k)
           \<and> ecma_string_bytes env h4 c4 = Some (code_unit_slice us i k)
           \<and> ecma_compare_ecma_strings env h4 c3 c4 = Some (True, h5))
       \<and> (\<exists>p0 h0 c0. ecma_string_substr env h s i i = Some (p0, h0)
           \<and> string_pool h0 p0 = Some c0
           \<and> container c0 = ECMA_STRING_CONTAINER_MAGIC_STRING \<and> refs c0 = 1
           \<and> ecma_string_bytes env h0 c0 = Some [])"
proof
  show "\<exists>p1 h1 c1 p2 h2 c2 p3 h3 p4 h4 c3 c4 h5.
           ecma_string_substr env h s i j = Some (p1, h1)
           \<and> string_pool h1 p1 = Some c1
           \<and> ecma_string_bytes env h1 c1 = Some (code_unit_slice us i j)
           \<and> ecma_string_substr env h1 s j k = Some (p2, h2)
           \<and> string_pool h2 p2 = Some c2
           \<and> ecma_string_bytes env h2 c2 = Some (code_unit_slice us j k)
           \<and> ecma_concat_ecma_strings env h2 p1 p2 = Some (p3, h3)
           \<and> ecma_string_substr env h3 s i k = Some (p4, h4)
           \<and> string_pool h4 p3 = Some c3 \<and> string_pool h4 p4 = Some c4
           \<and> ecma_string_bytes env h4 c3 = Some (code_unit_slice us i k)
           \<and> ecma_string_bytes env h4 c4 = Some (code_unit_slice us i k)
           \<and> ecma_compare_ecma_strings env h4 c3 c4 = Some (True, h5)"
    by (rule substr_concat_chain [OF assms])
  have i: "i \<le> length us" using ijk by simp
  have f: "free_strings h \<noteq> []" "free_cps h \<noteq> []" using mem by auto
  show "\<exists>p0 h0 c0. ecma_string_substr env h s i i = Some (p0, h0)
           \<and> string_pool h0 p0 = Some c0
           \<and> container c0 = ECMA_STRING_CONTAINER_MAGIC_STRING \<and> refs c0 = 1
           \<and> ecma_string_bytes env h0 c0 = Some []"
    by (rule substr_empty [OF hok ok bs len units codec small i tables empty f])
qed

lemma example_multi_units:
  "cesu8_code_units [104, 195, 169, 230, 151, 165] = Some [[104], [195, 169], [230, 151, 165]]"
  by (simp add: cesu8_code_units.simps cesu8_unit_size_def cesu8_continuation_byte_def)

lemma example_multi_slices:
  "code_unit_slice [[104], [195, 169], [230, 151, 165 :: 8 word]] 0 0 = []"
  "code_unit_slice [[104], [195, 169], [230, 151, 165 :: 8 word]] 0 (Suc 0) = [104]"
  "code_unit_slice [[104], [195, 169], [230, 151, 165 :: 8 word]] 0 2 = [104, 195, 169]"
  "code_unit_slice [[104], [195, 169], [230, 151, 165 :: 8 word]] 0 3 = [104, 195, 169, 230, 151, 165]"
  "code_unit_slice [[104], [195, 169], [230, 151, 165 :: 8 word]] (Suc 0) (Suc 0) = []"
  "code_unit_slice [[104], [195, 169], [230, 151, 165 :: 8 word]] (Suc 0) 2 = [195, 169]"
  "code_unit_slice [[104], [195, 169], [230, 151, 165 :: 8 word]] (Suc 0) 3 = [195, 169, 230, 151, 165]"
  "code_unit_slice [[104], [195, 169], [230, 151, 165 :: 8 word]] 2 2 = []"
  "code_unit_slice [[104], [195, 169], [230, 151, 165 :: 8 word]] 2 3 = [230, 151, 165]"
  "code_unit_slice [[104], [195, 169], [230, 151, 165 :: 8 word]] 3 3 = []"
  by (simp_all add: code_unit_slice_def numeral_2_eq_2 numeral_3_eq_3)

lemma example_multi_codec:
  "cesu8_codec_ok example_env_cesu8 [[104], [195, 169], [230, 151, 165]]"
proof -
  let ?us = "[[104], [195, 169], [230, 151, 165 :: 8 word]]"
  have width: "\<forall>u \<in> set ?us.
      lit_get_unicode_char_size_by_utf8_first_byte example_env_cesu8 (hd u) = length u"
    by (simp add: example_env_cesu8_def example_env_def example_char_size_def)
  have runs: "\<And>i j. j \<le> length ?us \<Longrightarrow> i \<le> j \<Longrightarrow>
      lit_is_cesu8_string_valid example_env_cesu8 (code_unit_slice ?us i j)
      \<and> lit_utf8_string_length example_env_cesu8 (code_unit_slice ?us i j) = j - i"
  proof -
    fix i j :: nat
    assume "j \<le> length ?us" "i \<le> j"
    then consider "i = 0" "j = 0" | "i = 0" "j = Suc 0" | "i = 0" "j = 2" | "i = 0" "j = 3"
      | "i = Suc 0" "j = Suc 0" | "i = Suc 0" "j = 2" | "i = Suc 0" "j = 3"
      | "i = 2" "j = 2" | "i = 2" "j = 3" | "i = 3" "j = 3"
      by atomize_elim (simp, arith)
    then show "lit_is_cesu8_string_valid example_env_cesu8 (code_unit_slice ?us i j)
      \<and> lit_utf8_string_length example_env_cesu8 (code_unit_slice ?us i j) = j - i"
      by cases
         (simp_all add: example_multi_slices example_env_cesu8_def cesu8_code_units.simps
            cesu8_unit_size_def cesu8_continuation_byte_def)
  qed
  show ?thesis
    unfolding cesu8_codec_ok_def using width runs by blast
qed

theorem ecma_string_substr_concat_witness:
  "heap_ok example_heap_multi
   \<and> ecma_string_ok example_env_cesu8 example_heap_multi example_string_multi
   \<and> ecma_string_bytes example_env_cesu8 example_heap_multi example_string_multi
       = Some [104, 195, 169, 230, 151, 165]
   \<and> cesu8_code_units [104, 195, 169, 230, 151, 165] = Some [[104], [195, 169], [230, 151, 165]]
   \<and> ecma_string_get_length example_env_cesu8 example_heap_multi example_string_multi = Some 3
   \<and> cesu8_codec_ok example_env_cesu8 [[104], [195, 169], [230, 151, 165]]
   \<and> (\<exists>p1 h1 c1 p2 h2 c2 p3 h3 p4 h4 c3 c4 h5.
           ecma_string_substr example_env_cesu8 example_heap_multi example_string_multi 1 2 = Some (p1, h1)
           \<and> string_pool h1 p1 = Some c1
           \<and> ecma_string_bytes example_env_cesu8 h1 c1 = Some [195, 169]
           \<and> ecma_string_substr example_env_cesu8 h1 example_string_multi 2 3 = Some (p2, h2)
           \<and> string_pool h2 p2 = Some c2
           \<and> ecma_string_bytes example_env_cesu8 h2 c2 = Some [230, 151, 165]
           \<and> ecma_concat_ecma_strings example_env_cesu8 h2 p1 p2 = Some (p3, h3)
           \<and> ecma_string_substr example_env_cesu8 h3 example_string_multi 1 3 = Some (p4, h4)
           \<and> string_pool h4 p3 = Some c3 \<and> string_pool h4 p4 = Some c4
           \<and> ecma_string_bytes example_env_cesu8 h4 c3 = Some [195, 169, 230, 151, 165]
           \<and> ecma_string_bytes example_env_cesu8 h4 c4 = Some [195, 169, 230, 151, 165]
           \<and> ecma_compare_ecma_strings example_env_cesu8 h4 c3 c4 = Some (True, h5))
   \<and> (\<exists>p0 h0 c0. ecma_string_substr example_env_cesu8 example_heap_multi example_string_multi 1 1
                     = Some (p0, h0)
           \<and> string_pool h0 p0 = Some c0
           \<and> container c0 = ECMA_STRING_CONTAINER_MAGIC_STRING \<and> refs c0 = 1
           \<and> ecma_string_bytes example_env_cesu8 h0 c0 = Some [])"
proof -
  let ?us = "[[104], [195, 169], [230, 151, 165 :: 8 word]]"
  have hok: "heap_ok example_heap_multi"
    by (simp add: heap_ok_def example_heap_multi_def MEM_CP_NULL_def)
  have ok: "ecma_string_ok example_env_cesu8 example_heap_multi example_string_multi"
    by (simp add: ecma_string_ok_def example_string_multi_def example_heap_multi_def
        ECMA_GET_NON_NULL_POINTER_def MEM_CP_NULL_def)
  have bs: "ecma_string_bytes example_env_cesu8 example_heap_multi example_string_multi
              = Some [104, 195, 169, 230, 151, 165]"
    by (simp add: ecma_string_bytes_def example_string_multi_def example_heap_multi_def
        ECMA_GET_NON_NULL_POINTER_def MEM_CP_NULL_def block_read_def)
  have len: "ecma_string_get_length example_env_cesu8 example_heap_multi example_string_multi
               = Some (length ?us)"
    by (simp add: ecma_string_get_length_def example_string_multi_def example_heap_multi_def
        ECMA_GET_NON_NULL_POINTER_def MEM_CP_NULL_def)
  have small: "length [104, 195, 169, 230, 151, 165 :: 8 word] < 2 ^ 16" "length ?us < 2 ^ 16"
    by simp_all
  have ijk: "(1::nat) \<le> 2" "(2::nat) \<le> 3" "3 \<le> length ?us" by simp_all
  have tables: "length (magic_strings example_env_cesu8) < 2 ^ 32"
      "length (magic_strings_ex example_env_cesu8) < 2 ^ 32"
    by (simp_all add: example_env_cesu8_def example_env_def)
  have empty: "[] \<in> set (magic_strings example_env_cesu8)"
    by (simp add: example_env_cesu8_def example_env_def)
  have w: "2 \<le> CONFIG_ECMA_REFERENCE_COUNTER_WIDTH example_env_cesu8"
    by (simp add: example_env_cesu8_def example_env_def)
  have law: "lit_utf8_string_hash_combine example_env_cesu8
                (lit_utf8_string_calc_hash example_env_cesu8 (code_unit_slice ?us 1 2))
                (code_unit_slice ?us 2 3)
              = lit_utf8_string_calc_hash example_env_cesu8 (code_unit_slice ?us 1 3)"
    by (simp add: example_multi_slices)
       (simp add: example_env_cesu8_def example_env_def example_hash_combine_def)
  have mem: "4 \<le> length (free_strings example_heap_multi)" "4 \<le> length (free_cps example_heap_multi)"
    by (simp_all add: example_heap_multi_def)
  show ?thesis
    using ecma_string_substr_concat [OF hok ok bs len example_multi_units example_multi_codec
        small ijk tables empty w law mem]
      hok ok bs len example_multi_units example_multi_codec
    by (simp add: example_multi_slices)
qed

subsection \<open>Concatenation of any two descriptors\<close>

lemma set_string_same: "string_pool h p = Some s \<Longrightarrow> set_string h p s = h"
  by (simp add: set_string_def fun_upd_idem)

lemma copy_or_ref_saturated:
  assumes pool: "string_pool h p = Some s"
    and mx: "refs s + 1 = 2 ^ CONFIG_ECMA_REFERENCE_COUNTER_WIDTH env" "0 < refs s"
    and after: "string_pool (ecma_gc_run env (ecma_lcache_invalidate_all env h)) p = Some s3"
  shows "ecma_copy_or_ref_ecma_string env h p =
     (if refs s3 = refs s
      then ecma_copy_ecma_string env (ecma_gc_run env (ecma_lcache_invalidate_all env h)) p
      else do {
        JERRY_ASSERT env (refs_increment env (refs s3) \<noteq> 0);
        Some (p, set_string (ecma_gc_run env (ecma_lcache_invalidate_all env h)) p
                   (s3\<lparr>refs := refs_increment env (refs s3)\<rparr>))
      })"
proof -
  let ?W = "CONFIG_ECMA_REFERENCE_COUNTER_WIDTH env"
  have big: "(1::nat) < 2 ^ ?W" using mx by simp
  have inc: "refs_increment env (refs s) = 0"
    using mx(1) by (simp add: refs_increment_def)
  have r: "refs s = 2 ^ ?W - 1" using mx(1) by simp
  have dec: "refs_decrement env 0 = refs s"
    using r big by (simp add: refs_decrement_def)
  have h2: "set_string (set_string h p (s\<lparr>refs := 0\<rparr>)) p (s\<lparr>refs := refs s\<rparr>) = h"
    using pool by (simp add: set_string_def fun_upd_idem)
  show ?thesis
    using pool mx(2) inc dec after h2
    by (simp add: ecma_copy_or_ref_ecma_string_def JERRY_ASSERT_def Let_def eq_commute [of "refs s"])
qed

lemma copy_same_payload:
  assumes pool: "string_pool h p = Some s" and pos: "0 < refs s"
    and c: "container s \<noteq> ECMA_STRING_CONTAINER_HEAP_CHUNKS"
           "container s \<noteq> ECMA_STRING_CONTAINER_HEAP_NUMBER"
    and free: "free_strings h = np # fs"
  shows "ecma_copy_ecma_string env h p =
           Some (np, set_string (h\<lparr>free_strings := fs\<rparr>) np (s\<lparr>refs := 1\<rparr>))"
  using pool pos c free
  by (cases "container s")
     (simp_all add: ecma_copy_ecma_string_def JERRY_ASSERT_def ecma_alloc_string_def
        JERRY_ASSERT_heap_def ecma_compare_ecma_strings_def)

lemma copy_heap_chunks:
  assumes pool: "string_pool h p = Some s" and pos: "0 < refs s"
    and c: "container s = ECMA_STRING_CONTAINER_HEAP_CHUNKS"
    and chunk: "u_common_field s \<noteq> MEM_CP_NULL" "chunk_pool h (u_common_field s) = Some data"
               "unat (hdr_size data) \<le> length (chunk_bytes data)"
    and free: "free_strings h = np # fs" "free_cps h = ncp # fc"
  shows "ecma_copy_ecma_string env h p =
      Some (np, set_string (h\<lparr>free_strings := fs, free_cps := fc,
              chunk_pool := (chunk_pool h)(ncp \<mapsto> data\<lparr>chunk_bytes := take (unat (hdr_size data)) (chunk_bytes data)\<rparr>)\<rparr>) np s)"
  using pool pos c chunk free
  by (simp add: ecma_copy_ecma_string_def JERRY_ASSERT_def ecma_alloc_string_def
      ECMA_GET_NON_NULL_POINTER_def mem_heap_alloc_block_def block_read_def set_string_def
      JERRY_ASSERT_heap_def compare_same)

lemma copy_heap_number:
  assumes pool: "string_pool h p = Some s" and pos: "0 < refs s"
    and c: "container s = ECMA_STRING_CONTAINER_HEAP_NUMBER"
    and num: "u_common_field s \<noteq> MEM_CP_NULL" "number_pool h (u_common_field s) = Some num"
    and canon: "heap_number_canonical env h s"
    and hs: "hash s = lit_utf8_string_calc_hash env (ecma_number_to_utf8_string env num)"
    and free: "free_strings h = np # fs" "free_cps h = ncp # fc"
    and fresh: "ncp \<noteq> MEM_CP_NULL" "number_pool h ncp = None"
  shows "ecma_copy_ecma_string env h p =
      Some (np, set_string (h\<lparr>free_strings := fs, free_cps := fc,
              number_pool := (number_pool h)(ncp \<mapsto> num)\<rparr>) np
              \<lparr>refs = 1, container = ECMA_STRING_CONTAINER_HEAP_NUMBER,
               hash = lit_utf8_string_calc_hash env (ecma_number_to_utf8_string env num),
               u_common_field = ncp\<rparr>)"
proof -
  let ?str = "ecma_number_to_utf8_string env num"
  let ?new = "\<lparr>refs = 1, container = ECMA_STRING_CONTAINER_HEAP_NUMBER,
               hash = lit_utf8_string_calc_hash env ?str, u_common_field = ncp\<rparr>"
  let ?h' = "set_string (h\<lparr>free_strings := fs, free_cps := fc,
              number_pool := (number_pool h)(ncp \<mapsto> num)\<rparr>) np ?new"
  from canon c num have cn:
      "\<not> ecma_number_eq env num (ecma_uint32_to_number env (ecma_number_to_uint32 env num))"
      "lit_is_utf8_string_magic env ?str = None"
      "lit_is_ex_utf8_string_magic env ?str = None"
      "ecma_number_is_nan env num \<or> ecma_number_eq env num num"
    by (simp_all add: heap_number_canonical_def ECMA_GET_NON_NULL_POINTER_def)
  have ne: "ncp \<noteq> u_common_field s" using num(2) fresh(2) by auto
  have fn: "ecma_new_ecma_string_from_number env h num = Some (np, ?h')"
    using cn free
    by (simp add: ecma_new_ecma_string_from_number_def Let_def ecma_alloc_string_def
        ecma_alloc_number_def)
  have sz: "ecma_string_get_size env ?h' s = Some (length ?str)"
      "ecma_string_get_size env ?h' ?new = Some (length ?str)"
    using c num ne fresh(1)
    by (simp_all add: ecma_string_get_size_def ecma_string_get_heap_number_size_def
        ECMA_GET_NON_NULL_POINTER_def set_string_def)
  have nums: "ECMA_GET_NON_NULL_POINTER (number_pool ?h') (u_common_field s) = Some num"
      "ECMA_GET_NON_NULL_POINTER (number_pool ?h') ncp = Some num"
    using num ne fresh(1) by (simp_all add: ECMA_GET_NON_NULL_POINTER_def set_string_def)
  have "ecma_compare_ecma_strings_longpath_sizes env ?h' s ?new = Some (True, ?h')"
    using sz c nums cn(4)
    by (cases "?str = []")
       (auto simp add: ecma_compare_ecma_strings_longpath_sizes_def)
  then have cmp: "ecma_compare_ecma_strings env ?h' s ?new = Some (True, ?h')"
    using hs c ne
    by (auto simp: ecma_compare_ecma_strings_def ecma_compare_ecma_strings_longpath_def
        JERRY_ASSERT_def)
  have sp: "string_pool ?h' np = Some ?new" by (simp add: set_string_def)
  show ?thesis
    using pool pos c num fn sp cmp
    by (simp add: ecma_copy_ecma_string_def JERRY_ASSERT_def ECMA_GET_NON_NULL_POINTER_def
        JERRY_ASSERT_heap_def del: set_string_pools)
qed


lemma refs_only_size:
  "ecma_string_get_size env h (s\<lparr>refs := r\<rparr>) = ecma_string_get_size env h s"
  by (cases "container s") (simp_all add: ecma_string_get_size_def)

text \<open>
  \<^verbatim>\<open>ecma_copy_or_ref_ecma_string\<close> on a descriptor in good order returns a
  descriptor with the same bytes, size and length: the descriptor itself with its
  counter incremented, or, when the counter is saturated and the collector has not
  lowered it, a copy.
\<close>

lemma copy_spec:
  assumes hok: "heap_ok h"
    and pool: "string_pool h p = Some s" and ok: "ecma_string_ok env h s"
    and bs: "ecma_string_bytes env h s = Some bs"
    and len: "ecma_string_get_length env h s = Some n"
    and canon: "heap_number_canonical env h s"
    and hash: "hash s = lit_utf8_string_calc_hash env bs"
    and free: "free_strings h \<noteq> []" "free_cps h \<noteq> []"
  shows "\<exists>pc h' c. ecma_copy_ecma_string env h p = Some (pc, h')
           \<and> string_pool h' pc = Some c
           \<and> ecma_string_bytes env h' c = Some bs
           \<and> ecma_string_get_size env h' c = Some (length bs)
           \<and> ecma_string_get_length env h' c = Some n
           \<and> pc \<noteq> p \<and> string_pool h' p = Some s"
proof -
  obtain np fs where fs: "free_strings h = np # fs" using free(1) by (cases "free_strings h") auto
  obtain ncp fc where fc: "free_cps h = ncp # fc" using free(2) by (cases "free_cps h") auto
  have pos: "0 < refs s" using ok by (simp add: ecma_string_ok_def)
  have sz: "ecma_string_get_size env h s = Some (length bs)" using ok bs by (rule ok_size)
  have fresh: "string_pool h np = None" "ncp \<noteq> MEM_CP_NULL" "chunk_pool h ncp = None"
      "number_pool h ncp = None"
    using hok fs fc by (simp_all add: heap_ok_def)
  have np: "np \<noteq> p" using pool fresh(1) by auto
  consider (chunks) "container s = ECMA_STRING_CONTAINER_HEAP_CHUNKS"
    | (number) "container s = ECMA_STRING_CONTAINER_HEAP_NUMBER"
    | (other) "container s \<noteq> ECMA_STRING_CONTAINER_HEAP_CHUNKS"
              "container s \<noteq> ECMA_STRING_CONTAINER_HEAP_NUMBER"
    by blast
  then show ?thesis
  proof cases
    case chunks
    obtain data where d: "u_common_field s \<noteq> MEM_CP_NULL" "chunk_pool h (u_common_field s) = Some data"
        "unat (hdr_size data) = length (chunk_bytes data)"
      using ok chunks
      by (auto simp: ecma_string_ok_def ECMA_GET_NON_NULL_POINTER_def split: option.splits if_splits)
    let ?h = "set_string (h\<lparr>free_strings := fs, free_cps := fc,
            chunk_pool := (chunk_pool h)(ncp \<mapsto> data\<lparr>chunk_bytes := take (unat (hdr_size data)) (chunk_bytes data)\<rparr>)\<rparr>) np s"
    have le: "unat (hdr_size data) \<le> length (chunk_bytes data)" using d(3) by simp
    have r: "ecma_copy_ecma_string env h p = Some (np, ?h)"
      by (rule copy_heap_chunks [OF pool pos chunks d(1,2) le fs fc])
    have ml: "chunk_pool h \<subseteq>\<^sub>m chunk_pool ?h"
      using fresh(3) by (auto simp: map_le_def)
    have nm: "number_pool ?h = number_pool h" by simp
    note fr = frame_read [OF ml nm ok]
    have "ecma_string_get_size env ?h s = Some (length bs)"
      using ok_size [OF fr(1)] fr(2) bs by simp
    then show ?thesis
      using r fr bs len np pool by (simp add: set_string_def)
  next
    case number
    obtain num where d: "u_common_field s \<noteq> MEM_CP_NULL" "number_pool h (u_common_field s) = Some num"
      using ok number
      by (auto simp: ecma_string_ok_def ECMA_GET_NON_NULL_POINTER_def split: option.splits if_splits)
    let ?str = "ecma_number_to_utf8_string env num"
    let ?new = "\<lparr>refs = 1, container = ECMA_STRING_CONTAINER_HEAP_NUMBER,
             hash = lit_utf8_string_calc_hash env ?str, u_common_field = ncp\<rparr>"
    let ?h = "set_string (h\<lparr>free_strings := fs, free_cps := fc,
            number_pool := (number_pool h)(ncp \<mapsto> num)\<rparr>) np ?new"
    have b: "bs = ?str"
      using bs number d by (simp add: ecma_string_bytes_def ECMA_GET_NON_NULL_POINTER_def)
    have n: "n = length ?str"
      using len number d
      by (simp add: ecma_string_get_length_def ecma_string_get_heap_number_size_def
          ECMA_GET_NON_NULL_POINTER_def)
    have hs: "hash s = lit_utf8_string_calc_hash env ?str"
      using hash b by simp
    have r: "ecma_copy_ecma_string env h p = Some (np, ?h)"
      by (rule copy_heap_number [OF pool pos number d canon hs fs fc fresh(2,4)])
    have "ecma_string_bytes env ?h ?new = Some bs"
        "ecma_string_get_size env ?h ?new = Some (length bs)"
        "ecma_string_get_length env ?h ?new = Some n"
      using b n fresh(2)
      by (simp_all add: ecma_string_bytes_def ecma_string_get_size_def ecma_string_get_length_def
          ecma_string_get_heap_number_size_def ECMA_GET_NON_NULL_POINTER_def)
    then show ?thesis
      using r np pool by (simp add: set_string_def)
  next
    case other
    let ?c = "s\<lparr>refs := 1\<rparr>"
    let ?h = "set_string (h\<lparr>free_strings := fs\<rparr>) np ?c"
    have r: "ecma_copy_ecma_string env h p = Some (np, ?h)"
      by (rule copy_same_payload [OF pool pos other fs])
    have "ecma_string_bytes env ?h ?c = Some bs"
      using bs by (simp add: read_set_string refs_only_read bytes_heap_cong [of "h\<lparr>free_strings := fs\<rparr>" h])
    moreover have "ecma_string_get_size env ?h ?c = Some (length bs)"
      using sz by (simp add: read_set_string refs_only_size get_size_heap_cong [of "h\<lparr>free_strings := fs\<rparr>" h])
    moreover have "ecma_string_get_length env ?h ?c = Some n"
      using len by (simp add: read_set_string refs_only_read get_length_heap_cong [of "h\<lparr>free_strings := fs\<rparr>" h])
    ultimately show ?thesis
      using r np pool by (simp add: set_string_def)
  qed
qed

lemma copy_or_ref_spec:
  assumes pool: "string_pool h p = Some s" and ok: "ecma_string_ok env h s"
    and fits: "refs s < 2 ^ CONFIG_ECMA_REFERENCE_COUNTER_WIDTH env"
    and bs: "ecma_string_bytes env h s = Some bs"
    and len: "ecma_string_get_length env h s = Some n"
    and gc: "refs s + 1 = 2 ^ CONFIG_ECMA_REFERENCE_COUNTER_WIDTH env \<Longrightarrow> gc_keeps env h p s"
    and hash: "ecma_string_hash_ok env h s"
  shows "\<exists>pc h' c. ecma_copy_or_ref_ecma_string env h p = Some (pc, h')
           \<and> string_pool h' pc = Some c
           \<and> ecma_string_bytes env h' c = Some bs
           \<and> ecma_string_get_size env h' c = Some (length bs)
           \<and> ecma_string_get_length env h' c = Some n
           \<and> acquired env h p s pc h' c"
proof -
  let ?W = "CONFIG_ECMA_REFERENCE_COUNTER_WIDTH env"
  have pos: "0 < refs s" using ok by (simp add: ecma_string_ok_def)
  have sz: "ecma_string_get_size env h s = Some (length bs)" using ok bs by (rule ok_size)
  have hs: "hash s = lit_utf8_string_calc_hash env bs"
    using hash bs by (simp add: ecma_string_hash_ok_def)
  show ?thesis
  proof (cases "refs s + 1 < 2 ^ ?W")
    case True
    let ?c = "s\<lparr>refs := refs s + 1\<rparr>"
    let ?h = "set_string h p ?c"
    have r: "ecma_copy_or_ref_ecma_string env h p = Some (p, ?h)"
      by (rule copy_or_ref_no_overflow [OF pool pos True])
    have "ecma_string_bytes env ?h ?c = Some bs"
      using bs by (simp add: read_set_string refs_only_read)
    moreover have "ecma_string_get_size env ?h ?c = Some (length bs)"
      using sz by (simp add: read_set_string refs_only_size)
    moreover have "ecma_string_get_length env ?h ?c = Some n"
      using len by (simp add: read_set_string refs_only_read)
    ultimately show ?thesis using r True by (simp add: acquired_def)
  next
    case False
    with fits have mx: "refs s + 1 = 2 ^ ?W" by simp
    let ?h3 = "ecma_gc_run env (ecma_lcache_invalidate_all env h)"
    from gc [OF mx] obtain s3 where k: "heap_ok ?h3" "free_strings ?h3 \<noteq> []" "free_cps ?h3 \<noteq> []"
        "string_pool ?h3 p = Some s3" "s3\<lparr>refs := refs s\<rparr> = s" "0 < refs s3" "refs s3 \<le> refs s"
        "ecma_string_ok env ?h3 s" "ecma_string_bytes env ?h3 s = Some bs"
        "ecma_string_get_length env ?h3 s = Some n" "heap_number_canonical env ?h3 s"
      using bs len by (auto simp: gc_keeps_def Let_def split: option.splits)
    note cr = copy_or_ref_saturated [OF pool mx pos k(4)]
    show ?thesis
    proof (cases "refs s3 = refs s")
      case True
      with k(5) have "s3 = s" by (metis ecma_string_t.update_convs(1) ecma_string_t.surjective
            ecma_string_t.select_convs(1) ecma_string_t.equality)
      then have pool3: "string_pool ?h3 p = Some s" using k(4) by simp
      from copy_spec [OF k(1) pool3 k(8) k(9) k(10) k(11) hs k(2,3)]
      obtain pc h' c where r: "ecma_copy_ecma_string env ?h3 p = Some (pc, h')"
        and c: "string_pool h' pc = Some c" "ecma_string_bytes env h' c = Some bs"
          "ecma_string_get_size env h' c = Some (length bs)"
          "ecma_string_get_length env h' c = Some n" "pc \<noteq> p" "string_pool h' p = Some s"
        by blast
      have "acquired env h p s pc h' c"
        using False True k(4) c(5,6) by (simp add: acquired_def)
      then show ?thesis using cr r c True by simp
    next
      case ne: False
      with k(7) have lt: "refs s3 < refs s" by simp
      then have inc: "refs_increment env (refs s3) = refs s3 + 1"
        using mx by (simp add: refs_increment_def)
      have eq: "s3\<lparr>refs := refs s3 + 1\<rparr> = s\<lparr>refs := refs s3 + 1\<rparr>"
        using k(5) by (metis ecma_string_t.update_convs(1) ecma_string_t.surjective
            ecma_string_t.equality ecma_string_t.select_convs)
      let ?c = "s\<lparr>refs := refs s3 + 1\<rparr>"
      let ?h = "set_string ?h3 p ?c"
      have r: "ecma_copy_or_ref_ecma_string env h p = Some (p, ?h)"
        using cr ne inc eq by (simp add: JERRY_ASSERT_def)
      have sz3: "ecma_string_get_size env ?h3 s = Some (length bs)" using k(8,9) by (rule ok_size)
      have "ecma_string_bytes env ?h ?c = Some bs"
        using k(9) by (simp add: read_set_string refs_only_read)
      moreover have "ecma_string_get_size env ?h ?c = Some (length bs)"
        using sz3 by (simp add: read_set_string refs_only_size)
      moreover have "ecma_string_get_length env ?h ?c = Some n"
        using k(10) by (simp add: read_set_string refs_only_read)
      moreover have "acquired env h p s p ?h ?c"
        using False lt k(4) by (simp add: acquired_def)
      ultimately show ?thesis using r by simp
    qed
  qed
qed

text \<open>
  C4 (as amended). Let \<open>a\<close> and \<open>b\<close> be descriptors in good order (reference
  counters within their bit field, cached hashes and lengths right) in a heap in good
  order with a free cell in each pool, whose byte sizes sum to less than \<open>2^16\<close> and
  whose lengths in code units sum to less than \<open>2^16\<close>; let the codec count no code
  unit in the empty slice, and let the collector, when it is called for a saturated
  counter, keep the operand and leave a heap in good order. Then
  \<^verbatim>\<open>ecma_concat_ecma_strings\<close> returns a descriptor \<open>c\<close> whose bytes are the bytes
  of \<open>a\<close> followed by those of \<open>b\<close>, whose byte size is the sum of the byte sizes
  and whose length is the sum of the lengths. If \<open>a\<close> has byte size 0 the result is
  what \<^verbatim>\<open>ecma_copy_or_ref_ecma_string\<close> returns for \<open>b\<close>: \<open>b\<close> itself with its
  reference counter incremented when the counter is not saturated or the collector has
  lowered it, and else a new descriptor, \<open>b\<close> and its counter being left as they
  were; the same holds for \<open>a\<close> if only \<open>b\<close> has byte size 0. Otherwise the result
  is a new \<^verbatim>\<open>HEAP_CHUNKS\<close> descriptor with \<open>refs = 1\<close>.
\<close>

theorem ecma_concat_ecma_strings_within_limits:
  assumes hok: "heap_ok h"
    and p1: "string_pool h string1_p = Some a" and p2: "string_pool h string2_p = Some b"
    and ok1: "ecma_string_ok env h a" and ok2: "ecma_string_ok env h b"
    and lok: "ecma_string_length_ok env h a" "ecma_string_length_ok env h b"
    and hash: "ecma_string_hash_ok env h a" "ecma_string_hash_ok env h b"
    and fits: "refs a < 2 ^ CONFIG_ECMA_REFERENCE_COUNTER_WIDTH env"
              "refs b < 2 ^ CONFIG_ECMA_REFERENCE_COUNTER_WIDTH env"
    and b1: "ecma_string_bytes env h a = Some bs1" and b2: "ecma_string_bytes env h b = Some bs2"
    and l1: "ecma_string_get_length env h a = Some len1"
    and l2: "ecma_string_get_length env h b = Some len2"
    and bound: "length bs1 + length bs2 < 2 ^ 16" "len1 + len2 < 2 ^ 16"
    and gc: "bs1 = [] \<Longrightarrow> refs b + 1 = 2 ^ CONFIG_ECMA_REFERENCE_COUNTER_WIDTH env
               \<Longrightarrow> gc_keeps env h string2_p b"
            "bs2 = [] \<Longrightarrow> refs a + 1 = 2 ^ CONFIG_ECMA_REFERENCE_COUNTER_WIDTH env
               \<Longrightarrow> gc_keeps env h string1_p a"
    and free: "free_strings h = p # ps" "free_cps h = cp # cps"
    and codec: "lit_utf8_string_length env [] = 0"
  shows "\<exists>pc h' c. ecma_concat_ecma_strings env h string1_p string2_p = Some (pc, h')
           \<and> string_pool h' pc = Some c
           \<and> ecma_string_bytes env h' c = Some (bs1 @ bs2)
           \<and> ecma_string_get_size env h' c = Some (length bs1 + length bs2)
           \<and> ecma_string_get_length env h' c = Some (len1 + len2)
           \<and> (bs1 = [] \<longrightarrow>
                 ecma_copy_or_ref_ecma_string env h string2_p = Some (pc, h')
                 \<and> acquired env h string2_p b pc h' c)
           \<and> (bs1 \<noteq> [] \<and> bs2 = [] \<longrightarrow>
                 ecma_copy_or_ref_ecma_string env h string1_p = Some (pc, h')
                 \<and> acquired env h string1_p a pc h' c)
           \<and> (bs1 \<noteq> [] \<and> bs2 \<noteq> [] \<longrightarrow>
                 pc = p \<and> refs c = 1 \<and> container c = ECMA_STRING_CONTAINER_HEAP_CHUNKS)"
proof -
  let ?W = "CONFIG_ECMA_REFERENCE_COUNTER_WIDTH env"
  have sz1: "ecma_string_get_size env h a = Some (length bs1)" using ok1 b1 by (rule ok_size)
  have sz2: "ecma_string_get_size env h b = Some (length bs2)" using ok2 b2 by (rule ok_size)
  consider (first) "bs1 = []" | (second) "bs1 \<noteq> []" "bs2 = []" | (both) "bs1 \<noteq> []" "bs2 \<noteq> []"
    by blast
  then show ?thesis
  proof cases
    case first
    have len1: "len1 = 0"
      using size0_length0 [OF ok1 lok(1) _ codec] sz1 first l1 by simp
    from copy_or_ref_spec [OF p2 ok2 fits(2) b2 l2 gc(1) [OF first] hash(2)]
    obtain pc h' c where r: "ecma_copy_or_ref_ecma_string env h string2_p = Some (pc, h')"
      and c: "string_pool h' pc = Some c" "ecma_string_bytes env h' c = Some bs2"
        "ecma_string_get_size env h' c = Some (length bs2)"
        "ecma_string_get_length env h' c = Some len2"
        "acquired env h string2_p b pc h' c"
      by blast
    have "ecma_concat_ecma_strings env h string1_p string2_p = Some (pc, h')"
      using p1 p2 sz1 sz2 first r by (simp add: ecma_concat_ecma_strings_def)
    then show ?thesis using r c first len1 by auto
  next
    case second
    have len2: "len2 = 0"
      using size0_length0 [OF ok2 lok(2) _ codec] sz2 second l2 by simp
    from copy_or_ref_spec [OF p1 ok1 fits(1) b1 l1 gc(2) [OF second(2)] hash(1)]
    obtain pc h' c where r: "ecma_copy_or_ref_ecma_string env h string1_p = Some (pc, h')"
      and c: "string_pool h' pc = Some c" "ecma_string_bytes env h' c = Some bs1"
        "ecma_string_get_size env h' c = Some (length bs1)"
        "ecma_string_get_length env h' c = Some len1"
        "acquired env h string1_p a pc h' c"
      by blast
    have "ecma_concat_ecma_strings env h string1_p string2_p = Some (pc, h')"
      using p1 p2 sz1 sz2 second r by (simp add: ecma_concat_ecma_strings_def)
    then show ?thesis using r c second len2 by auto
  next
    case both
    have nn: "cp \<noteq> MEM_CP_NULL" using hok free by (simp add: heap_ok_def)
    have small: "length bs1 + length bs2 < 2 ^ 32" using bound(1) by simp
    note r = concat_nonempty [OF p1 p2 ok1 ok2 b1 b2 both small l1 l2 free nn]
    show ?thesis
      using both bound nn
      by (simp add: r ecma_string_bytes_def ecma_string_get_size_def ecma_string_get_length_def
          ECMA_GET_NON_NULL_POINTER_def block_read_def unat_word16 del: of_nat_add)
  qed
qed

lemma example_heap_ok: "heap_ok example_heap"
  by (simp add: heap_ok_def example_heap_def MEM_CP_NULL_def)

lemma example_heap_max_ok: "heap_ok example_heap_max"
  by (simp add: heap_ok_def example_heap_max_def example_heap_def set_string_def MEM_CP_NULL_def)

theorem ecma_concat_ecma_strings_within_limits_witness:
  "heap_ok example_heap
   \<and> string_pool example_heap 10 = Some example_string_hi
   \<and> ecma_string_ok example_env example_heap example_string_hi
   \<and> ecma_string_bytes example_env example_heap example_string_hi = Some [104, 105]
   \<and> ecma_string_get_length example_env example_heap example_string_hi = Some 2
   \<and> (\<exists>h' c. ecma_concat_ecma_strings example_env example_heap 10 10 = Some (20, h')
          \<and> string_pool h' 20 = Some c
          \<and> ecma_string_bytes example_env h' c = Some [104, 105, 104, 105]
          \<and> ecma_string_get_size example_env h' c = Some 4
          \<and> ecma_string_get_length example_env h' c = Some 4
          \<and> refs c = 1 \<and> container c = ECMA_STRING_CONTAINER_HEAP_CHUNKS)
   \<and> heap_ok example_heap_max
   \<and> string_pool example_heap_max 11 = Some example_string_empty
   \<and> string_pool example_heap_max 10 = Some example_string_hi_max
   \<and> ecma_string_bytes example_env example_heap_max example_string_empty = Some []
   \<and> ecma_string_bytes example_env example_heap_max example_string_hi_max = Some [104, 105]
   \<and> refs example_string_hi_max + 1 = 2 ^ CONFIG_ECMA_REFERENCE_COUNTER_WIDTH example_env
   \<and> gc_keeps example_env example_heap_max 10 example_string_hi_max
   \<and> (\<exists>pc h' c. ecma_concat_ecma_strings example_env example_heap_max 11 10 = Some (pc, h')
          \<and> string_pool h' pc = Some c
          \<and> ecma_string_bytes example_env h' c = Some [104, 105]
          \<and> ecma_string_get_size example_env h' c = Some 2
          \<and> ecma_string_get_length example_env h' c = Some 2
          \<and> pc \<noteq> 10
          \<and> string_pool h' 10 = Some example_string_hi_max)
   \<and> heap_ok example_heap_number
   \<and> string_pool example_heap_number 12 = Some example_string_minus3_max
   \<and> ecma_string_bytes example_env example_heap_number example_string_minus3_max = Some [45, 51]
   \<and> refs example_string_minus3_max + 1 = 2 ^ CONFIG_ECMA_REFERENCE_COUNTER_WIDTH example_env
   \<and> gc_keeps example_env example_heap_number 12 example_string_minus3_max
   \<and> (\<exists>pc h' c. ecma_concat_ecma_strings example_env example_heap_number 12 11 = Some (pc, h')
          \<and> string_pool h' pc = Some c
          \<and> ecma_string_bytes example_env h' c = Some [45, 51]
          \<and> ecma_string_get_size example_env h' c = Some 2
          \<and> ecma_string_get_length example_env h' c = Some 2
          \<and> pc \<noteq> 12
          \<and> string_pool h' 12 = Some example_string_minus3_max)"
proof -
  let ?W = "CONFIG_ECMA_REFERENCE_COUNTER_WIDTH example_env"
  \<comment> \<open>the heap string with itself\<close>
  have p: "string_pool example_heap 10 = Some example_string_hi"
    by (simp add: example_heap_def example_string_hi_def)
  have hash: "ecma_string_hash_ok example_env example_heap example_string_hi"
    using example_string_hi_bytes
    by (simp add: ecma_string_hash_ok_def example_string_hi_def example_env_def
        example_hash_combine_def)
  have fits: "refs example_string_hi < 2 ^ ?W"
    by (simp add: example_string_hi_def example_env_def)
  have bound: "length [104, 105 :: 8 word] + length [104, 105 :: 8 word] < 2 ^ 16"
       "(2::nat) + 2 < 2 ^ 16"
    by simp_all
  have gc: "[104, 105 :: 8 word] = [] \<Longrightarrow> refs example_string_hi + 1 = 2 ^ ?W
             \<Longrightarrow> gc_keeps example_env example_heap 10 example_string_hi"
    by simp
  have codec: "lit_utf8_string_length example_env [] = 0"
    by (simp add: example_env_def)
  note one = ecma_concat_ecma_strings_within_limits [OF example_heap_ok p p
      example_string_hi_ok example_string_hi_ok
      example_string_hi_length_ok example_string_hi_length_ok hash hash fits fits
      example_string_hi_bytes example_string_hi_bytes
      example_string_hi_length example_string_hi_length bound gc gc
      example_heap_free_strings example_heap_free_cps codec]
  \<comment> \<open>the empty string with the saturated heap string\<close>
  have q1: "string_pool example_heap_max 11 = Some example_string_empty"
    by (simp add: example_heap_max_def example_heap_def set_string_def example_string_empty_def)
  have q2: "string_pool example_heap_max 10 = Some example_string_hi_max"
    by (simp add: example_heap_max_def set_string_def)
  have ok1: "ecma_string_ok example_env example_heap_max example_string_empty"
    by (simp add: ecma_string_ok_def example_string_empty_def example_env_def)
  have ok2: "ecma_string_ok example_env example_heap_max example_string_hi_max"
    by (simp add: ecma_string_ok_def example_string_hi_max_def example_string_hi_def
        example_heap_max_def example_heap_def set_string_def
        ECMA_GET_NON_NULL_POINTER_def MEM_CP_NULL_def)
  have lok1: "ecma_string_length_ok example_env example_heap_max example_string_empty"
    by (simp add: ecma_string_length_ok_def example_string_empty_def)
  have lok2: "ecma_string_length_ok example_env example_heap_max example_string_hi_max"
    by (simp add: ecma_string_length_ok_def example_string_hi_max_def example_string_hi_def
        example_heap_max_def example_heap_def set_string_def example_env_def
        ECMA_GET_NON_NULL_POINTER_def MEM_CP_NULL_def)
  have c1: "ecma_string_bytes example_env example_heap_max example_string_empty = Some []"
    by (simp add: ecma_string_bytes_def example_string_empty_def example_env_def
        lit_get_magic_string_utf8_def)
  have c2: "ecma_string_bytes example_env example_heap_max example_string_hi_max = Some [104, 105]"
    by (simp add: ecma_string_bytes_def example_string_hi_max_def example_string_hi_def
        example_heap_max_def example_heap_def set_string_def
        ECMA_GET_NON_NULL_POINTER_def MEM_CP_NULL_def block_read_def)
  have hash1: "ecma_string_hash_ok example_env example_heap_max example_string_empty"
    using c1 by (simp add: ecma_string_hash_ok_def example_string_empty_def example_env_def
        example_hash_combine_def)
  have hash2: "ecma_string_hash_ok example_env example_heap_max example_string_hi_max"
    using c2 by (simp add: ecma_string_hash_ok_def example_string_hi_max_def example_string_hi_def
        example_env_def example_hash_combine_def)
  have fits1: "refs example_string_empty < 2 ^ ?W"
    by (simp add: example_string_empty_def example_env_def)
  have fits2: "refs example_string_hi_max < 2 ^ ?W"
    by (simp add: example_string_hi_max_def example_env_def)
  have sat: "refs example_string_hi_max + 1 = 2 ^ ?W"
    by (simp add: example_string_hi_max_def example_env_def)
  have m1: "ecma_string_get_length example_env example_heap_max example_string_empty = Some 0"
    by (simp add: ecma_string_get_length_def example_string_empty_def example_env_def
        lit_get_magic_string_utf8_def)
  have m2: "ecma_string_get_length example_env example_heap_max example_string_hi_max = Some 2"
    by (simp add: ecma_string_get_length_def example_string_hi_max_def example_string_hi_def
        example_heap_max_def example_heap_def set_string_def
        ECMA_GET_NON_NULL_POINTER_def MEM_CP_NULL_def)
  have bound': "length ([] :: 8 word list) + length [104, 105 :: 8 word] < 2 ^ 16"
       "(0::nat) + 2 < 2 ^ 16"
    by simp_all
  have idle: "ecma_gc_run example_env (ecma_lcache_invalidate_all example_env example_heap_max)
                = example_heap_max"
    by (simp add: example_env_def)
  have fs: "free_strings example_heap_max = 20 # [21, 22, 23]"
    by (simp add: example_heap_max_def example_heap_def set_string_def)
  have fc: "free_cps example_heap_max = 30 # [31, 32, 33]"
    by (simp add: example_heap_max_def example_heap_def set_string_def)
  have canon2: "heap_number_canonical example_env example_heap_max example_string_hi_max"
    by (simp add: heap_number_canonical_def example_string_hi_max_def example_string_hi_def)
  have keeps: "gc_keeps example_env example_heap_max 10 example_string_hi_max"
    using example_heap_max_ok q2 ok2 canon2 fs fc
    by (simp add: gc_keeps_def idle) (simp add: example_string_hi_max_def)
  have gc1: "([] :: 8 word list) = [] \<Longrightarrow> refs example_string_hi_max + 1 = 2 ^ ?W
             \<Longrightarrow> gc_keeps example_env example_heap_max 10 example_string_hi_max"
    using keeps by simp
  have gc2: "[104, 105 :: 8 word] = [] \<Longrightarrow> refs example_string_empty + 1 = 2 ^ ?W
             \<Longrightarrow> gc_keeps example_env example_heap_max 11 example_string_empty"
    by simp
  note two = ecma_concat_ecma_strings_within_limits [OF example_heap_max_ok q1 q2 ok1 ok2
      lok1 lok2 hash1 hash2 fits1 fits2 c1 c2 m1 m2 bound' gc1 gc2 fs fc codec]
  have acq: "\<And>pc h' c. acquired example_env example_heap_max 10 example_string_hi_max pc h' c
               \<Longrightarrow> pc \<noteq> 10 \<and> string_pool h' 10 = Some example_string_hi_max"
    using sat q2 by (simp add: acquired_def idle)
  \<comment> \<open>the saturated heap number with the empty string\<close>
  have nok: "heap_ok example_heap_number"
    by (simp add: heap_ok_def example_heap_number_def MEM_CP_NULL_def)
  have n1: "string_pool example_heap_number 12 = Some example_string_minus3_max"
    by (simp add: example_heap_number_def)
  have n2: "string_pool example_heap_number 11 = Some example_string_empty"
    by (simp add: example_heap_number_def)
  have str3: "example_number_to_utf8_string (Some (- 3)) = [45, 51]"
    by (simp add: example_number_to_utf8_string_def uint32_decimal_digits.simps [of 3])
  have nok1: "ecma_string_ok example_env example_heap_number example_string_minus3_max"
    by (simp add: ecma_string_ok_def example_string_minus3_max_def example_heap_number_def
        ECMA_GET_NON_NULL_POINTER_def MEM_CP_NULL_def)
  have nok2: "ecma_string_ok example_env example_heap_number example_string_empty"
    by (simp add: ecma_string_ok_def example_string_empty_def example_env_def)
  have nlok1: "ecma_string_length_ok example_env example_heap_number example_string_minus3_max"
    by (simp add: ecma_string_length_ok_def example_string_minus3_max_def)
  have nlok2: "ecma_string_length_ok example_env example_heap_number example_string_empty"
    by (simp add: ecma_string_length_ok_def example_string_empty_def)
  have nb1: "ecma_string_bytes example_env example_heap_number example_string_minus3_max = Some [45, 51]"
    by (simp add: ecma_string_bytes_def example_string_minus3_max_def example_heap_number_def
        ECMA_GET_NON_NULL_POINTER_def MEM_CP_NULL_def example_env_def str3)
  have nb2: "ecma_string_bytes example_env example_heap_number example_string_empty = Some []"
    by (simp add: ecma_string_bytes_def example_string_empty_def example_env_def
        lit_get_magic_string_utf8_def)
  have nh1: "ecma_string_hash_ok example_env example_heap_number example_string_minus3_max"
    using nb1 by (simp add: ecma_string_hash_ok_def example_string_minus3_max_def example_env_def
        example_hash_combine_def)
  have nh2: "ecma_string_hash_ok example_env example_heap_number example_string_empty"
    using nb2 by (simp add: ecma_string_hash_ok_def example_string_empty_def example_env_def
        example_hash_combine_def)
  have nf1: "refs example_string_minus3_max < 2 ^ ?W"
    by (simp add: example_string_minus3_max_def example_env_def)
  have nsat: "refs example_string_minus3_max + 1 = 2 ^ ?W"
    by (simp add: example_string_minus3_max_def example_env_def)
  have nl1: "ecma_string_get_length example_env example_heap_number example_string_minus3_max = Some 2"
    by (simp add: ecma_string_get_length_def ecma_string_get_heap_number_size_def
        example_string_minus3_max_def example_heap_number_def
        ECMA_GET_NON_NULL_POINTER_def MEM_CP_NULL_def example_env_def str3)
  have nl2: "ecma_string_get_length example_env example_heap_number example_string_empty = Some 0"
    by (simp add: ecma_string_get_length_def example_string_empty_def example_env_def
        lit_get_magic_string_utf8_def)
  have nbound: "length [45, 51 :: 8 word] + length ([] :: 8 word list) < 2 ^ 16"
       "(2::nat) + 0 < 2 ^ 16"
    by simp_all
  have nidle: "ecma_gc_run example_env (ecma_lcache_invalidate_all example_env example_heap_number)
                = example_heap_number"
    by (simp add: example_env_def)
  have ncanon: "heap_number_canonical example_env example_heap_number example_string_minus3_max"
    by (simp add: heap_number_canonical_def example_string_minus3_max_def example_heap_number_def
        ECMA_GET_NON_NULL_POINTER_def MEM_CP_NULL_def example_env_def str3
        lit_is_utf8_string_magic_def lit_is_ex_utf8_string_magic_def)
  have nfs: "free_strings example_heap_number = 20 # [21, 22, 23]"
    by (simp add: example_heap_number_def)
  have nfc: "free_cps example_heap_number = 30 # [31, 32, 33]"
    by (simp add: example_heap_number_def)
  have nkeeps: "gc_keeps example_env example_heap_number 12 example_string_minus3_max"
    using nok n1 nok1 ncanon nfs nfc
    by (simp add: gc_keeps_def nidle) (simp add: example_string_minus3_max_def)
  have ngc1: "[45, 51 :: 8 word] = [] \<Longrightarrow> refs example_string_empty + 1 = 2 ^ ?W
             \<Longrightarrow> gc_keeps example_env example_heap_number 11 example_string_empty"
    by simp
  have ngc2: "([] :: 8 word list) = [] \<Longrightarrow> refs example_string_minus3_max + 1 = 2 ^ ?W
             \<Longrightarrow> gc_keeps example_env example_heap_number 12 example_string_minus3_max"
    using nkeeps by simp
  note three = ecma_concat_ecma_strings_within_limits [OF nok n1 n2 nok1 nok2
      nlok1 nlok2 nh1 nh2 nf1 fits1 nb1 nb2 nl1 nl2 nbound ngc1 ngc2 nfs nfc codec]
  have nacq: "\<And>pc h' c. acquired example_env example_heap_number 12 example_string_minus3_max pc h' c
               \<Longrightarrow> pc \<noteq> 12 \<and> string_pool h' 12 = Some example_string_minus3_max"
    using nsat n1 by (simp add: acquired_def nidle)
  have part1: "\<exists>h' c. ecma_concat_ecma_strings example_env example_heap 10 10 = Some (20, h')
          \<and> string_pool h' 20 = Some c
          \<and> ecma_string_bytes example_env h' c = Some [104, 105, 104, 105]
          \<and> ecma_string_get_size example_env h' c = Some 4
          \<and> ecma_string_get_length example_env h' c = Some 4
          \<and> refs c = 1 \<and> container c = ECMA_STRING_CONTAINER_HEAP_CHUNKS"
    using one by auto
  have part2: "\<exists>pc h' c. ecma_concat_ecma_strings example_env example_heap_max 11 10 = Some (pc, h')
          \<and> string_pool h' pc = Some c
          \<and> ecma_string_bytes example_env h' c = Some [104, 105]
          \<and> ecma_string_get_size example_env h' c = Some 2
          \<and> ecma_string_get_length example_env h' c = Some 2
          \<and> pc \<noteq> 10
          \<and> string_pool h' 10 = Some example_string_hi_max"
    using two acq by auto
  have part3: "\<exists>pc h' c. ecma_concat_ecma_strings example_env example_heap_number 12 11 = Some (pc, h')
          \<and> string_pool h' pc = Some c
          \<and> ecma_string_bytes example_env h' c = Some [45, 51]
          \<and> ecma_string_get_size example_env h' c = Some 2
          \<and> ecma_string_get_length example_env h' c = Some 2
          \<and> pc \<noteq> 12
          \<and> string_pool h' 12 = Some example_string_minus3_max"
    using three nacq by auto
  show ?thesis
    using part1 part2 part3 example_heap_ok p example_string_hi_ok example_string_hi_bytes
      example_string_hi_length example_heap_max_ok q1 q2 c1 c2 sat keeps
      nok n1 nb1 nsat nkeeps
    by simp
qed

text \<open>
  The header fields are 16 bits wide: concatenating a heap string of \<open>2^15\<close> bytes
  with itself stores the size \<open>2^16\<close> through the cast \<^verbatim>\<open>(uint16_t) new_size\<close>,
  and the result reads as a string of size 0.
\<close>

lemma example_half_string_length: "length example_half_string = 32768"
  unfolding example_half_string_def by (rule length_replicate)

lemma example_concat_size_wraps:
  "ecma_string_get_size example_env example_heap_half example_string_half = Some 32768
   \<and> (\<exists>h' c. ecma_concat_ecma_strings example_env example_heap_half 10 10 = Some (20, h')
          \<and> string_pool h' 20 = Some c
          \<and> container c = ECMA_STRING_CONTAINER_HEAP_CHUNKS
          \<and> ecma_string_get_size example_env h' c = Some 0)"
proof -
  have p: "string_pool example_heap_half 10 = Some example_string_half"
    by (simp add: example_heap_half_def)
  have u: "unat (32768 :: 16 word) = 32768" by simp
  have ok: "ecma_string_ok example_env example_heap_half example_string_half"
    by (simp add: ecma_string_ok_def example_string_half_def example_heap_half_def
        ECMA_GET_NON_NULL_POINTER_def MEM_CP_NULL_def example_half_string_length)
  have b: "ecma_string_bytes example_env example_heap_half example_string_half = Some example_half_string"
    by (simp add: ecma_string_bytes_def example_string_half_def example_heap_half_def
        ECMA_GET_NON_NULL_POINTER_def MEM_CP_NULL_def block_read_def example_half_string_length)
  have sz: "ecma_string_get_size example_env example_heap_half example_string_half = Some 32768"
    by (simp add: ecma_string_get_size_def example_string_half_def example_heap_half_def
        ECMA_GET_NON_NULL_POINTER_def MEM_CP_NULL_def)
  have l: "ecma_string_get_length example_env example_heap_half example_string_half = Some 32768"
    by (simp add: ecma_string_get_length_def example_string_half_def example_heap_half_def
        ECMA_GET_NON_NULL_POINTER_def MEM_CP_NULL_def)
  have ne: "example_half_string \<noteq> []"
    using example_half_string_length by auto
  have small: "length example_half_string + length example_half_string < 2 ^ 32"
    by (simp add: example_half_string_length)
  have fs: "free_strings example_heap_half = 20 # [21, 22, 23]"
    by (simp add: example_heap_half_def)
  have fc: "free_cps example_heap_half = 30 # [31, 32, 33]"
    by (simp add: example_heap_half_def)
  have nn: "(30 :: 32 word) \<noteq> MEM_CP_NULL" by (simp add: MEM_CP_NULL_def)
  have z: "(word_of_nat 65536 :: 16 word) = 0" by simp
  note r = concat_nonempty [OF p p ok ok b b ne ne small l l fs fc nn]
  show ?thesis
    using sz
    by (simp add: r set_string_def ecma_string_get_size_def ECMA_GET_NON_NULL_POINTER_def
        nn example_half_string_length z)
qed

text \<open>
  C4 (as stated) fails in two ways. When the counter of the returned operand is
  saturated: the first operand is the empty string, the second is the heap string
  \<open>hi\<close> at address 10 with \<open>refs = 2^12 - 1\<close>, and the collector frees nothing;
  the concatenation returns the address 20 of a copy, not the operand at address 10,
  and the counter of the operand is 4095 as before. And when the sizes sum to
  \<open>2^16\<close>: the heap string of \<open>2^15\<close> bytes concatenated with itself gives a
  descriptor of byte size 0.
\<close>

theorem ecma_concat_ecma_strings_saturated_or_long:
  "string_pool example_heap_max 11 = Some example_string_empty
   \<and> ecma_string_get_size example_env example_heap_max example_string_empty = Some 0
   \<and> string_pool example_heap_max 10 = Some example_string_hi_max
   \<and> example_concat_saturated \<noteq> None
   \<and> fst (the example_concat_saturated) = 20
   \<and> fst (the example_concat_saturated) \<noteq> 10
   \<and> string_pool (snd (the example_concat_saturated)) 10 = Some example_string_hi_max
   \<and> refs example_string_hi_max = 4095
   \<and> string_pool example_heap_half 10 = Some example_string_half
   \<and> ecma_string_get_size example_env example_heap_half example_string_half = Some 32768
   \<and> example_concat_half \<noteq> None
   \<and> ecma_string_get_size example_env (snd (the example_concat_half))
        (the (string_pool (snd (the example_concat_half)) (fst (the example_concat_half))))
       = Some 0"
proof -
  have p1: "string_pool example_heap_max 11 = Some example_string_empty"
    by (simp add: example_heap_max_def example_heap_def set_string_def example_string_empty_def)
  have p2: "string_pool example_heap_max 10 = Some example_string_hi_max"
    by (simp add: example_heap_max_def set_string_def)
  have s1: "ecma_string_get_size example_env example_heap_max example_string_empty = Some 0"
    by (simp add: ecma_string_get_size_def example_string_empty_def example_env_def
        lit_get_magic_string_utf8_def)
  have s2: "ecma_string_get_size example_env example_heap_max example_string_hi_max = Some 2"
    by (simp add: ecma_string_get_size_def example_string_hi_max_def example_string_hi_def
        example_heap_max_def example_heap_def set_string_def
        ECMA_GET_NON_NULL_POINTER_def MEM_CP_NULL_def)
  have r: "example_concat_saturated =
     Some (20, set_string
       (example_heap_max\<lparr>free_strings := [21, 22, 23], free_cps := [31, 32, 33],
          chunk_pool := (chunk_pool example_heap_max)(30 \<mapsto>
            \<lparr>hdr_size = 2, hdr_length = 2, chunk_bytes = [104, 105]\<rparr>)\<rparr>)
       20 example_string_hi_max)"
    using p1 p2 s1 s2
    by (simp add: example_concat_saturated_def ecma_concat_ecma_strings_def
        example_copy_or_ref_saturated)
  have sat: "string_pool example_heap_max 11 = Some example_string_empty
   \<and> ecma_string_get_size example_env example_heap_max example_string_empty = Some 0
   \<and> string_pool example_heap_max 10 = Some example_string_hi_max
   \<and> example_concat_saturated \<noteq> None
   \<and> fst (the example_concat_saturated) = 20
   \<and> fst (the example_concat_saturated) \<noteq> 10
   \<and> string_pool (snd (the example_concat_saturated)) 10 = Some example_string_hi_max
   \<and> refs example_string_hi_max = 4095"
    using p1 p2 s1 by (simp add: r set_string_def example_string_hi_max_def)
  have ph: "string_pool example_heap_half 10 = Some example_string_half"
    by (simp add: example_heap_half_def)
  from example_concat_size_wraps obtain h' c where
    w: "ecma_string_get_size example_env example_heap_half example_string_half = Some 32768"
       "ecma_concat_ecma_strings example_env example_heap_half 10 10 = Some (20, h')"
       "string_pool h' 20 = Some c" "ecma_string_get_size example_env h' c = Some 0"
    by blast
  have long: "example_concat_half \<noteq> None
   \<and> ecma_string_get_size example_env (snd (the example_concat_half))
        (the (string_pool (snd (the example_concat_half)) (fst (the example_concat_half))))
       = Some 0"
    using w by (simp add: example_concat_half_def)
  show ?thesis using sat ph w(1) long by blast
qed

end
